theory Spec2Isabelle
  imports Complex_Main
begin

text \<open>
  The module \<open>functions.js\<close> is a set of helpers over a 3D library: \<open>isSupported\<close>,
  \<open>setBackground\<close>, \<open>setResponsive\<close>, \<open>renderText\<close>, \<open>renderShape\<close>, \<open>renderBox\<close>,
  \<open>renderGltfModel\<close>, and the exported list \<open>animationList\<close>. Each function is
  modelled as a function on an explicit world; the callbacks it hands to loaders and
  event targets are functions on the world too, run by the steps of a transition
  system. What the library and the browser compute (a bounding box, a triangulation, a
  layout, what a renderer does to its canvas) is a parameter. A callback given by the
  caller and invoked by the module (the resize policy, the draw callback) is a total
  function on the object it is handed. No statement of the module throws on an options
  object, so the only error channel is \<open>console.error\<close>.
\<close>

section \<open>JavaScript values\<close>

text \<open>
  Numbers are the exact reals extended with the two infinities and NaN. Rounding to a
  double and the sign of zero are not modelled: every zero is the positive zero, which
  is the zero the modelled expressions produce (a difference of equal values, a pixel
  count).
\<close>

datatype jsnum = Fin real | PosInf | NegInf | NaN

fun js_neg :: "jsnum \<Rightarrow> jsnum" where
  "js_neg (Fin a) = Fin (- a)"
| "js_neg PosInf = NegInf"
| "js_neg NegInf = PosInf"
| "js_neg NaN = NaN"

fun js_add :: "jsnum \<Rightarrow> jsnum \<Rightarrow> jsnum" where
  "js_add NaN _ = NaN"
| "js_add _ NaN = NaN"
| "js_add (Fin a) (Fin b) = Fin (a + b)"
| "js_add (Fin a) PosInf = PosInf"
| "js_add (Fin a) NegInf = NegInf"
| "js_add PosInf (Fin b) = PosInf"
| "js_add NegInf (Fin b) = NegInf"
| "js_add PosInf PosInf = PosInf"
| "js_add NegInf NegInf = NegInf"
| "js_add PosInf NegInf = NaN"
| "js_add NegInf PosInf = NaN"

definition js_sub :: "jsnum \<Rightarrow> jsnum \<Rightarrow> jsnum" where
  "js_sub a b = js_add a (js_neg b)"

text \<open>The sign of an infinite product or quotient: \<open>True\<close> is positive.\<close>

definition signed_inf :: "bool \<Rightarrow> jsnum" where
  "signed_inf positive = (if positive then PosInf else NegInf)"

fun js_mul :: "jsnum \<Rightarrow> jsnum \<Rightarrow> jsnum" where
  "js_mul NaN _ = NaN"
| "js_mul _ NaN = NaN"
| "js_mul (Fin a) (Fin b) = Fin (a * b)"
| "js_mul (Fin a) PosInf = (if a = 0 then NaN else signed_inf (0 < a))"
| "js_mul (Fin a) NegInf = (if a = 0 then NaN else signed_inf (a < 0))"
| "js_mul PosInf (Fin b) = (if b = 0 then NaN else signed_inf (0 < b))"
| "js_mul NegInf (Fin b) = (if b = 0 then NaN else signed_inf (b < 0))"
| "js_mul PosInf PosInf = PosInf"
| "js_mul NegInf NegInf = PosInf"
| "js_mul PosInf NegInf = NegInf"
| "js_mul NegInf PosInf = NegInf"

fun js_div :: "jsnum \<Rightarrow> jsnum \<Rightarrow> jsnum" where
  "js_div NaN _ = NaN"
| "js_div _ NaN = NaN"
| "js_div (Fin a) (Fin b) =
     (if b = 0 then (if a = 0 then NaN else signed_inf (0 < a)) else Fin (a / b))"
| "js_div (Fin a) PosInf = Fin 0"
| "js_div (Fin a) NegInf = Fin 0"
| "js_div PosInf (Fin b) = signed_inf (0 \<le> b)"
| "js_div NegInf (Fin b) = signed_inf (b < 0)"
| "js_div PosInf PosInf = NaN"
| "js_div NegInf NegInf = NaN"
| "js_div PosInf NegInf = NaN"
| "js_div NegInf PosInf = NaN"

text \<open>\<open>Math.PI\<close>, under the same abstraction from rounding.\<close>

definition Math_PI :: jsnum where
  "Math_PI = Fin pi"

text \<open>
  The values an option can hold. Functions are kept apart (\<open>jsarg\<close> below), so that a
  callback the module invokes can carry its behaviour.
\<close>

datatype jsval =
    JSUndefined
  | JSNull
  | JSBool bool
  | JSNumber jsnum
  | JSString string
  | JSArray "jsval list"
  | JSObject nat

fun typeof :: "jsval \<Rightarrow> string" where
  "typeof JSUndefined = ''undefined''"
| "typeof JSNull = ''object''"
| "typeof (JSBool _) = ''boolean''"
| "typeof (JSNumber _) = ''number''"
| "typeof (JSString _) = ''string''"
| "typeof (JSArray _) = ''object''"
| "typeof (JSObject _) = ''object''"

text \<open>An option that may hold a function: \<open>typeof\<close> of a function is "function".\<close>

datatype 'f jsarg = JSFunction 'f | NotFunction jsval

fun typeof_arg :: "'f jsarg \<Rightarrow> string" where
  "typeof_arg (JSFunction _) = ''function''"
| "typeof_arg (NotFunction v) = typeof v"

text \<open>
  An option that is tested with \<open>instanceof\<close>: a library or DOM object, named by its
  address in the store of its class, or any other value.
\<close>

datatype hostarg =
    SceneObject nat
  | HTMLElementObject nat
  | WebGLRendererObject nat
  | PerspectiveCameraObject nat
  | OrthographicCameraObject nat
  | NotHost jsval

text \<open>A destructuring default: it applies when the option is absent or \<open>undefined\<close>.\<close>

definition dflt :: "jsval \<Rightarrow> jsval \<Rightarrow> jsval" where
  "dflt d v = (if v = JSUndefined then d else v)"

definition dflt_opt :: "'a \<Rightarrow> 'a option \<Rightarrow> 'a" where
  "dflt_opt d v = (case v of None \<Rightarrow> d | Some x \<Rightarrow> x)"

section \<open>Library objects the module builds\<close>

text \<open>
  A texture, with the two properties the module writes. \<open>tex_src\<close> is what the loader
  was asked for.
\<close>

datatype colorSpace = SRGBColorSpace
datatype texmapping = EquirectangularReflectionMapping

record texture =
  tex_src :: jsval
  tex_colorSpace :: "colorSpace option"
  tex_mapping :: "texmapping option"

text \<open>
  A material is the constructor and the parameters the source passes to it; a parameter
  the source leaves out is \<open>None\<close>.
\<close>

datatype side = DoubleSide

datatype material =
    MeshBasicMaterial (mat_color: "jsval option") (mat_map: "texture option") (mat_side: "side option")
  | MeshPhongMaterial (mat_flatShading: "bool option") jsval
  | LineBasicMaterial jsval

datatype materials = Single material | Multi "material list"

text \<open>
  A shape outline as the draw callback leaves it, and the vertices the library's
  triangulation gives for it.
\<close>

datatype path_cmd = MoveTo real real | LineTo real real

type_synonym flatShape = "path_cmd list"
type_synonym vertex = "real \<times> real \<times> real"

record text_params =
  tp_size :: jsnum
  tp_depth :: jsnum
  tp_curveSegments :: jsnum
  tp_bevelEnabled :: bool
  tp_bevelThickness :: jsnum
  tp_bevelSize :: jsnum
  tp_bevelOffset :: jsnum
  tp_bevelSegments :: jsnum

text \<open>
  A geometry is the constructor and its arguments, in the order of the source.
  \<open>ShapeGeometry\<close> carries the outline, its position attribute and the \<open>uv\<close>
  attribute the module sets; \<open>FontShapeGeometry typeface text size\<close> is
  \<open>ShapeGeometry(loadedFont.generateShapes(text, size))\<close>; \<open>TextGeometry\<close> names its
  font by the typeface.
\<close>

datatype geometry =
    RingGeometry jsnum jsnum jsnum jsnum jsnum jsnum
  | PlaneGeometry jsnum jsnum jsnum jsnum
  | ShapeGeometry flatShape "vertex list" "jsnum list"
  | CircleGeometry jsnum jsnum jsnum jsnum
  | BoxGeometry jsnum jsnum jsnum jsnum jsnum jsnum
  | EdgesGeometry geometry
  | FontShapeGeometry string string jsnum
  | TextGeometry string string text_params

type_synonym vec3 = "jsnum \<times> jsnum \<times> jsnum"

datatype objkind = Mesh | LineSegments | Group

record object3d =
  o_kind :: objkind
  o_geometry :: "geometry option"
  o_material :: "materials option"
  o_scale :: vec3
  o_position :: vec3

text \<open>\<open>new THREE.Mesh(geometry, material)\<close>: unit scale, at the origin.\<close>

definition new_Mesh :: "geometry \<Rightarrow> materials \<Rightarrow> object3d" where
  "new_Mesh g m =
     \<lparr>o_kind = Mesh, o_geometry = Some g, o_material = Some m,
      o_scale = (Fin 1, Fin 1, Fin 1), o_position = (Fin 0, Fin 0, Fin 0)\<rparr>"

definition new_LineSegments :: "geometry \<Rightarrow> materials \<Rightarrow> object3d" where
  "new_LineSegments g m =
     \<lparr>o_kind = LineSegments, o_geometry = Some g, o_material = Some m,
      o_scale = (Fin 1, Fin 1, Fin 1), o_position = (Fin 0, Fin 0, Fin 0)\<rparr>"

text \<open>
  An animation mixer: the object it drives and the clips whose actions are playing.
  A loaded GLTF asset: its root object (by address), its clips (\<open>None\<close> when the
  property is absent) and the mixer the module attaches.
\<close>

record mixer =
  mx_root :: nat
  mx_playing :: "string list"

record gltf =
  g_scene :: nat
  g_animations :: "string list option"
  g_mixer :: "mixer option"

datatype heapobj = Object3D object3d | Gltf gltf

datatype background = BgColor jsval | BgTexture texture

record scene =
  sc_background :: "background option"
  sc_environment :: "texture option"
  sc_children :: "nat list"

text \<open>
  A font as the loader delivers it: its typeface, and the x-extent \<open>(min.x, max.x)\<close> of
  the bounding box the library computes for a geometry built from it.
\<close>

record loaded_font =
  f_typeface :: string
  f_boundsX :: "geometry \<Rightarrow> jsnum \<times> jsnum"

text \<open>What the GLTF loader delivers: the root object and the clips.\<close>

record loaded_gltf =
  lg_root :: object3d
  lg_animations :: "string list option"

section \<open>The browser around the module\<close>

text \<open>
  A canvas element. Its displayed size (\<open>clientWidth\<close>, \<open>clientHeight\<close>) is read-only:
  the browser computes it from the style, which is what a resize policy sets;
  \<open>cv_layout\<close> is that computation. Assigning the backing size does not move it.
\<close>

record canvas =
  cv_style_width :: string
  cv_style_height :: string
  cv_width :: nat
  cv_height :: nat
  cv_layout :: "string \<Rightarrow> string \<Rightarrow> nat \<times> nat"

definition clientWidth :: "canvas \<Rightarrow> nat" where
  "clientWidth c = fst (cv_layout c (cv_style_width c) (cv_style_height c))"

definition clientHeight :: "canvas \<Rightarrow> nat" where
  "clientHeight c = snd (cv_layout c (cv_style_width c) (cv_style_height c))"

record window =
  innerWidth :: nat
  innerHeight :: nat
  devicePixelRatio :: real
  prefersDark :: bool
  webgl2Available :: bool

text \<open>
  A renderer is a library object. The module calls \<open>setPixelRatio\<close> and \<open>setSize\<close> on it;
  the record keeps what those calls were given, and takes as parameters what the
  renderer then does to the canvas handed to \<open>setResponsive\<close>, from the pixel ratio,
  width and height it holds after the call: nothing when it draws elsewhere, a new
  backing size when the canvas is its output.
\<close>

record renderer =
  r_pixelRatio :: real
  r_width :: nat
  r_height :: nat
  r_onPixelRatio :: "real \<Rightarrow> nat \<Rightarrow> nat \<Rightarrow> canvas \<Rightarrow> canvas"
  r_onSize :: "real \<Rightarrow> nat \<Rightarrow> nat \<Rightarrow> canvas \<Rightarrow> canvas"

record camera =
  cam_aspect :: "jsnum option"

text \<open>The calls of a resize handler, in the order they are made.\<close>

datatype call =
    CallResponsive nat
  | SetCanvasWidth nat nat
  | SetCanvasHeight nat nat
  | SetPixelRatio nat real
  | SetSize nat nat nat
  | SetAspect nat jsnum
  | UpdateProjectionMatrix nat

section \<open>Options of the public functions\<close>

text \<open>
  One record per options object. An option the source tests with \<open>typeof\<close>,
  \<open>instanceof\<close>, \<open>Array.isArray\<close> or \<open>===\<close> holds any value, \<open>JSUndefined\<close> when
  absent; the other options have the type their documentation gives, \<open>None\<close> when absent.
\<close>

record bg_options =
  sb_color :: jsval
  sb_dark :: jsval
  sb_light :: jsval
  sb_image :: jsval
  sb_hdr :: jsval
  sb_exr :: jsval
  sb_scene :: hostarg

type_synonym canvasResponsiveCallback = "window \<Rightarrow> canvas \<Rightarrow> canvas"

record resp_options =
  sr_canvas :: hostarg
  sr_renderer :: hostarg
  sr_camera :: hostarg
  sr_responsive :: "canvasResponsiveCallback jsarg"

text \<open>An animation callback is never called by the module: it is a name.\<close>

type_synonym animationCallback = nat

record text_options =
  rt_text :: "string option"
  rt_font :: "string option"
  rt_size :: "jsnum option"
  rt_depth :: "jsnum option"
  rt_flat :: jsval
  rt_curveSegments :: "jsnum option"
  rt_bevelEnabled :: "bool option"
  rt_bevelThickness :: "jsnum option"
  rt_bevelSize :: "jsnum option"
  rt_bevelOffset :: "jsnum option"
  rt_bevelSegments :: "jsnum option"
  rt_color :: jsval
  rt_scaleX :: "jsnum option"
  rt_scaleY :: "jsnum option"
  rt_scaleZ :: "jsnum option"
  rt_posX :: "jsnum option"
  rt_posY :: "jsnum option"
  rt_posZ :: "jsnum option"
  rt_scene :: hostarg
  rt_animate :: "animationCallback jsarg"

type_synonym drawShapeCallback = "flatShape \<Rightarrow> flatShape"

record shape_options =
  rs_radius :: jsval
  rs_segments :: "jsnum option"
  rs_innerRadius :: "jsnum option"
  rs_phiSegments :: "jsnum option"
  rs_thetaStart :: "jsnum option"
  rs_thetaLength :: "jsnum option"
  rs_width :: jsval
  rs_height :: jsval
  rs_widthSegments :: "jsnum option"
  rs_heightSegments :: "jsnum option"
  rs_shape :: "drawShapeCallback jsarg"
  rs_color :: jsval
  rs_texture :: jsval
  rs_scaleX :: "jsnum option"
  rs_scaleY :: "jsnum option"
  rs_scaleZ :: "jsnum option"
  rs_posX :: "jsnum option"
  rs_posY :: "jsnum option"
  rs_posZ :: "jsnum option"
  rs_scene :: hostarg
  rs_animate :: "animationCallback jsarg"

record box_options =
  rb_width :: "jsnum option"
  rb_height :: "jsnum option"
  rb_depth :: "jsnum option"
  rb_widthSegments :: "jsnum option"
  rb_heightSegments :: "jsnum option"
  rb_depthSegments :: "jsnum option"
  rb_color :: jsval
  rb_isSolid :: jsval
  rb_textures :: jsval
  rb_scaleX :: "jsnum option"
  rb_scaleY :: "jsnum option"
  rb_scaleZ :: "jsnum option"
  rb_posX :: "jsnum option"
  rb_posY :: "jsnum option"
  rb_posZ :: "jsnum option"
  rb_scene :: hostarg
  rb_animate :: "animationCallback jsarg"

record gltf_options =
  rg_model :: "string option"
  rg_scaleX :: "jsnum option"
  rg_scaleY :: "jsnum option"
  rg_scaleZ :: "jsnum option"
  rg_posX :: "jsnum option"
  rg_posY :: "jsnum option"
  rg_posZ :: "jsnum option"
  rg_scene :: hostarg
  rg_animate :: "animationCallback jsarg"

section \<open>The state the module acts on\<close>

text \<open>
  Closures are kept as data: a listener or a load callback is the name of the function
  and the variables it captured.
\<close>

datatype scheme_listener = SchemeListener nat jsval jsval

datatype resize_listener = ResizeChange nat nat nat canvasResponsiveCallback

datatype promise = Pending | Resolved nat | Rejected

datatype loader = TextureLoader | RGBELoader | EXRLoader | FontLoader | GLTFLoader

datatype continuation =
    OnBackgroundImage nat
  | OnBackgroundHdr nat
  | OnBackgroundExr nat
  | OnFont text_options nat
  | OnGltf gltf_options nat

record load =
  ld_loader :: loader
  ld_url :: jsval
  ld_onLoad :: continuation

record registration =
  element :: nat
  animate :: animationCallback

text \<open>
  The world: the console, the exported \<open>animationList\<close>, the stores of the caller's
  scenes, canvases, renderers and cameras, the heap of objects created while the module
  runs (an address is an index), the registered listeners, the loads in flight (an
  entry becomes \<open>None\<close> once the loader has reported), the promises handed out, the
  calls of the resize handlers, the classes of the elements appended to the body, and
  the window. A texture load started without a callback (the textures of
  \<open>renderShape\<close> and \<open>renderBox\<close>) runs no code of the module when it ends and is not
  among the loads. The loading overlay that the module installs when it is imported
  writes only to its own element and is left out.
\<close>

record world =
  console :: "string list"
  animationList :: "registration list"
  scenes :: "nat \<Rightarrow> scene"
  canvases :: "nat \<Rightarrow> canvas"
  renderers :: "nat \<Rightarrow> renderer"
  cameras :: "nat \<Rightarrow> camera"
  heap :: "heapobj list"
  schemeListeners :: "scheme_listener list"
  resizeListeners :: "resize_listener list"
  orientationListeners :: "resize_listener list"
  loads :: "load option list"
  promises :: "promise list"
  calls :: "call list"
  body :: "string list"
  win :: window

definition console_error :: "string \<Rightarrow> world \<Rightarrow> world" where
  "console_error m w = w\<lparr>console := console w @ [m]\<rparr>"

text \<open>\<open>scene.add(object)\<close> for an object that has no parent yet.\<close>

definition scene_add :: "nat \<Rightarrow> nat \<Rightarrow> world \<Rightarrow> world" where
  "scene_add s a w =
     w\<lparr>scenes := (scenes w)(s := (scenes w s)\<lparr>sc_children := sc_children (scenes w s) @ [a]\<rparr>)\<rparr>"

text \<open>\<open>if (scene instanceof THREE.Scene) { scene.add(object); }\<close>\<close>

definition add_if_scene :: "hostarg \<Rightarrow> nat \<Rightarrow> world \<Rightarrow> world" where
  "add_if_scene sc a w = (case sc of SceneObject s \<Rightarrow> scene_add s a w | _ \<Rightarrow> w)"

text \<open>\<open>if (typeof animate === "function") { animationList.push({ element, animate }); }\<close>\<close>

definition push_if_function :: "animationCallback jsarg \<Rightarrow> nat \<Rightarrow> world \<Rightarrow> world" where
  "push_if_function cb a w =
     (case cb of
        JSFunction f \<Rightarrow> w\<lparr>animationList := animationList w @ [\<lparr>element = a, animate = f\<rparr>]\<rparr>
      | NotFunction _ \<Rightarrow> w)"

definition alloc :: "heapobj \<Rightarrow> world \<Rightarrow> nat \<times> world" where
  "alloc obj w = (length (heap w), w\<lparr>heap := heap w @ [obj]\<rparr>)"

text \<open>A loader's \<open>load(url, onLoad)\<close>: the load is in flight, with no error callback.\<close>

definition start_load :: "loader \<Rightarrow> jsval \<Rightarrow> continuation \<Rightarrow> world \<Rightarrow> world" where
  "start_load l url k w =
     w\<lparr>loads := loads w @ [Some \<lparr>ld_loader = l, ld_url = url, ld_onLoad = k\<rparr>]\<rparr>"

text \<open>\<open>resolve(value)\<close> settles a pending promise and does nothing to a settled one.\<close>

definition resolve :: "nat \<Rightarrow> nat \<Rightarrow> world \<Rightarrow> world" where
  "resolve p v w =
     (if p < length (promises w) \<and> promises w ! p = Pending
      then w\<lparr>promises := (promises w)[p := Resolved v]\<rparr> else w)"

section \<open>isSupported\<close>

definition isSupported :: "world \<Rightarrow> bool \<times> world" where
  "isSupported w =
     (if \<not> webgl2Available (win w)
      then (False, w\<lparr>body := body w @ [''webgl2-unsupported'']\<rparr>)
      else (True, w))"

section \<open>setBackground\<close>

definition set_background :: "nat \<Rightarrow> background \<Rightarrow> world \<Rightarrow> world" where
  "set_background s b w = w\<lparr>scenes := (scenes w)(s := (scenes w s)\<lparr>sc_background := Some b\<rparr>)\<rparr>"

definition set_environment :: "nat \<Rightarrow> texture \<Rightarrow> world \<Rightarrow> world" where
  "set_environment s t w = w\<lparr>scenes := (scenes w)(s := (scenes w s)\<lparr>sc_environment := Some t\<rparr>)\<rparr>"

text \<open>The body of the scheme-change listener and of the first branch.\<close>

definition scheme_background :: "bool \<Rightarrow> nat \<Rightarrow> jsval \<Rightarrow> jsval \<Rightarrow> world \<Rightarrow> world" where
  "scheme_background matches s dark light w =
     (if matches then set_background s (BgColor dark) w
      else set_background s (BgColor light) w)"

definition setBackground :: "bg_options \<Rightarrow> world \<Rightarrow> world" where
  "setBackground opts w =
     (let color = dflt (JSNumber (Fin 0x666666)) (sb_color opts);
          dark = sb_dark opts; light = sb_light opts;
          image = sb_image opts; hdr = sb_hdr opts; exr = sb_exr opts
      in case sb_scene opts of
           SceneObject scene \<Rightarrow>
             if typeof dark \<noteq> ''undefined'' \<and> typeof light \<noteq> ''undefined'' then
               (let w1 = scheme_background (prefersDark (win w)) scene dark light w
                in w1\<lparr>schemeListeners := schemeListeners w1 @ [SchemeListener scene dark light]\<rparr>)
             else if typeof image \<noteq> ''undefined'' then
               start_load TextureLoader image (OnBackgroundImage scene) w
             else if typeof hdr \<noteq> ''undefined'' then
               start_load RGBELoader hdr (OnBackgroundHdr scene) w
             else if typeof exr \<noteq> ''undefined'' then
               start_load EXRLoader exr (OnBackgroundExr scene) w
             else set_background scene (BgColor color) w
         | _ \<Rightarrow> console_error ''Invalid options for 'setBackground' function.'' w)"

text \<open>The three load callbacks of \<open>setBackground\<close>, given the texture the loader delivers.\<close>

definition background_image_loaded :: "nat \<Rightarrow> texture \<Rightarrow> world \<Rightarrow> world" where
  "background_image_loaded scene texture w =
     set_background scene
       (BgTexture (texture\<lparr>tex_mapping := Some EquirectangularReflectionMapping,
                          tex_colorSpace := Some SRGBColorSpace\<rparr>)) w"

definition background_env_loaded :: "nat \<Rightarrow> texture \<Rightarrow> world \<Rightarrow> world" where
  "background_env_loaded scene texture w =
     (let t = texture\<lparr>tex_mapping := Some EquirectangularReflectionMapping\<rparr>
      in set_environment scene t (set_background scene (BgTexture t) w))"

text \<open>A scheme-change event runs every registered listener, in order.\<close>

fun scheme_changed :: "bool \<Rightarrow> scheme_listener list \<Rightarrow> world \<Rightarrow> world" where
  "scheme_changed matches [] w = w"
| "scheme_changed matches (SchemeListener s dark light # ls) w =
     scheme_changed matches ls (scheme_background matches s dark light w)"

section \<open>setResponsive\<close>

text \<open>A non-negative integer as JavaScript prints it, for \<open>window.innerWidth + "px"\<close>.\<close>

fun string_of_nat :: "nat \<Rightarrow> string" where
  "string_of_nat n =
     (if n < 10 then [''0123456789'' ! n]
      else string_of_nat (n div 10) @ [''0123456789'' ! (n mod 10)])"

text \<open>The default of the \<open>responsive\<close> option.\<close>

definition default_responsive :: canvasResponsiveCallback where
  "default_responsive window canvas =
     canvas\<lparr>cv_style_width := string_of_nat (innerWidth window) @ ''px'',
            cv_style_height := string_of_nat (innerHeight window) @ ''px''\<rparr>"

definition responsive_or_default ::
  "canvasResponsiveCallback jsarg \<Rightarrow> canvasResponsiveCallback jsarg" where
  "responsive_or_default r =
     (case r of NotFunction JSUndefined \<Rightarrow> JSFunction default_responsive | _ \<Rightarrow> r)"

text \<open>The two renderer methods the handler calls, as they act on renderer and canvas.\<close>

definition setPixelRatio :: "real \<Rightarrow> renderer \<Rightarrow> canvas \<Rightarrow> renderer \<times> canvas" where
  "setPixelRatio value r c =
     (let r' = r\<lparr>r_pixelRatio := value\<rparr>
      in (r', r_onPixelRatio r' (r_pixelRatio r') (r_width r') (r_height r') c))"

definition setSize :: "nat \<Rightarrow> nat \<Rightarrow> renderer \<Rightarrow> canvas \<Rightarrow> renderer \<times> canvas" where
  "setSize width height r c =
     (let r' = r\<lparr>r_width := width, r_height := height\<rparr>
      in (r', r_onSize r' (r_pixelRatio r') (r_width r') (r_height r') c))"

text \<open>
  \<open>resizeChange\<close>, the handler \<open>setResponsive\<close> registers, with the variables of its
  closure as arguments. Each line of the source is one \<open>let\<close>; the displayed size is
  read again wherever the source reads it.
\<close>

definition resizeChange ::
  "nat \<Rightarrow> nat \<Rightarrow> nat \<Rightarrow> canvasResponsiveCallback \<Rightarrow> world \<Rightarrow> world" where
  "resizeChange canvas renderer camera responsive w =
     (let c1 = responsive (win w) (canvases w canvas);
          c2 = c1\<lparr>cv_width := clientWidth c1\<rparr>;
          c3 = c2\<lparr>cv_height := clientHeight c2\<rparr>;
          dpr = devicePixelRatio (win w);
          (r1, c4) = setPixelRatio dpr (renderers w renderer) c3;
          (r2, c5) = setSize (clientWidth c4) (clientHeight c4) r1 c4;
          aspect = js_div (Fin (real (clientWidth c5))) (Fin (real (clientHeight c5)))
      in w\<lparr>canvases := (canvases w)(canvas := c5),
           renderers := (renderers w)(renderer := r2),
           cameras := (cameras w)(camera := (cameras w camera)\<lparr>cam_aspect := Some aspect\<rparr>),
           calls := calls w @
             [CallResponsive canvas,
              SetCanvasWidth canvas (clientWidth c1),
              SetCanvasHeight canvas (clientHeight c2),
              SetPixelRatio renderer dpr,
              SetSize renderer (clientWidth c4) (clientHeight c4),
              SetAspect camera aspect,
              UpdateProjectionMatrix camera]\<rparr>)"

fun is_camera :: "hostarg \<Rightarrow> nat option" where
  "is_camera (PerspectiveCameraObject n) = Some n"
| "is_camera (OrthographicCameraObject n) = Some n"
| "is_camera _ = None"

definition setResponsive :: "resp_options \<Rightarrow> world \<Rightarrow> world" where
  "setResponsive opts w =
     (case (sr_canvas opts, sr_renderer opts, is_camera (sr_camera opts),
            responsive_or_default (sr_responsive opts)) of
        (HTMLElementObject canvas, WebGLRendererObject renderer, Some camera,
         JSFunction responsive) \<Rightarrow>
          w\<lparr>resizeListeners :=
              resizeListeners w @ [ResizeChange canvas renderer camera responsive],
            orientationListeners :=
              orientationListeners w @ [ResizeChange canvas renderer camera responsive]\<rparr>
      | _ \<Rightarrow> console_error ''Invalid options for 'setResponsive' function.'' w)"

text \<open>A resize or orientation-change event runs every handler registered for it.\<close>

fun run_listeners :: "resize_listener list \<Rightarrow> world \<Rightarrow> world" where
  "run_listeners [] w = w"
| "run_listeners (ResizeChange canvas renderer camera responsive # ls) w =
     run_listeners ls (resizeChange canvas renderer camera responsive w)"

section \<open>renderText\<close>

definition default_font :: string where
  "default_font =
     ''https://raw.githubusercontent.com/mrdoob/three.js/master/examples/fonts/helvetiker_regular.typeface.json''"

text \<open>
  The call creates the promise and starts the font load; the promise's only
  \<open>resolve\<close> is in the load callback, and the executor takes no \<open>reject\<close>.
\<close>

definition renderText :: "text_options \<Rightarrow> world \<Rightarrow> nat \<times> world" where
  "renderText opts w =
     (let loaded = length (promises w);
          w1 = w\<lparr>promises := promises w @ [Pending]\<rparr>
      in (loaded,
          start_load FontLoader (JSString (dflt_opt default_font (rt_font opts)))
            (OnFont opts loaded) w1))"

definition text_geometry :: "text_options \<Rightarrow> loaded_font \<Rightarrow> geometry" where
  "text_geometry opts loadedFont =
     (let text = dflt_opt ''Hello, World!'' (rt_text opts);
          size = dflt_opt (Fin 10) (rt_size opts)
      in if dflt (JSBool False) (rt_flat opts) = JSBool True
         then FontShapeGeometry (f_typeface loadedFont) text size
         else TextGeometry text (f_typeface loadedFont)
                \<lparr>tp_size = size,
                 tp_depth = dflt_opt (Fin 3) (rt_depth opts),
                 tp_curveSegments = dflt_opt (Fin 12) (rt_curveSegments opts),
                 tp_bevelEnabled = dflt_opt False (rt_bevelEnabled opts),
                 tp_bevelThickness = dflt_opt (Fin 1) (rt_bevelThickness opts),
                 tp_bevelSize = dflt_opt (Fin 1) (rt_bevelSize opts),
                 tp_bevelOffset = dflt_opt (Fin 0) (rt_bevelOffset opts),
                 tp_bevelSegments = dflt_opt (Fin 12) (rt_bevelSegments opts)\<rparr>)"

definition text_material :: "text_options \<Rightarrow> materials" where
  "text_material opts =
     (let color = dflt (JSNumber (Fin 0xffffff)) (rt_color opts)
      in if dflt (JSBool False) (rt_flat opts) = JSBool True
         then Single (MeshBasicMaterial (Some color) None (Some DoubleSide))
         else Multi [MeshPhongMaterial (Some True) color, MeshPhongMaterial None color])"

text \<open>
  \<open>posX\<close> after the conditional assignment: the bounding box is the one the library
  computed for the geometry.
\<close>

definition text_posX :: "text_options \<Rightarrow> jsnum \<times> jsnum \<Rightarrow> jsnum" where
  "text_posX opts boundsX =
     (case rt_posX opts of
        None \<Rightarrow> js_mul (Fin (- 0.5)) (js_sub (snd boundsX) (fst boundsX))
      | Some posX \<Rightarrow> posX)"

text \<open>The mesh the font load callback builds, scaled and positioned.\<close>

definition text_mesh :: "text_options \<Rightarrow> loaded_font \<Rightarrow> object3d" where
  "text_mesh opts loadedFont =
     (let geometry = text_geometry opts loadedFont;
          material = text_material opts;
          mesh = (new_Mesh geometry material)
                   \<lparr>o_scale := (dflt_opt (Fin 1) (rt_scaleX opts),
                                dflt_opt (Fin 1) (rt_scaleY opts),
                                dflt_opt (Fin 1) (rt_scaleZ opts))\<rparr>;
          posX = text_posX opts (f_boundsX loadedFont geometry)
      in mesh\<lparr>o_position := (posX, dflt_opt (Fin 0) (rt_posY opts),
                               dflt_opt (Fin 0) (rt_posZ opts))\<rparr>)"

text \<open>The font load callback, with the options and the promise of its closure.\<close>

definition text_loaded :: "text_options \<Rightarrow> nat \<Rightarrow> loaded_font \<Rightarrow> world \<Rightarrow> world" where
  "text_loaded opts loaded loadedFont w =
     (let (a, w1) = alloc (Object3D (text_mesh opts loadedFont)) w;
          w2 = push_if_function (rt_animate opts) a w1;
          w3 = add_if_scene (rt_scene opts) a w2
      in resolve loaded a w3)"

section \<open>renderShape\<close>

text \<open>
  The library's box of a position attribute: \<open>Box3.setFromBufferAttribute\<close> starts from
  the empty box and widens it by each point with \<open>Math.min\<close> and \<open>Math.max\<close>;
  \<open>getSize\<close> is the zero vector for an empty box.
\<close>

fun js_min :: "jsnum \<Rightarrow> jsnum \<Rightarrow> jsnum" where
  "js_min NaN _ = NaN"
| "js_min _ NaN = NaN"
| "js_min NegInf _ = NegInf"
| "js_min _ NegInf = NegInf"
| "js_min PosInf b = b"
| "js_min a PosInf = a"
| "js_min (Fin a) (Fin b) = Fin (min a b)"

fun js_max :: "jsnum \<Rightarrow> jsnum \<Rightarrow> jsnum" where
  "js_max NaN _ = NaN"
| "js_max _ NaN = NaN"
| "js_max PosInf _ = PosInf"
| "js_max _ PosInf = PosInf"
| "js_max NegInf b = b"
| "js_max a NegInf = a"
| "js_max (Fin a) (Fin b) = Fin (max a b)"

fun js_less :: "jsnum \<Rightarrow> jsnum \<Rightarrow> bool" where
  "js_less NaN _ = False"
| "js_less _ NaN = False"
| "js_less (Fin a) (Fin b) = (a < b)"
| "js_less (Fin a) PosInf = True"
| "js_less (Fin a) NegInf = False"
| "js_less PosInf _ = False"
| "js_less NegInf NegInf = False"
| "js_less NegInf _ = True"

type_synonym box3 = "vec3 \<times> vec3"

definition box3_empty :: box3 where
  "box3_empty = ((PosInf, PosInf, PosInf), (NegInf, NegInf, NegInf))"

fun expandByPoint :: "box3 \<Rightarrow> vertex \<Rightarrow> box3" where
  "expandByPoint ((nx, ny, nz), (mx, my, mz)) (x, y, z) =
     ((js_min nx (Fin x), js_min ny (Fin y), js_min nz (Fin z)),
      (js_max mx (Fin x), js_max my (Fin y), js_max mz (Fin z)))"

primrec expandByPoints :: "vertex list \<Rightarrow> box3 \<Rightarrow> box3" where
  "expandByPoints [] b = b"
| "expandByPoints (v # vs) b = expandByPoints vs (expandByPoint b v)"

definition setFromBufferAttribute :: "vertex list \<Rightarrow> box3" where
  "setFromBufferAttribute position = expandByPoints position box3_empty"

fun isEmpty :: "box3 \<Rightarrow> bool" where
  "isEmpty ((nx, ny, nz), (mx, my, mz)) = (js_less mx nx \<or> js_less my ny \<or> js_less mz nz)"

fun getSize :: "box3 \<Rightarrow> vec3" where
  "getSize ((nx, ny, nz), (mx, my, mz)) =
     (if isEmpty ((nx, ny, nz), (mx, my, mz)) then (Fin 0, Fin 0, Fin 0)
      else (js_sub mx nx, js_sub my ny, js_sub mz nz))"

text \<open>
  The \<open>for\<close> loop over the vertices: each one is read as a 2-vector, moved by the box
  minimum, divided by the box size, and its two coordinates are pushed on \<open>uv\<close>.
\<close>

fun uv_loop :: "vertex list \<Rightarrow> vec3 \<Rightarrow> vec3 \<Rightarrow> jsnum list \<Rightarrow> jsnum list" where
  "uv_loop [] bmin bsize uv = uv"
| "uv_loop ((x, y, z) # vs) (nx, ny, nz) (sx, sy, sz) uv =
     uv_loop vs (nx, ny, nz) (sx, sy, sz)
       (uv @ [js_div (js_sub (Fin x) nx) sx, js_div (js_sub (Fin y) ny) sy])"

text \<open>
  The third branch: the callback draws on a new shape, and \<open>positions\<close> is the position
  attribute the library's \<open>ShapeGeometry\<close> has for an outline, a parameter.
\<close>

definition drawn_geometry ::
  "(flatShape \<Rightarrow> vertex list) \<Rightarrow> drawShapeCallback \<Rightarrow> geometry" where
  "drawn_geometry positions shape =
     (let flatShape = shape [];
          position = positions flatShape;
          box3 = setFromBufferAttribute position;
          size = getSize box3;
          uv = uv_loop position (fst box3) size []
      in ShapeGeometry flatShape position uv)"

definition shape_geometry :: "(flatShape \<Rightarrow> vertex list) \<Rightarrow> shape_options \<Rightarrow> geometry" where
  "shape_geometry positions opts =
     (let segments = dflt_opt (Fin 128) (rs_segments opts);
          innerRadius = dflt_opt (Fin 0) (rs_innerRadius opts);
          phiSegments = dflt_opt (Fin 1) (rs_phiSegments opts);
          thetaStart = dflt_opt (Fin 0) (rs_thetaStart opts);
          thetaLength = dflt_opt (Fin 2) (rs_thetaLength opts);
          widthSegments = dflt_opt (Fin 1) (rs_widthSegments opts);
          heightSegments = dflt_opt (Fin 1) (rs_heightSegments opts)
      in case rs_radius opts of
           JSNumber radius \<Rightarrow>
             RingGeometry innerRadius radius segments phiSegments
               (js_mul thetaStart Math_PI) (js_mul thetaLength Math_PI)
         | _ \<Rightarrow>
             (case (rs_width opts, rs_height opts) of
                (JSNumber width, JSNumber height) \<Rightarrow>
                  PlaneGeometry width height widthSegments heightSegments
              | _ \<Rightarrow>
                  (case rs_shape opts of
                     JSFunction shape \<Rightarrow> drawn_geometry positions shape
                   | NotFunction _ \<Rightarrow>
                       CircleGeometry (Fin 10) segments
                         (js_mul thetaStart Math_PI) (js_mul thetaLength Math_PI))))"

definition shape_material :: "shape_options \<Rightarrow> material" where
  "shape_material opts =
     (case rs_texture opts of
        JSString texture \<Rightarrow>
          MeshBasicMaterial None
            (Some \<lparr>tex_src = JSString texture, tex_colorSpace = Some SRGBColorSpace,
                   tex_mapping = None\<rparr>)
            (Some DoubleSide)
      | _ \<Rightarrow>
          MeshBasicMaterial (Some (dflt (JSNumber (Fin 0xffffff)) (rs_color opts))) None
            (Some DoubleSide))"

definition renderShape ::
  "(flatShape \<Rightarrow> vertex list) \<Rightarrow> shape_options \<Rightarrow> world \<Rightarrow> nat \<times> world" where
  "renderShape positions opts w =
     (let geometry = shape_geometry positions opts;
          material = shape_material opts;
          mesh = (new_Mesh geometry (Single material))
                   \<lparr>o_scale := (dflt_opt (Fin 1) (rs_scaleX opts),
                                dflt_opt (Fin 1) (rs_scaleY opts),
                                dflt_opt (Fin 1) (rs_scaleZ opts)),
                    o_position := (dflt_opt (Fin 0) (rs_posX opts),
                                   dflt_opt (Fin 0) (rs_posY opts),
                                   dflt_opt (Fin 0) (rs_posZ opts))\<rparr>;
          (a, w1) = alloc (Object3D mesh) w;
          w2 = push_if_function (rs_animate opts) a w1;
          w3 = add_if_scene (rs_scene opts) a w2
      in (a, w3))"

section \<open>renderBox\<close>

text \<open>\<open>Array.prototype.flat()\<close>: one level of nesting is removed.\<close>

definition js_flat :: "jsval list \<Rightarrow> jsval list" where
  "js_flat xs = concat (map (\<lambda>v. case v of JSArray ys \<Rightarrow> ys | _ \<Rightarrow> [v]) xs)"

text \<open>\<open>textureLoader(path)\<close> of the source.\<close>

definition textureLoader :: "jsval \<Rightarrow> texture" where
  "textureLoader path =
     \<lparr>tex_src = path, tex_colorSpace = Some SRGBColorSpace, tex_mapping = None\<rparr>"

text \<open>The \<open>for\<close> loop over \<open>textureToLoad\<close>, pushing one material for each entry.\<close>

primrec materials_loop :: "jsval list \<Rightarrow> material list \<Rightarrow> material list" where
  "materials_loop [] materials = materials"
| "materials_loop (path # rest) materials =
     materials_loop rest
       (materials @ [MeshBasicMaterial None (Some (textureLoader path)) None])"

definition box_object :: "box_options \<Rightarrow> object3d" where
  "box_object opts =
     (let color = dflt (JSNumber (Fin 0xffffff)) (rb_color opts);
          isSolid = dflt (JSBool True) (rb_isSolid opts);
          textures = dflt (JSArray []) (rb_textures opts);
          geometry = BoxGeometry (dflt_opt (Fin 10) (rb_width opts))
                       (dflt_opt (Fin 10) (rb_height opts))
                       (dflt_opt (Fin 10) (rb_depth opts))
                       (dflt_opt (Fin 1) (rb_widthSegments opts))
                       (dflt_opt (Fin 1) (rb_heightSegments opts))
                       (dflt_opt (Fin 1) (rb_depthSegments opts))
      in if isSolid = JSBool True then
           (case textures of
              JSArray (t # ts) \<Rightarrow>
                (let textureToLoad = js_flat (replicate 6 textures)
                 in new_Mesh geometry (Multi (materials_loop textureToLoad [])))
            | _ \<Rightarrow> new_Mesh geometry (Single (MeshPhongMaterial None color)))
         else new_LineSegments (EdgesGeometry geometry) (Single (LineBasicMaterial color)))"

definition renderBox :: "box_options \<Rightarrow> world \<Rightarrow> nat \<times> world" where
  "renderBox opts w =
     (let box = (box_object opts)
                  \<lparr>o_scale := (dflt_opt (Fin 1) (rb_scaleX opts),
                               dflt_opt (Fin 1) (rb_scaleY opts),
                               dflt_opt (Fin 1) (rb_scaleZ opts)),
                   o_position := (dflt_opt (Fin 0) (rb_posX opts),
                                  dflt_opt (Fin 0) (rb_posY opts),
                                  dflt_opt (Fin 0) (rb_posZ opts))\<rparr>;
          (a, w1) = alloc (Object3D box) w;
          w2 = push_if_function (rb_animate opts) a w1;
          w3 = add_if_scene (rb_scene opts) a w2
      in (a, w3))"

section \<open>renderGltfModel\<close>

definition renderGltfModel :: "gltf_options \<Rightarrow> world \<Rightarrow> nat \<times> world" where
  "renderGltfModel opts w =
     (let loaded = length (promises w);
          w1 = w\<lparr>promises := promises w @ [Pending]\<rparr>
      in (loaded,
          start_load GLTFLoader (JSString (dflt_opt [] (rg_model opts)))
            (OnGltf opts loaded) w1))"

text \<open>\<open>animations.forEach((clip) => mixer.clipAction(clip).play())\<close>\<close>

primrec play_each :: "string list \<Rightarrow> mixer \<Rightarrow> mixer" where
  "play_each [] m = m"
| "play_each (clip # clips) m = play_each clips (m\<lparr>mx_playing := mx_playing m @ [clip]\<rparr>)"

text \<open>Writes to an object of the heap, by address.\<close>

definition set_mixer :: "nat \<Rightarrow> mixer \<Rightarrow> world \<Rightarrow> world" where
  "set_mixer a m w =
     (case heap w ! a of
        Gltf g \<Rightarrow> w\<lparr>heap := (heap w)[a := Gltf (g\<lparr>g_mixer := Some m\<rparr>)]\<rparr>
      | _ \<Rightarrow> w)"

definition set_transform :: "nat \<Rightarrow> vec3 \<Rightarrow> vec3 \<Rightarrow> world \<Rightarrow> world" where
  "set_transform a scale position w =
     (case heap w ! a of
        Object3D obj \<Rightarrow>
          w\<lparr>heap := (heap w)[a := Object3D (obj\<lparr>o_scale := scale, o_position := position\<rparr>)]\<rparr>
      | _ \<Rightarrow> w)"

text \<open>
  The model load callback. The loader has created the asset and its root object: they
  enter the heap first, the root at \<open>root\<close> and the asset, \<open>loadedModel\<close>, after it.
\<close>

definition gltf_loaded :: "gltf_options \<Rightarrow> nat \<Rightarrow> loaded_gltf \<Rightarrow> world \<Rightarrow> world" where
  "gltf_loaded opts loaded lg w =
     (let (root, w0) = alloc (Object3D (lg_root lg)) w;
          (loadedModel, w1) =
             alloc (Gltf \<lparr>g_scene = root, g_animations = lg_animations lg, g_mixer = None\<rparr>) w0;
          w2 = (case rg_animate opts of
                  JSFunction f \<Rightarrow>
                    (let w' = (case lg_animations lg of
                                 Some animations \<Rightarrow>
                                   set_mixer loadedModel
                                     (play_each animations \<lparr>mx_root = root, mx_playing = []\<rparr>) w1
                               | None \<Rightarrow> w1)
                     in push_if_function (rg_animate opts) loadedModel w')
                | NotFunction _ \<Rightarrow> w1);
          w3 = set_transform root
                 (dflt_opt (Fin 1) (rg_scaleX opts), dflt_opt (Fin 1) (rg_scaleY opts),
                  dflt_opt (Fin 1) (rg_scaleZ opts))
                 (dflt_opt (Fin 0) (rg_posX opts), dflt_opt (Fin 0) (rg_posY opts),
                  dflt_opt (Fin 0) (rg_posZ opts)) w2;
          w4 = add_if_scene (rg_scene opts) root w3
      in resolve loaded loadedModel w4)"

section \<open>The module as a transition system\<close>

text \<open>
  A step is a call of a public function or an event that runs code of the module: a
  scheme change, a resize, an orientation change, a loader reporting success with what
  it loaded, a loader reporting failure. A load reports once. Failure runs no code of
  the module, because no load is given an error callback.
\<close>

datatype op =
    IsSupported
  | SetBackground bg_options
  | SetResponsive resp_options
  | RenderText text_options
  | RenderShape shape_options
  | RenderBox box_options
  | RenderGltfModel gltf_options
  | SchemeChange bool
  | WindowResize nat nat
  | OrientationChange
  | TextureLoadDone nat texture
  | FontLoadDone nat loaded_font
  | GltfLoadDone nat loaded_gltf
  | LoadError nat

definition pending_load :: "nat \<Rightarrow> world \<Rightarrow> continuation option" where
  "pending_load k w =
     (if k < length (loads w) then map_option ld_onLoad (loads w ! k) else None)"

definition finish_load :: "nat \<Rightarrow> world \<Rightarrow> world" where
  "finish_load k w = w\<lparr>loads := (loads w)[k := None]\<rparr>"

fun step :: "(flatShape \<Rightarrow> vertex list) \<Rightarrow> op \<Rightarrow> world \<Rightarrow> world" where
  "step positions IsSupported w = snd (isSupported w)"
| "step positions (SetBackground opts) w = setBackground opts w"
| "step positions (SetResponsive opts) w = setResponsive opts w"
| "step positions (RenderText opts) w = snd (renderText opts w)"
| "step positions (RenderShape opts) w = snd (renderShape positions opts w)"
| "step positions (RenderBox opts) w = snd (renderBox opts w)"
| "step positions (RenderGltfModel opts) w = snd (renderGltfModel opts w)"
| "step positions (SchemeChange matches) w =
     (let w1 = w\<lparr>win := (win w)\<lparr>prefersDark := matches\<rparr>\<rparr>
      in scheme_changed matches (schemeListeners w1) w1)"
| "step positions (WindowResize width height) w =
     (let w1 = w\<lparr>win := (win w)\<lparr>innerWidth := width, innerHeight := height\<rparr>\<rparr>
      in run_listeners (resizeListeners w1) w1)"
| "step positions OrientationChange w = run_listeners (orientationListeners w) w"
| "step positions (TextureLoadDone k texture) w =
     (case pending_load k w of
        Some (OnBackgroundImage scene) \<Rightarrow> background_image_loaded scene texture (finish_load k w)
      | Some (OnBackgroundHdr scene) \<Rightarrow> background_env_loaded scene texture (finish_load k w)
      | Some (OnBackgroundExr scene) \<Rightarrow> background_env_loaded scene texture (finish_load k w)
      | _ \<Rightarrow> w)"
| "step positions (FontLoadDone k loadedFont) w =
     (case pending_load k w of
        Some (OnFont opts loaded) \<Rightarrow> text_loaded opts loaded loadedFont (finish_load k w)
      | _ \<Rightarrow> w)"
| "step positions (GltfLoadDone k loadedModel) w =
     (case pending_load k w of
        Some (OnGltf opts loaded) \<Rightarrow> gltf_loaded opts loaded loadedModel (finish_load k w)
      | _ \<Rightarrow> w)"
| "step positions (LoadError k) w =
     (case pending_load k w of Some _ \<Rightarrow> finish_load k w | None \<Rightarrow> w)"

primrec run :: "(flatShape \<Rightarrow> vertex list) \<Rightarrow> op list \<Rightarrow> world \<Rightarrow> world" where
  "run positions [] w = w"
| "run positions (e # es) w = run positions es (step positions e w)"

section \<open>Observations and example inputs\<close>

text \<open>The object a call returned, read from the heap of the world it left.\<close>

definition object_at :: "world \<Rightarrow> nat \<Rightarrow> object3d option" where
  "object_at w a =
     (if a < length (heap w)
      then (case heap w ! a of Object3D obj \<Rightarrow> Some obj | Gltf _ \<Rightarrow> None)
      else None)"

definition asset_at :: "world \<Rightarrow> nat \<Rightarrow> gltf option" where
  "asset_at w a =
     (if a < length (heap w)
      then (case heap w ! a of Gltf g \<Rightarrow> Some g | Object3D _ \<Rightarrow> None)
      else None)"

definition result_object :: "nat \<times> world \<Rightarrow> object3d option" where
  "result_object r = object_at (snd r) (fst r)"

text \<open>How many materials an object carries.\<close>

fun material_count :: "object3d option \<Rightarrow> nat" where
  "material_count None = 0"
| "material_count (Some obj) =
     (case o_material obj of None \<Rightarrow> 0 | Some (Single _) \<Rightarrow> 1 | Some (Multi ms) \<Rightarrow> length ms)"

text \<open>The promise a load callback resolves, if it resolves one.\<close>

fun promise_of :: "continuation \<Rightarrow> nat option" where
  "promise_of (OnFont _ p) = Some p"
| "promise_of (OnGltf _ p) = Some p"
| "promise_of _ = None"

text \<open>
  In a well-formed world every load in flight that resolves a promise resolves one that
  has been handed out, and no two loads in flight resolve the same promise. The calls
  of the module keep it so: each creates its promise and its load together.
\<close>

definition loads_wf :: "world \<Rightarrow> bool" where
  "loads_wf w =
     (\<forall>k < length (loads w). \<forall>ld p.
        loads w ! k = Some ld \<and> promise_of (ld_onLoad ld) = Some p \<longrightarrow> p < length (promises w))"

text \<open>No load in flight can resolve promise \<open>p\<close>.\<close>

definition orphaned :: "nat \<Rightarrow> world \<Rightarrow> bool" where
  "orphaned p w =
     (\<forall>k < length (loads w). \<forall>ld.
        loads w ! k = Some ld \<longrightarrow> promise_of (ld_onLoad ld) \<noteq> Some p)"

text \<open>The options object \<open>{}\<close> of each function.\<close>

definition no_bg_options :: bg_options where
  "no_bg_options =
     \<lparr>sb_color = JSUndefined, sb_dark = JSUndefined, sb_light = JSUndefined,
      sb_image = JSUndefined, sb_hdr = JSUndefined, sb_exr = JSUndefined,
      sb_scene = NotHost JSUndefined\<rparr>"

definition no_resp_options :: resp_options where
  "no_resp_options =
     \<lparr>sr_canvas = NotHost JSUndefined, sr_renderer = NotHost JSUndefined,
      sr_camera = NotHost JSUndefined, sr_responsive = NotFunction JSUndefined\<rparr>"

definition no_text_options :: text_options where
  "no_text_options =
     \<lparr>rt_text = None, rt_font = None, rt_size = None, rt_depth = None, rt_flat = JSUndefined,
      rt_curveSegments = None, rt_bevelEnabled = None, rt_bevelThickness = None,
      rt_bevelSize = None, rt_bevelOffset = None, rt_bevelSegments = None,
      rt_color = JSUndefined, rt_scaleX = None, rt_scaleY = None, rt_scaleZ = None,
      rt_posX = None, rt_posY = None, rt_posZ = None, rt_scene = NotHost JSUndefined,
      rt_animate = NotFunction JSUndefined\<rparr>"

definition no_shape_options :: shape_options where
  "no_shape_options =
     \<lparr>rs_radius = JSUndefined, rs_segments = None, rs_innerRadius = None,
      rs_phiSegments = None, rs_thetaStart = None, rs_thetaLength = None,
      rs_width = JSUndefined, rs_height = JSUndefined, rs_widthSegments = None,
      rs_heightSegments = None, rs_shape = NotFunction JSUndefined, rs_color = JSUndefined,
      rs_texture = JSUndefined, rs_scaleX = None, rs_scaleY = None, rs_scaleZ = None,
      rs_posX = None, rs_posY = None, rs_posZ = None, rs_scene = NotHost JSUndefined,
      rs_animate = NotFunction JSUndefined\<rparr>"

definition no_box_options :: box_options where
  "no_box_options =
     \<lparr>rb_width = None, rb_height = None, rb_depth = None, rb_widthSegments = None,
      rb_heightSegments = None, rb_depthSegments = None, rb_color = JSUndefined,
      rb_isSolid = JSUndefined, rb_textures = JSUndefined, rb_scaleX = None,
      rb_scaleY = None, rb_scaleZ = None, rb_posX = None, rb_posY = None, rb_posZ = None,
      rb_scene = NotHost JSUndefined, rb_animate = NotFunction JSUndefined\<rparr>"

definition no_gltf_options :: gltf_options where
  "no_gltf_options =
     \<lparr>rg_model = None, rg_scaleX = None, rg_scaleY = None, rg_scaleZ = None,
      rg_posX = None, rg_posY = None, rg_posZ = None, rg_scene = NotHost JSUndefined,
      rg_animate = NotFunction JSUndefined\<rparr>"

text \<open>
  A page that has just loaded the module: empty scenes, a canvas of the default size
  that follows a pixel width and height of 800 by 600 when its style asks for it, a
  renderer that draws elsewhere, nothing registered.
\<close>

definition empty_scene :: scene where
  "empty_scene = \<lparr>sc_background = None, sc_environment = None, sc_children = []\<rparr>"

definition page_canvas :: canvas where
  "page_canvas =
     \<lparr>cv_style_width = [], cv_style_height = [], cv_width = 300, cv_height = 150,
      cv_layout = (\<lambda>sw sh. (if sw = ''800px'' then 800 else 300,
                              if sh = ''600px'' then 600 else 150))\<rparr>"

definition detached_renderer :: renderer where
  "detached_renderer =
     \<lparr>r_pixelRatio = 1, r_width = 300, r_height = 150,
      r_onPixelRatio = (\<lambda>ratio width height c. c),
      r_onSize = (\<lambda>ratio width height c. c)\<rparr>"

definition init_world :: world where
  "init_world =
     \<lparr>console = [], animationList = [], scenes = (\<lambda>_. empty_scene),
      canvases = (\<lambda>_. page_canvas), renderers = (\<lambda>_. detached_renderer),
      cameras = (\<lambda>_. \<lparr>cam_aspect = None\<rparr>), heap = [], schemeListeners = [],
      resizeListeners = [], orientationListeners = [], loads = [], promises = [],
      calls = [], body = [],
      win = \<lparr>innerWidth = 800, innerHeight = 600, devicePixelRatio = 2,
             prefersDark = False, webgl2Available = True\<rparr>\<rparr>"

text \<open>No triangulation: every outline has an empty position attribute.\<close>

definition no_positions :: "flatShape \<Rightarrow> vertex list" where
  "no_positions shape = []"

text \<open>
  Calls of \<open>setBackground\<close> on scene 0 with every option given, and then with the
  options of highest priority taken away one at a time.
\<close>

definition bg_everything :: bg_options where
  "bg_everything =
     \<lparr>sb_color = JSNumber (Fin 0x123456), sb_dark = JSNumber (Fin 0),
      sb_light = JSNumber (Fin 0xffffff), sb_image = JSString ''sky.jpg'',
      sb_hdr = JSString ''sky.hdr'', sb_exr = JSString ''sky.exr'',
      sb_scene = SceneObject 0\<rparr>"

definition bg_no_dark :: bg_options where
  "bg_no_dark = bg_everything\<lparr>sb_dark := JSUndefined\<rparr>"

definition bg_no_image :: bg_options where
  "bg_no_image = bg_no_dark\<lparr>sb_image := JSUndefined\<rparr>"

definition bg_no_hdr :: bg_options where
  "bg_no_hdr = bg_no_image\<lparr>sb_hdr := JSUndefined\<rparr>"

definition bg_no_exr :: bg_options where
  "bg_no_exr = bg_no_hdr\<lparr>sb_exr := JSUndefined\<rparr>"

definition sky_texture :: texture where
  "sky_texture = \<lparr>tex_src = JSString ''sky'', tex_colorSpace = None, tex_mapping = None\<rparr>"

text \<open>Calls of \<open>renderBox\<close>: one and two texture URLs, and truthy values of \<open>isSolid\<close>.\<close>

definition box_one_texture :: box_options where
  "box_one_texture =
     no_box_options\<lparr>rb_isSolid := JSBool True, rb_textures := JSArray [JSString ''a.png'']\<rparr>"

definition box_two_textures :: box_options where
  "box_two_textures =
     no_box_options\<lparr>rb_isSolid := JSBool True,
                    rb_textures := JSArray [JSString ''a.png'', JSString ''b.png'']\<rparr>"

definition box_solid_one :: box_options where
  "box_solid_one = box_one_texture\<lparr>rb_isSolid := JSNumber (Fin 1)\<rparr>"

definition box_solid_string :: box_options where
  "box_solid_string = box_one_texture\<lparr>rb_isSolid := JSString ''true''\<rparr>"

definition geometry_of :: "nat \<times> world \<Rightarrow> geometry option" where
  "geometry_of r = (case result_object r of Some obj \<Rightarrow> o_geometry obj | None \<Rightarrow> None)"

text \<open>
  Calls of \<open>renderShape\<close>: a triangle as a ring of three segments, a plane, and the
  triangle of the documentation drawn by a callback, with a position attribute that
  has one vertex for each point of the outline.
\<close>

definition shape_triangle :: shape_options where
  "shape_triangle =
     no_shape_options\<lparr>rs_radius := JSNumber (Fin 5), rs_segments := Some (Fin 3)\<rparr>"

definition shape_plane :: shape_options where
  "shape_plane =
     no_shape_options\<lparr>rs_width := JSNumber (Fin 10), rs_height := JSNumber (Fin 4)\<rparr>"

definition draw_triangle :: drawShapeCallback where
  "draw_triangle shape = shape @ [MoveTo 80 20, LineTo 40 80, LineTo 120 80, LineTo 80 20]"

definition shape_drawn :: shape_options where
  "shape_drawn = no_shape_options\<lparr>rs_shape := JSFunction draw_triangle\<rparr>"

fun outline_point :: "path_cmd \<Rightarrow> vertex" where
  "outline_point (MoveTo x y) = (x, y, 0)"
| "outline_point (LineTo x y) = (x, y, 0)"

definition outline_positions :: "flatShape \<Rightarrow> vertex list" where
  "outline_positions shape = map outline_point shape"

text \<open>
  A call of \<open>renderShape\<close> with a radius of the wrong type, on scene 0; calls of
  \<open>setResponsive\<close> on canvas, renderer and camera 0 with the default policy; and a
  page whose renderer has the canvas as its output, so that its \<open>setSize\<close> and
  \<open>setPixelRatio\<close> give the canvas a backing size of the size times the pixel ratio,
  rounded down, as the library's renderer does.
\<close>

definition shape_bad_radius :: shape_options where
  "shape_bad_radius =
     no_shape_options\<lparr>rs_radius := JSString ''5'', rs_scene := SceneObject 0\<rparr>"

definition resp_valid :: resp_options where
  "resp_valid =
     \<lparr>sr_canvas = HTMLElementObject 0, sr_renderer = WebGLRendererObject 0,
      sr_camera = PerspectiveCameraObject 0, sr_responsive = NotFunction JSUndefined\<rparr>"

definition output_resize :: "real \<Rightarrow> nat \<Rightarrow> nat \<Rightarrow> canvas \<Rightarrow> canvas" where
  "output_resize ratio width height c =
     c\<lparr>cv_width := nat \<lfloor>real width * ratio\<rfloor>, cv_height := nat \<lfloor>real height * ratio\<rfloor>\<rparr>"

definition attached_renderer :: renderer where
  "attached_renderer =
     \<lparr>r_pixelRatio = 1, r_width = 300, r_height = 150,
      r_onPixelRatio = output_resize, r_onSize = output_resize\<rparr>"

definition hidpi_world :: world where
  "hidpi_world = init_world\<lparr>renderers := (\<lambda>_. attached_renderer)\<rparr>"

text \<open>
  Calls of \<open>renderText\<close> and \<open>renderGltfModel\<close> with an animation callback, a font
  whose geometries all span x from 2 to 10, and a model with two clips.
\<close>

definition text_animated :: text_options where
  "text_animated = no_text_options\<lparr>rt_animate := JSFunction 7\<rparr>"

definition text_placed :: text_options where
  "text_placed = no_text_options\<lparr>rt_posX := Some (Fin 1)\<rparr>"

definition wide_font :: loaded_font where
  "wide_font = \<lparr>f_typeface = ''helvetiker'', f_boundsX = (\<lambda>g. (Fin 2, Fin 10))\<rparr>"

definition gltf_animated :: gltf_options where
  "gltf_animated = no_gltf_options\<lparr>rg_model := Some ''robot.glb'', rg_animate := JSFunction 7\<rparr>"

definition gltf_still :: gltf_options where
  "gltf_still = no_gltf_options\<lparr>rg_model := Some ''robot.glb''\<rparr>"

definition robot :: loaded_gltf where
  "robot =
     \<lparr>lg_root = \<lparr>o_kind = Group, o_geometry = None, o_material = None,
                  o_scale = (Fin 1, Fin 1, Fin 1), o_position = (Fin 0, Fin 0, Fin 0)\<rparr>,
      lg_animations = Some [''Walk'', ''Wave'']\<rparr>"

text \<open>
  A promise is abandoned when it is pending and no load in flight can resolve it, in a
  well-formed world.
\<close>

definition abandoned :: "nat \<Rightarrow> world \<Rightarrow> bool" where
  "abandoned p w \<longleftrightarrow>
     p < length (promises w) \<and> promises w ! p = Pending \<and> orphaned p w \<and> loads_wf w"

definition shape_animated :: shape_options where
  "shape_animated = no_shape_options\<lparr>rs_animate := JSFunction 7\<rparr>"

text \<open>
  Where a mesh puts its geometry along x: the module never rotates a mesh, so a point
  of the geometry at \<open>x\<close> is drawn at \<open>position.x + scale.x * x\<close> in the frame of the
  scene. \<open>span_x\<close> is where the two ends of the bounding box land, and the text is
  centred at the origin when they are opposite finite numbers.
\<close>

definition span_x :: "object3d \<Rightarrow> jsnum \<times> jsnum \<Rightarrow> jsnum \<times> jsnum" where
  "span_x mesh boundsX =
     (js_add (fst (o_position mesh)) (js_mul (fst (o_scale mesh)) (fst boundsX)),
      js_add (fst (o_position mesh)) (js_mul (fst (o_scale mesh)) (snd boundsX)))"

fun centred_x :: "jsnum \<times> jsnum \<Rightarrow> bool" where
  "centred_x (Fin lo, Fin hi) = (lo + hi = 0)"
| "centred_x _ = False"

fun span_of :: "jsnum \<times> jsnum \<Rightarrow> object3d option \<Rightarrow> (jsnum \<times> jsnum) option" where
  "span_of boundsX None = None"
| "span_of boundsX (Some mesh) = Some (span_x mesh boundsX)"

text \<open>
  A font whose geometries all span x from 0 to 10, and a call of \<open>renderText\<close> that
  doubles the scale along x.
\<close>

definition plain_font :: loaded_font where
  "plain_font = \<lparr>f_typeface = ''helvetiker'', f_boundsX = (\<lambda>g. (Fin 0, Fin 10))\<rparr>"

definition text_scaled :: text_options where
  "text_scaled = no_text_options\<lparr>rt_scaleX := Some (Fin 2)\<rparr>"

section \<open>Properties\<close>

subsection \<open>Values and basic operations\<close>

lemma typeof_undefined: "typeof v = ''undefined'' \<longleftrightarrow> v = JSUndefined"
  by (cases v) simp_all

lemma pending_load_start:
  "pending_load (length (loads w)) (start_load l url k w) = Some k"
  by (simp add: pending_load_def start_load_def)

subsection \<open>setBackground\<close>

lemma setBackground_scheme:
  assumes "sb_scene opts = SceneObject s"
    and "sb_dark opts \<noteq> JSUndefined" and "sb_light opts \<noteq> JSUndefined"
  shows "setBackground opts w =
       w\<lparr>scenes := (scenes w)(s := (scenes w s)\<lparr>sc_background :=
              Some (BgColor (if prefersDark (win w) then sb_dark opts else sb_light opts))\<rparr>),
         schemeListeners :=
           schemeListeners w @ [SchemeListener s (sb_dark opts) (sb_light opts)]\<rparr>"
  using assms
  by (simp add: setBackground_def typeof_undefined scheme_background_def
      set_background_def Let_def)

lemma setBackground_lower:
  assumes "sb_scene opts = SceneObject s"
    and "\<not> (sb_dark opts \<noteq> JSUndefined \<and> sb_light opts \<noteq> JSUndefined)"
  shows "sb_image opts \<noteq> JSUndefined \<Longrightarrow>
           setBackground opts w =
             start_load TextureLoader (sb_image opts) (OnBackgroundImage s) w"
    and "sb_image opts = JSUndefined \<Longrightarrow> sb_hdr opts \<noteq> JSUndefined \<Longrightarrow>
           setBackground opts w = start_load RGBELoader (sb_hdr opts) (OnBackgroundHdr s) w"
    and "sb_image opts = JSUndefined \<Longrightarrow> sb_hdr opts = JSUndefined \<Longrightarrow>
         sb_exr opts \<noteq> JSUndefined \<Longrightarrow>
           setBackground opts w = start_load EXRLoader (sb_exr opts) (OnBackgroundExr s) w"
    and "sb_image opts = JSUndefined \<Longrightarrow> sb_hdr opts = JSUndefined \<Longrightarrow>
         sb_exr opts = JSUndefined \<Longrightarrow>
           setBackground opts w =
             set_background s (BgColor (dflt (JSNumber (Fin 0x666666)) (sb_color opts))) w"
  using assms
  by (auto simp add: setBackground_def typeof_undefined Let_def)

lemma background_image_done:
  "scenes (step positions (TextureLoadDone (length (loads w)) t)
       (start_load TextureLoader url (OnBackgroundImage s) w)) =
    (scenes w)(s := (scenes w s)\<lparr>sc_background := Some (BgTexture
       (t\<lparr>tex_mapping := Some EquirectangularReflectionMapping,
          tex_colorSpace := Some SRGBColorSpace\<rparr>))\<rparr>)"
  by (simp add: pending_load_start)
     (simp add: start_load_def finish_load_def background_image_loaded_def
      set_background_def)

lemma background_env_done:
  "k = OnBackgroundHdr s \<or> k = OnBackgroundExr s \<Longrightarrow>
   scenes (step positions (TextureLoadDone (length (loads w)) t) (start_load l url k w)) =
    (scenes w)(s := (scenes w s)\<lparr>sc_background := Some (BgTexture
         (t\<lparr>tex_mapping := Some EquirectangularReflectionMapping\<rparr>)),
       sc_environment := Some (t\<lparr>tex_mapping := Some EquirectangularReflectionMapping\<rparr>)\<rparr>)"
  by (auto simp add: pending_load_start)
     (simp_all add: start_load_def finish_load_def background_env_loaded_def
      set_background_def set_environment_def Let_def)

text \<open>
  C1. Called with a scene, \<open>setBackground\<close> applies exactly one background source, by
  this precedence, whatever options of lower priority are given as well. With a dark and
  a light colour both given, the scene's background becomes the colour of the current
  scheme and one scheme-change listener is registered; nothing else changes. Else, with
  an image URL, exactly one texture load is started, and its success makes the texture
  (equirectangular, sRGB) the background. Else, with an HDR URL, exactly one HDR load is
  started, and its success makes the texture both background and environment. Else,
  with an EXR URL, the same through the EXR loader. Else the background becomes the flat
  colour (the default when none is given) and nothing else changes.
\<close>

theorem setBackground_precedence:
  assumes "sb_scene opts = SceneObject s"
  shows "(sb_dark opts \<noteq> JSUndefined \<and> sb_light opts \<noteq> JSUndefined \<longrightarrow>
            setBackground opts w =
              w\<lparr>scenes := (scenes w)(s := (scenes w s)\<lparr>sc_background :=
                   Some (BgColor (if prefersDark (win w) then sb_dark opts
                                  else sb_light opts))\<rparr>),
                schemeListeners :=
                  schemeListeners w @ [SchemeListener s (sb_dark opts) (sb_light opts)]\<rparr>)
       \<and> (\<not> (sb_dark opts \<noteq> JSUndefined \<and> sb_light opts \<noteq> JSUndefined) \<and>
          sb_image opts \<noteq> JSUndefined \<longrightarrow>
            setBackground opts w =
              w\<lparr>loads := loads w @ [Some \<lparr>ld_loader = TextureLoader, ld_url = sb_image opts,
                                           ld_onLoad = OnBackgroundImage s\<rparr>]\<rparr>
            \<and> (\<forall>t. scenes (step positions (TextureLoadDone (length (loads w)) t)
                             (setBackground opts w)) =
                 (scenes w)(s := (scenes w s)\<lparr>sc_background := Some (BgTexture
                    (t\<lparr>tex_mapping := Some EquirectangularReflectionMapping,
                       tex_colorSpace := Some SRGBColorSpace\<rparr>))\<rparr>)))
       \<and> (\<not> (sb_dark opts \<noteq> JSUndefined \<and> sb_light opts \<noteq> JSUndefined) \<and>
          sb_image opts = JSUndefined \<and> sb_hdr opts \<noteq> JSUndefined \<longrightarrow>
            setBackground opts w =
              w\<lparr>loads := loads w @ [Some \<lparr>ld_loader = RGBELoader, ld_url = sb_hdr opts,
                                           ld_onLoad = OnBackgroundHdr s\<rparr>]\<rparr>
            \<and> (\<forall>t. scenes (step positions (TextureLoadDone (length (loads w)) t)
                             (setBackground opts w)) =
                 (scenes w)(s := (scenes w s)
                    \<lparr>sc_background := Some (BgTexture
                        (t\<lparr>tex_mapping := Some EquirectangularReflectionMapping\<rparr>)),
                     sc_environment :=
                       Some (t\<lparr>tex_mapping := Some EquirectangularReflectionMapping\<rparr>)\<rparr>)))
       \<and> (\<not> (sb_dark opts \<noteq> JSUndefined \<and> sb_light opts \<noteq> JSUndefined) \<and>
          sb_image opts = JSUndefined \<and> sb_hdr opts = JSUndefined \<and>
          sb_exr opts \<noteq> JSUndefined \<longrightarrow>
            setBackground opts w =
              w\<lparr>loads := loads w @ [Some \<lparr>ld_loader = EXRLoader, ld_url = sb_exr opts,
                                           ld_onLoad = OnBackgroundExr s\<rparr>]\<rparr>
            \<and> (\<forall>t. scenes (step positions (TextureLoadDone (length (loads w)) t)
                             (setBackground opts w)) =
                 (scenes w)(s := (scenes w s)
                    \<lparr>sc_background := Some (BgTexture
                        (t\<lparr>tex_mapping := Some EquirectangularReflectionMapping\<rparr>)),
                     sc_environment :=
                       Some (t\<lparr>tex_mapping := Some EquirectangularReflectionMapping\<rparr>)\<rparr>)))
       \<and> (\<not> (sb_dark opts \<noteq> JSUndefined \<and> sb_light opts \<noteq> JSUndefined) \<and>
          sb_image opts = JSUndefined \<and> sb_hdr opts = JSUndefined \<and>
          sb_exr opts = JSUndefined \<longrightarrow>
            setBackground opts w =
              w\<lparr>scenes := (scenes w)(s := (scenes w s)\<lparr>sc_background :=
                   Some (BgColor (dflt (JSNumber (Fin 0x666666)) (sb_color opts)))\<rparr>)\<rparr>)"
proof (intro conjI impI)
  assume "sb_dark opts \<noteq> JSUndefined \<and> sb_light opts \<noteq> JSUndefined"
  then show "setBackground opts w =
      w\<lparr>scenes := (scenes w)(s := (scenes w s)\<lparr>sc_background :=
           Some (BgColor (if prefersDark (win w) then sb_dark opts else sb_light opts))\<rparr>),
        schemeListeners :=
          schemeListeners w @ [SchemeListener s (sb_dark opts) (sb_light opts)]\<rparr>"
    using setBackground_scheme [OF assms] by simp
next
  assume a: "\<not> (sb_dark opts \<noteq> JSUndefined \<and> sb_light opts \<noteq> JSUndefined) \<and>
    sb_image opts \<noteq> JSUndefined"
  then have e: "setBackground opts w =
      start_load TextureLoader (sb_image opts) (OnBackgroundImage s) w"
    using setBackground_lower(1) [OF assms] by simp
  show "setBackground opts w =
      w\<lparr>loads := loads w @ [Some \<lparr>ld_loader = TextureLoader, ld_url = sb_image opts,
                                   ld_onLoad = OnBackgroundImage s\<rparr>]\<rparr>"
    by (simp add: e start_load_def)
  show "\<forall>t. scenes (step positions (TextureLoadDone (length (loads w)) t)
                             (setBackground opts w)) =
                 (scenes w)(s := (scenes w s)\<lparr>sc_background := Some (BgTexture
                    (t\<lparr>tex_mapping := Some EquirectangularReflectionMapping,
                       tex_colorSpace := Some SRGBColorSpace\<rparr>))\<rparr>)"
    unfolding e using background_image_done by blast
next
  assume a: "\<not> (sb_dark opts \<noteq> JSUndefined \<and> sb_light opts \<noteq> JSUndefined) \<and>
    sb_image opts = JSUndefined \<and> sb_hdr opts \<noteq> JSUndefined"
  then have e: "setBackground opts w =
      start_load RGBELoader (sb_hdr opts) (OnBackgroundHdr s) w"
    using setBackground_lower(2) [OF assms] by simp
  show "setBackground opts w =
      w\<lparr>loads := loads w @ [Some \<lparr>ld_loader = RGBELoader, ld_url = sb_hdr opts,
                                   ld_onLoad = OnBackgroundHdr s\<rparr>]\<rparr>"
    by (simp add: e start_load_def)
  show "\<forall>t. scenes (step positions (TextureLoadDone (length (loads w)) t)
                             (setBackground opts w)) =
                 (scenes w)(s := (scenes w s)
                    \<lparr>sc_background := Some (BgTexture
                        (t\<lparr>tex_mapping := Some EquirectangularReflectionMapping\<rparr>)),
                     sc_environment :=
                       Some (t\<lparr>tex_mapping := Some EquirectangularReflectionMapping\<rparr>)\<rparr>)"
    unfolding e using background_env_done by blast
next
  assume a: "\<not> (sb_dark opts \<noteq> JSUndefined \<and> sb_light opts \<noteq> JSUndefined) \<and>
    sb_image opts = JSUndefined \<and> sb_hdr opts = JSUndefined \<and> sb_exr opts \<noteq> JSUndefined"
  then have e: "setBackground opts w =
      start_load EXRLoader (sb_exr opts) (OnBackgroundExr s) w"
    using setBackground_lower(3) [OF assms] by simp
  show "setBackground opts w =
      w\<lparr>loads := loads w @ [Some \<lparr>ld_loader = EXRLoader, ld_url = sb_exr opts,
                                   ld_onLoad = OnBackgroundExr s\<rparr>]\<rparr>"
    by (simp add: e start_load_def)
  show "\<forall>t. scenes (step positions (TextureLoadDone (length (loads w)) t)
                             (setBackground opts w)) =
                 (scenes w)(s := (scenes w s)
                    \<lparr>sc_background := Some (BgTexture
                        (t\<lparr>tex_mapping := Some EquirectangularReflectionMapping\<rparr>)),
                     sc_environment :=
                       Some (t\<lparr>tex_mapping := Some EquirectangularReflectionMapping\<rparr>)\<rparr>)"
    unfolding e using background_env_done by blast
next
  assume a: "\<not> (sb_dark opts \<noteq> JSUndefined \<and> sb_light opts \<noteq> JSUndefined) \<and>
    sb_image opts = JSUndefined \<and> sb_hdr opts = JSUndefined \<and> sb_exr opts = JSUndefined"
  then show "setBackground opts w =
      w\<lparr>scenes := (scenes w)(s := (scenes w s)\<lparr>sc_background :=
           Some (BgColor (dflt (JSNumber (Fin 0x666666)) (sb_color opts)))\<rparr>)\<rparr>"
    using setBackground_lower(4) [OF assms] by (simp add: set_background_def)
qed

theorem setBackground_precedence_witness:
  "sb_scene bg_everything = SceneObject 0
   \<and> sc_background (scenes (setBackground bg_everything init_world) 0) =
       Some (BgColor (JSNumber (Fin 0xffffff)))
   \<and> schemeListeners (setBackground bg_everything init_world) =
       [SchemeListener 0 (JSNumber (Fin 0)) (JSNumber (Fin 0xffffff))]
   \<and> loads (setBackground bg_everything init_world) = []
   \<and> map (map_option ld_loader) (loads (setBackground bg_no_dark init_world)) = [Some TextureLoader]
   \<and> sc_background (scenes (setBackground bg_no_dark init_world) 0) = None
   \<and> map (map_option ld_loader) (loads (setBackground bg_no_image init_world)) = [Some RGBELoader]
   \<and> sc_environment (scenes (step no_positions (TextureLoadDone 0 sky_texture)
         (setBackground bg_no_image init_world)) 0) =
       Some (sky_texture\<lparr>tex_mapping := Some EquirectangularReflectionMapping\<rparr>)
   \<and> map (map_option ld_loader) (loads (setBackground bg_no_hdr init_world)) = [Some EXRLoader]
   \<and> sc_background (scenes (setBackground bg_no_exr init_world) 0) =
       Some (BgColor (JSNumber (Fin 0x123456)))
   \<and> loads (setBackground bg_no_exr init_world) = []"
proof -
  have s: "sb_scene bg_everything = SceneObject 0" "sb_scene bg_no_dark = SceneObject 0"
    "sb_scene bg_no_image = SceneObject 0" "sb_scene bg_no_hdr = SceneObject 0"
    "sb_scene bg_no_exr = SceneObject 0"
    by (simp_all add: bg_everything_def bg_no_dark_def bg_no_image_def bg_no_hdr_def
      bg_no_exr_def)
  have l: "length (loads init_world) = 0"
    by (simp add: init_world_def)
  have e1: "setBackground bg_everything init_world =
      init_world\<lparr>scenes := (scenes init_world)(0 := (scenes init_world 0)\<lparr>sc_background :=
           Some (BgColor (JSNumber (Fin 0xffffff)))\<rparr>),
        schemeListeners := schemeListeners init_world @
          [SchemeListener 0 (JSNumber (Fin 0)) (JSNumber (Fin 0xffffff))]\<rparr>"
    using setBackground_precedence [OF s(1), of init_world no_positions]
    by (simp add: bg_everything_def bg_no_dark_def bg_no_image_def bg_no_hdr_def
      bg_no_exr_def init_world_def)
  have e2: "setBackground bg_no_dark init_world =
      init_world\<lparr>loads := loads init_world @
        [Some \<lparr>ld_loader = TextureLoader, ld_url = JSString ''sky.jpg'',
               ld_onLoad = OnBackgroundImage 0\<rparr>]\<rparr>"
    using setBackground_precedence [OF s(2), of init_world no_positions]
    by (simp add: bg_everything_def bg_no_dark_def bg_no_image_def bg_no_hdr_def
      bg_no_exr_def del: step.simps)
  have c3: "\<not> (sb_dark bg_no_image \<noteq> JSUndefined \<and> sb_light bg_no_image \<noteq> JSUndefined) \<and>
      sb_image bg_no_image = JSUndefined \<and> sb_hdr bg_no_image \<noteq> JSUndefined"
    by (simp add: bg_everything_def bg_no_dark_def bg_no_image_def bg_no_hdr_def
      bg_no_exr_def)
  note t3 = setBackground_precedence [OF s(3), of init_world no_positions,
      THEN conjunct2, THEN conjunct2, THEN conjunct1, THEN mp, OF c3]
  have e3: "setBackground bg_no_image init_world =
      init_world\<lparr>loads := loads init_world @
        [Some \<lparr>ld_loader = RGBELoader, ld_url = JSString ''sky.hdr'',
               ld_onLoad = OnBackgroundHdr 0\<rparr>]\<rparr>"
    using t3 [THEN conjunct1] by (simp add: bg_everything_def bg_no_dark_def bg_no_image_def bg_no_hdr_def
      bg_no_exr_def)
  have d3: "scenes (step no_positions (TextureLoadDone 0 sky_texture)
         (setBackground bg_no_image init_world)) =
       (scenes init_world)(0 := (scenes init_world 0)
          \<lparr>sc_background := Some (BgTexture
              (sky_texture\<lparr>tex_mapping := Some EquirectangularReflectionMapping\<rparr>)),
           sc_environment :=
             Some (sky_texture\<lparr>tex_mapping := Some EquirectangularReflectionMapping\<rparr>)\<rparr>)"
    using t3 [THEN conjunct2, THEN spec, of sky_texture] unfolding l .
  have e4: "setBackground bg_no_hdr init_world =
      init_world\<lparr>loads := loads init_world @
        [Some \<lparr>ld_loader = EXRLoader, ld_url = JSString ''sky.exr'',
               ld_onLoad = OnBackgroundExr 0\<rparr>]\<rparr>"
    using setBackground_precedence [OF s(4), of init_world no_positions]
    by (simp add: bg_everything_def bg_no_dark_def bg_no_image_def bg_no_hdr_def
      bg_no_exr_def del: step.simps)
  have e5: "setBackground bg_no_exr init_world =
      init_world\<lparr>scenes := (scenes init_world)(0 := (scenes init_world 0)\<lparr>sc_background :=
           Some (BgColor (JSNumber (Fin 0x123456)))\<rparr>)\<rparr>"
    using setBackground_precedence [OF s(5), of init_world no_positions]
    by (simp add: bg_everything_def bg_no_dark_def bg_no_image_def bg_no_hdr_def
      bg_no_exr_def dflt_def del: step.simps)
  have g1: "sc_background (scenes (setBackground bg_everything init_world) 0) =
       Some (BgColor (JSNumber (Fin 0xffffff)))"
    and g2: "schemeListeners (setBackground bg_everything init_world) =
       [SchemeListener 0 (JSNumber (Fin 0)) (JSNumber (Fin 0xffffff))]"
    and g3: "loads (setBackground bg_everything init_world) = []"
    unfolding e1 by (simp_all add: init_world_def)
  have g4: "map (map_option ld_loader) (loads (setBackground bg_no_dark init_world)) =
       [Some TextureLoader]"
    and g5: "sc_background (scenes (setBackground bg_no_dark init_world) 0) = None"
    unfolding e2 by (simp_all add: init_world_def empty_scene_def)
  have g6: "map (map_option ld_loader) (loads (setBackground bg_no_image init_world)) =
       [Some RGBELoader]"
    unfolding e3 by (simp add: init_world_def)
  have g7: "sc_environment (scenes (step no_positions (TextureLoadDone 0 sky_texture)
         (setBackground bg_no_image init_world)) 0) =
       Some (sky_texture\<lparr>tex_mapping := Some EquirectangularReflectionMapping\<rparr>)"
    unfolding d3 by simp
  have g8: "map (map_option ld_loader) (loads (setBackground bg_no_hdr init_world)) =
       [Some EXRLoader]"
    unfolding e4 by (simp add: init_world_def)
  have g9: "sc_background (scenes (setBackground bg_no_exr init_world) 0) =
       Some (BgColor (JSNumber (Fin 0x123456)))"
    and g10: "loads (setBackground bg_no_exr init_world) = []"
    unfolding e5 by (simp_all add: init_world_def)
  show ?thesis
    by (intro conjI s(1) g1 g2 g3 g4 g5 g6 g7 g8 g9 g10)
qed

subsection \<open>renderBox\<close>

lemma materials_loop_map:
  "materials_loop paths acc =
     acc @ map (\<lambda>path. MeshBasicMaterial None (Some (textureLoader path)) None) paths"
  by (induction paths arbitrary: acc) simp_all

lemma js_flat_replicate: "js_flat (replicate n (JSArray ts)) = concat (replicate n ts)"
  by (induction n) (simp_all add: js_flat_def)

lemma length_concat_replicate: "length (concat (replicate n ts)) = n * length ts"
  by (induction n) simp_all

lemma nth_concat_replicate:
  "i < n * length ts \<Longrightarrow> concat (replicate n ts) ! i = ts ! (i mod length ts)"
proof (induction n arbitrary: i)
  case 0
  then show ?case by simp
next
  case (Suc n)
  show ?case
  proof (cases "i < length ts")
    case True
    then show ?thesis by (simp add: nth_append)
  next
    case False
    then have "i - length ts < n * length ts"
      using Suc.prems by simp
    then have "concat (replicate n ts) ! (i - length ts) = ts ! ((i - length ts) mod length ts)"
      by (rule Suc.IH)
    moreover have "(i - length ts) mod length ts = i mod length ts"
      using False by (simp add: le_mod_geq)
    ultimately show ?thesis
      using False by (simp add: nth_append)
  qed
qed

lemma renderBox_result:
  "fst (renderBox opts w) = length (heap w)"
  "result_object (renderBox opts w) =
     Some ((box_object opts)
        \<lparr>o_scale := (dflt_opt (Fin 1) (rb_scaleX opts), dflt_opt (Fin 1) (rb_scaleY opts),
                     dflt_opt (Fin 1) (rb_scaleZ opts)),
         o_position := (dflt_opt (Fin 0) (rb_posX opts), dflt_opt (Fin 0) (rb_posY opts),
                        dflt_opt (Fin 0) (rb_posZ opts))\<rparr>)"
  by (simp_all add: renderBox_def result_object_def object_at_def alloc_def Let_def
      push_if_function_def add_if_scene_def scene_add_def split: jsarg.splits hostarg.splits)

lemma box_object_textured:
  assumes "dflt (JSBool True) (rb_isSolid opts) = JSBool True"
    and "rb_textures opts = JSArray ts" and "ts \<noteq> []"
  shows "o_kind (box_object opts) = Mesh"
    and "o_material (box_object opts) =
      Some (Multi (map (\<lambda>path. MeshBasicMaterial None (Some (textureLoader path)) None)
                    (concat (replicate 6 ts))))"
  using assms
  by (cases ts; simp add: box_object_def Let_def dflt_def new_Mesh_def materials_loop_map
      js_flat_replicate del: replicate.simps replicate_Suc)+

lemma box_object_plain:
  assumes "dflt (JSBool True) (rb_isSolid opts) = JSBool True"
    and "\<not> (\<exists>t ts. rb_textures opts = JSArray (t # ts))"
  shows "o_kind (box_object opts) = Mesh"
    and "o_material (box_object opts) =
      Some (Single (MeshPhongMaterial None (dflt (JSNumber (Fin 0xffffff)) (rb_color opts))))"
  using assms
  by (auto simp add: box_object_def Let_def new_Mesh_def dflt_def
      split: jsval.splits list.splits)

lemma box_object_wire:
  assumes "dflt (JSBool True) (rb_isSolid opts) \<noteq> JSBool True"
  shows "box_object opts =
     new_LineSegments
       (EdgesGeometry (BoxGeometry (dflt_opt (Fin 10) (rb_width opts))
                       (dflt_opt (Fin 10) (rb_height opts))
                       (dflt_opt (Fin 10) (rb_depth opts))
                       (dflt_opt (Fin 1) (rb_widthSegments opts))
                       (dflt_opt (Fin 1) (rb_heightSegments opts))
                       (dflt_opt (Fin 1) (rb_depthSegments opts))))
       (Single (LineBasicMaterial (dflt (JSNumber (Fin 0xffffff)) (rb_color opts))))"
  using assms by (simp add: box_object_def Let_def)

text \<open>
  C2, as the source has it. With \<open>isSolid\<close> true (given, or by its default) and a
  non-empty list of \<open>n\<close> texture URLs, the box is a mesh that carries \<open>6 * n\<close> materials,
  the list repeated six times: material \<open>i\<close> has the texture of URL \<open>i mod n\<close>. With
  any other \<open>textures\<close> (empty, absent, not an array) it is a mesh with a single
  \<open>MeshPhongMaterial\<close> of the colour, given no \<open>flatShading\<close> parameter.
\<close>

theorem renderBox_solid_materials:
  assumes "dflt (JSBool True) (rb_isSolid opts) = JSBool True"
  shows "(\<forall>ts. rb_textures opts = JSArray ts \<and> ts \<noteq> [] \<longrightarrow>
            (\<exists>obj ms. result_object (renderBox opts w) = Some obj \<and> o_kind obj = Mesh \<and>
               o_material obj = Some (Multi ms) \<and> length ms = 6 * length ts \<and>
               (\<forall>i < 6 * length ts.
                  ms ! i = MeshBasicMaterial None
                             (Some (textureLoader (ts ! (i mod length ts)))) None)))
       \<and> (\<not> (\<exists>t ts. rb_textures opts = JSArray (t # ts)) \<longrightarrow>
            (\<exists>obj. result_object (renderBox opts w) = Some obj \<and> o_kind obj = Mesh \<and>
               o_material obj =
                 Some (Single (MeshPhongMaterial None
                                 (dflt (JSNumber (Fin 0xffffff)) (rb_color opts))))))"
proof (intro conjI allI impI)
  fix ts
  assume a: "rb_textures opts = JSArray ts \<and> ts \<noteq> []"
  let ?ms = "map (\<lambda>path. MeshBasicMaterial None (Some (textureLoader path)) None)
               (concat (replicate 6 ts))"
  let ?obj = "(box_object opts)
        \<lparr>o_scale := (dflt_opt (Fin 1) (rb_scaleX opts), dflt_opt (Fin 1) (rb_scaleY opts),
                     dflt_opt (Fin 1) (rb_scaleZ opts)),
         o_position := (dflt_opt (Fin 0) (rb_posX opts), dflt_opt (Fin 0) (rb_posY opts),
                        dflt_opt (Fin 0) (rb_posZ opts))\<rparr>"
  have k: "o_kind ?obj = Mesh" and m: "o_material ?obj = Some (Multi ?ms)"
    using box_object_textured [OF assms, of ts] a by simp_all
  have l: "length ?ms = 6 * length ts"
    by (simp add: length_concat_replicate del: replicate.simps replicate_Suc)
  have n: "\<forall>i < 6 * length ts.
      ?ms ! i = MeshBasicMaterial None (Some (textureLoader (ts ! (i mod length ts)))) None"
    by (simp add: length_concat_replicate nth_concat_replicate
        del: replicate.simps replicate_Suc)
  show "\<exists>obj ms. result_object (renderBox opts w) = Some obj \<and> o_kind obj = Mesh \<and>
               o_material obj = Some (Multi ms) \<and> length ms = 6 * length ts \<and>
               (\<forall>i < 6 * length ts.
                  ms ! i = MeshBasicMaterial None
                             (Some (textureLoader (ts ! (i mod length ts)))) None)"
    using renderBox_result(2) [of opts w] k m l n by blast
next
  assume a: "\<not> (\<exists>t ts. rb_textures opts = JSArray (t # ts))"
  show "\<exists>obj. result_object (renderBox opts w) = Some obj \<and> o_kind obj = Mesh \<and>
               o_material obj =
                 Some (Single (MeshPhongMaterial None
                                 (dflt (JSNumber (Fin 0xffffff)) (rb_color opts))))"
    using box_object_plain [OF assms a] by (simp add: renderBox_result(2))
qed

theorem renderBox_solid_materials_witness:
  "dflt (JSBool True) (rb_isSolid box_one_texture) = JSBool True
   \<and> rb_textures box_one_texture = JSArray [JSString ''a.png'']
   \<and> material_count (result_object (renderBox box_one_texture init_world)) = 6
   \<and> dflt (JSBool True) (rb_isSolid no_box_options) = JSBool True
   \<and> material_count (result_object (renderBox no_box_options init_world)) = 1"
proof -
  have h1: "dflt (JSBool True) (rb_isSolid box_one_texture) = JSBool True"
    and t1: "rb_textures box_one_texture = JSArray [JSString ''a.png'']"
    by (simp_all add: box_one_texture_def no_box_options_def dflt_def)
  have h2: "dflt (JSBool True) (rb_isSolid no_box_options) = JSBool True"
    and t2: "\<not> (\<exists>t ts. rb_textures no_box_options = JSArray (t # ts))"
    by (simp_all add: no_box_options_def dflt_def)
  from renderBox_solid_materials [OF h1, of init_world] t1
  obtain obj ms where "result_object (renderBox box_one_texture init_world) = Some obj"
    and "o_material obj = Some (Multi ms)" and "length ms = 6 * length [JSString ''a.png'']"
    by force
  then have g1: "material_count (result_object (renderBox box_one_texture init_world)) = 6"
    by simp
  from renderBox_solid_materials [OF h2, of init_world] t2
  obtain obj' where "result_object (renderBox no_box_options init_world) = Some obj'"
    and "o_material obj' =
      Some (Single (MeshPhongMaterial None
                      (dflt (JSNumber (Fin 0xffffff)) (rb_color no_box_options))))"
    by blast
  then have g2: "material_count (result_object (renderBox no_box_options init_world)) = 1"
    by simp
  show ?thesis
    by (intro conjI h1 t1 g1 h2 g2)
qed

text \<open>
  Two URLs give twelve materials, not six: C2 as stated fails at
  \<open>renderBox({ isSolid: true, textures: ["a.png", "b.png"] })\<close>.
\<close>

theorem renderBox_six_materials_counterexample:
  "rb_isSolid box_two_textures = JSBool True
   \<and> rb_textures box_two_textures = JSArray [JSString ''a.png'', JSString ''b.png'']
   \<and> material_count (result_object (renderBox box_two_textures init_world)) = 12
   \<and> material_count (result_object (renderBox box_two_textures init_world)) \<noteq> 6"
proof -
  have m: "o_material (box_object box_two_textures) =
      Some (Multi (map (\<lambda>path. MeshBasicMaterial None (Some (textureLoader path)) None)
         (concat (replicate 6 [JSString ''a.png'', JSString ''b.png'']))))"
    by (rule box_object_textured(2))
       (simp_all add: box_two_textures_def no_box_options_def dflt_def)
  have "material_count (result_object (renderBox box_two_textures init_world)) = 12"
    by (simp add: renderBox_result(2) m length_concat_replicate
        del: replicate.simps replicate_Suc)
  then show ?thesis
    by (simp add: box_two_textures_def no_box_options_def)
qed

text \<open>
  C10. The test is \<open>isSolid === true\<close>. Whenever the value of \<open>isSolid\<close> (the option,
  or the default \<open>true\<close> when the option is absent) is not the boolean \<open>true\<close>, the
  box is the line set of the edges of the box geometry with a \<open>LineBasicMaterial\<close> of
  the colour, and the \<open>textures\<close> option has no effect on it.
\<close>

theorem renderBox_wireframe:
  assumes "dflt (JSBool True) (rb_isSolid opts) \<noteq> JSBool True"
  shows "result_object (renderBox opts w) =
       Some ((new_LineSegments
               (EdgesGeometry (BoxGeometry (dflt_opt (Fin 10) (rb_width opts))
                  (dflt_opt (Fin 10) (rb_height opts)) (dflt_opt (Fin 10) (rb_depth opts))
                  (dflt_opt (Fin 1) (rb_widthSegments opts))
                  (dflt_opt (Fin 1) (rb_heightSegments opts))
                  (dflt_opt (Fin 1) (rb_depthSegments opts))))
               (Single (LineBasicMaterial (dflt (JSNumber (Fin 0xffffff)) (rb_color opts)))))
          \<lparr>o_scale := (dflt_opt (Fin 1) (rb_scaleX opts), dflt_opt (Fin 1) (rb_scaleY opts),
                       dflt_opt (Fin 1) (rb_scaleZ opts)),
           o_position := (dflt_opt (Fin 0) (rb_posX opts), dflt_opt (Fin 0) (rb_posY opts),
                          dflt_opt (Fin 0) (rb_posZ opts))\<rparr>)
     \<and> (\<forall>t. result_object (renderBox (opts\<lparr>rb_textures := t\<rparr>) w) =
             result_object (renderBox opts w))"
proof -
  have "\<And>t. dflt (JSBool True) (rb_isSolid (opts\<lparr>rb_textures := t\<rparr>)) \<noteq> JSBool True"
    using assms by simp
  then have "\<And>t. box_object (opts\<lparr>rb_textures := t\<rparr>) = box_object opts"
    using assms by (simp add: box_object_wire)
  then show ?thesis
    using assms by (simp add: renderBox_result(2) box_object_wire)
qed

theorem renderBox_wireframe_witness:
  "dflt (JSBool True) (rb_isSolid box_solid_one) \<noteq> JSBool True
   \<and> dflt (JSBool True) (rb_isSolid box_solid_string) \<noteq> JSBool True
   \<and> map_option o_kind (result_object (renderBox box_solid_one init_world)) =
       Some LineSegments
   \<and> material_count (result_object (renderBox box_solid_one init_world)) = 1
   \<and> map_option o_kind (result_object (renderBox box_solid_string init_world)) =
       Some LineSegments"
proof -
  have h1: "dflt (JSBool True) (rb_isSolid box_solid_one) \<noteq> JSBool True"
    and h2: "dflt (JSBool True) (rb_isSolid box_solid_string) \<noteq> JSBool True"
    by (simp_all add: box_solid_one_def box_solid_string_def box_one_texture_def
        no_box_options_def dflt_def)
  show ?thesis
    using h1 h2
      renderBox_wireframe [OF h1, of init_world, THEN conjunct1]
      renderBox_wireframe [OF h2, of init_world, THEN conjunct1]
    by (simp add: new_LineSegments_def)
qed

subsection \<open>renderShape\<close>

lemma typeof_number: "typeof v = ''number'' \<longleftrightarrow> (\<exists>n. v = JSNumber n)"
  by (cases v) simp_all

lemma typeof_arg_function: "typeof_arg a = ''function'' \<longleftrightarrow> (\<exists>f. a = JSFunction f)"
proof (cases a)
  case (JSFunction f)
  then show ?thesis by simp
next
  case (NotFunction v)
  then show ?thesis by (cases v) simp_all
qed

lemma renderShape_result:
  "fst (renderShape positions opts w) = length (heap w)"
  "result_object (renderShape positions opts w) =
     Some ((new_Mesh (shape_geometry positions opts) (Single (shape_material opts)))
        \<lparr>o_scale := (dflt_opt (Fin 1) (rs_scaleX opts), dflt_opt (Fin 1) (rs_scaleY opts),
                     dflt_opt (Fin 1) (rs_scaleZ opts)),
         o_position := (dflt_opt (Fin 0) (rs_posX opts), dflt_opt (Fin 0) (rs_posY opts),
                        dflt_opt (Fin 0) (rs_posZ opts))\<rparr>)"
  by (simp_all add: renderShape_def result_object_def object_at_def alloc_def Let_def
      push_if_function_def add_if_scene_def scene_add_def split: jsarg.splits hostarg.splits)

lemma geometry_of_renderShape:
  "geometry_of (renderShape positions opts w) = Some (shape_geometry positions opts)"
  by (simp add: geometry_of_def renderShape_result(2) new_Mesh_def)

lemma expandByPoints_fin:
  "expandByPoints vs ((Fin a, Fin b, Fin c), (Fin d, Fin e, Fin f)) =
     ((Fin (fold min (map fst vs) a), Fin (fold min (map (fst \<circ> snd) vs) b),
       Fin (fold min (map (snd \<circ> snd) vs) c)),
      (Fin (fold max (map fst vs) d), Fin (fold max (map (fst \<circ> snd) vs) e),
       Fin (fold max (map (snd \<circ> snd) vs) f)))"
proof (induction vs arbitrary: a b c d e f)
  case Nil
  show ?case by simp
next
  case (Cons v vs)
  obtain x y z where v: "v = (x, y, z)" by (cases v) auto
  show ?case
    by (simp add: v Cons.IH min.commute max.commute)
qed

lemma setFromBufferAttribute_nonempty:
  assumes "position \<noteq> []"
  shows "setFromBufferAttribute position =
     ((Fin (Min (set (map fst position))), Fin (Min (set (map (fst \<circ> snd) position))),
       Fin (Min (set (map (snd \<circ> snd) position)))),
      (Fin (Max (set (map fst position))), Fin (Max (set (map (fst \<circ> snd) position))),
       Fin (Max (set (map (snd \<circ> snd) position)))))"
proof -
  obtain v vs where p: "position = v # vs"
    using assms by (cases position) auto
  obtain x y z where v: "v = (x, y, z)" by (cases v) auto
  have "setFromBufferAttribute position =
      expandByPoints vs ((Fin x, Fin y, Fin z), (Fin x, Fin y, Fin z))"
    by (simp add: setFromBufferAttribute_def box3_empty_def p v)
  also have "\<dots> = ((Fin (fold min (map fst vs) x), Fin (fold min (map (fst \<circ> snd) vs) y),
       Fin (fold min (map (snd \<circ> snd) vs) z)),
      (Fin (fold max (map fst vs) x), Fin (fold max (map (fst \<circ> snd) vs) y),
       Fin (fold max (map (snd \<circ> snd) vs) z)))"
    by (rule expandByPoints_fin)
  finally show ?thesis
    by (simp add: p v Min.set_eq_fold [symmetric] Max.set_eq_fold [symmetric])
qed

lemma uv_loop_concat:
  "uv_loop vs (nx, ny, nz) (sx, sy, sz) uv =
     uv @ concat (map (\<lambda>(x, y, z). [js_div (js_sub (Fin x) nx) sx,
                                     js_div (js_sub (Fin y) ny) sy]) vs)"
proof (induction vs arbitrary: uv)
  case Nil
  show ?case by simp
next
  case (Cons v vs)
  obtain x y z where v: "v = (x, y, z)" by (cases v) auto
  show ?case by (simp add: v Cons.IH)
qed

lemma getSize_fin:
  "\<not> mx < nx \<Longrightarrow> \<not> my < ny \<Longrightarrow> \<not> mz < nz \<Longrightarrow>
   getSize ((Fin nx, Fin ny, Fin nz), (Fin mx, Fin my, Fin mz)) =
     (Fin (mx - nx), Fin (my - ny), Fin (mz - nz))"
  by (simp add: js_sub_def)

lemma Min_le_Max_map:
  fixes f :: "vertex \<Rightarrow> real"
  assumes "vs \<noteq> []"
  shows "\<not> Max (set (map f vs)) < Min (set (map f vs))"
proof -
  obtain v where "v \<in> set vs"
    using assms by (cases vs) auto
  then have "Min (set (map f vs)) \<le> f v" and "f v \<le> Max (set (map f vs))"
    by simp_all
  then show ?thesis by linarith
qed

lemma drawn_geometry_uv:
  "drawn_geometry positions shape =
     (let position = positions (shape []);
          lox = Min (set (map fst position)); hix = Max (set (map fst position));
          loy = Min (set (map (fst \<circ> snd) position));
          hiy = Max (set (map (fst \<circ> snd) position))
      in ShapeGeometry (shape []) position
           (concat (map (\<lambda>(x, y, z). [js_div (Fin (x - lox)) (Fin (hix - lox)),
                                       js_div (Fin (y - loy)) (Fin (hiy - loy))]) position)))"
proof (cases "positions (shape []) = []")
  case True
  then show ?thesis
    by (simp add: drawn_geometry_def Let_def)
next
  case False
  define position where "position = positions (shape [])"
  define lox where "lox = Min (set (map fst position))"
  define hix where "hix = Max (set (map fst position))"
  define loy where "loy = Min (set (map (fst \<circ> snd) position))"
  define hiy where "hiy = Max (set (map (fst \<circ> snd) position))"
  define loz where "loz = Min (set (map (snd \<circ> snd) position))"
  define hiz where "hiz = Max (set (map (snd \<circ> snd) position))"
  have ne: "position \<noteq> []"
    using False by (simp add: position_def)
  have box: "setFromBufferAttribute position =
      ((Fin lox, Fin loy, Fin loz), (Fin hix, Fin hiy, Fin hiz))"
    unfolding lox_def loy_def loz_def hix_def hiy_def hiz_def
    by (rule setFromBufferAttribute_nonempty [OF ne])
  have size: "getSize ((Fin lox, Fin loy, Fin loz), (Fin hix, Fin hiy, Fin hiz)) =
      (Fin (hix - lox), Fin (hiy - loy), Fin (hiz - loz))"
    unfolding lox_def loy_def loz_def hix_def hiy_def hiz_def
    by (intro getSize_fin Min_le_Max_map ne)
  have "drawn_geometry positions shape =
      ShapeGeometry (shape []) position
        (uv_loop position (Fin lox, Fin loy, Fin loz)
           (Fin (hix - lox), Fin (hiy - loy), Fin (hiz - loz)) [])"
    unfolding drawn_geometry_def Let_def position_def [symmetric] box size by simp
  also have "\<dots> = ShapeGeometry (shape []) position
           (concat (map (\<lambda>(x, y, z). [js_div (Fin (x - lox)) (Fin (hix - lox)),
                                       js_div (Fin (y - loy)) (Fin (hiy - loy))]) position))"
    unfolding uv_loop_concat by (simp add: js_sub_def)
  finally show ?thesis
    unfolding Let_def position_def [symmetric] lox_def hix_def loy_def hiy_def .
qed


lemma shape_geometry_ring:
  "rs_radius opts = JSNumber radius \<Longrightarrow>
   shape_geometry positions opts =
     RingGeometry (dflt_opt (Fin 0) (rs_innerRadius opts)) radius
       (dflt_opt (Fin 128) (rs_segments opts)) (dflt_opt (Fin 1) (rs_phiSegments opts))
       (js_mul (dflt_opt (Fin 0) (rs_thetaStart opts)) Math_PI)
       (js_mul (dflt_opt (Fin 2) (rs_thetaLength opts)) Math_PI)"
  by (simp add: shape_geometry_def Let_def)

lemma shape_geometry_plane:
  "typeof (rs_radius opts) \<noteq> ''number'' \<Longrightarrow>
   rs_width opts = JSNumber width \<Longrightarrow> rs_height opts = JSNumber height \<Longrightarrow>
   shape_geometry positions opts =
     PlaneGeometry width height (dflt_opt (Fin 1) (rs_widthSegments opts))
       (dflt_opt (Fin 1) (rs_heightSegments opts))"
  by (simp add: shape_geometry_def Let_def typeof_number split: jsval.splits)

lemma shape_geometry_drawn:
  "typeof (rs_radius opts) \<noteq> ''number'' \<Longrightarrow>
   \<not> (typeof (rs_width opts) = ''number'' \<and> typeof (rs_height opts) = ''number'') \<Longrightarrow>
   rs_shape opts = JSFunction shape \<Longrightarrow>
   shape_geometry positions opts = drawn_geometry positions shape"
  by (auto simp add: shape_geometry_def Let_def typeof_number split: jsval.splits)

lemma shape_geometry_circle:
  "typeof (rs_radius opts) \<noteq> ''number'' \<Longrightarrow>
   \<not> (typeof (rs_width opts) = ''number'' \<and> typeof (rs_height opts) = ''number'') \<Longrightarrow>
   typeof_arg (rs_shape opts) \<noteq> ''function'' \<Longrightarrow>
   shape_geometry positions opts =
     CircleGeometry (Fin 10) (dflt_opt (Fin 128) (rs_segments opts))
       (js_mul (dflt_opt (Fin 0) (rs_thetaStart opts)) Math_PI)
       (js_mul (dflt_opt (Fin 2) (rs_thetaLength opts)) Math_PI)"
  by (auto simp add: shape_geometry_def Let_def typeof_number typeof_arg_function
      split: jsval.splits jsarg.splits)

text \<open>
  C6. \<open>renderShape\<close> chooses its geometry by this precedence. A numeric radius gives a
  ring of that outer radius, with the inner radius, the segment counts, and the start
  and sweep angles given as multiples of \<open>Math.PI\<close>. Else a numeric width and height
  give a plane of those dimensions. Else a draw callback gives the shape it draws, with
  a \<open>uv\<close> attribute that holds, for each vertex \<open>(x, y, z)\<close> of the position attribute,
  \<open>(x - min.x) / (max.x - min.x)\<close> and \<open>(y - min.y) / (max.y - min.y)\<close>, where \<open>min\<close>
  and \<open>max\<close> are the corners of the bounding box of all vertices. Else the geometry is
  a circle of radius 10.
\<close>

theorem renderShape_geometry:
  "(\<forall>radius. rs_radius opts = JSNumber radius \<longrightarrow>
      geometry_of (renderShape positions opts w) =
        Some (RingGeometry (dflt_opt (Fin 0) (rs_innerRadius opts)) radius
                (dflt_opt (Fin 128) (rs_segments opts))
                (dflt_opt (Fin 1) (rs_phiSegments opts))
                (js_mul (dflt_opt (Fin 0) (rs_thetaStart opts)) Math_PI)
                (js_mul (dflt_opt (Fin 2) (rs_thetaLength opts)) Math_PI)))
   \<and> (typeof (rs_radius opts) \<noteq> ''number'' \<longrightarrow>
        (\<forall>width height. rs_width opts = JSNumber width \<and> rs_height opts = JSNumber height \<longrightarrow>
           geometry_of (renderShape positions opts w) =
             Some (PlaneGeometry width height (dflt_opt (Fin 1) (rs_widthSegments opts))
                     (dflt_opt (Fin 1) (rs_heightSegments opts)))))
   \<and> (typeof (rs_radius opts) \<noteq> ''number'' \<and>
      \<not> (typeof (rs_width opts) = ''number'' \<and> typeof (rs_height opts) = ''number'') \<longrightarrow>
        (\<forall>shape. rs_shape opts = JSFunction shape \<longrightarrow>
           geometry_of (renderShape positions opts w) =
             Some (let position = positions (shape []);
                       lox = Min (set (map fst position));
                       hix = Max (set (map fst position));
                       loy = Min (set (map (fst \<circ> snd) position));
                       hiy = Max (set (map (fst \<circ> snd) position))
                   in ShapeGeometry (shape []) position
                        (concat (map (\<lambda>(x, y, z).
                           [js_div (Fin (x - lox)) (Fin (hix - lox)),
                            js_div (Fin (y - loy)) (Fin (hiy - loy))]) position)))))
   \<and> (typeof (rs_radius opts) \<noteq> ''number'' \<and>
      \<not> (typeof (rs_width opts) = ''number'' \<and> typeof (rs_height opts) = ''number'') \<and>
      typeof_arg (rs_shape opts) \<noteq> ''function'' \<longrightarrow>
        geometry_of (renderShape positions opts w) =
          Some (CircleGeometry (Fin 10) (dflt_opt (Fin 128) (rs_segments opts))
                  (js_mul (dflt_opt (Fin 0) (rs_thetaStart opts)) Math_PI)
                  (js_mul (dflt_opt (Fin 2) (rs_thetaLength opts)) Math_PI)))"
proof (intro conjI allI impI)
  fix radius
  assume "rs_radius opts = JSNumber radius"
  then show "geometry_of (renderShape positions opts w) =
        Some (RingGeometry (dflt_opt (Fin 0) (rs_innerRadius opts)) radius
                (dflt_opt (Fin 128) (rs_segments opts))
                (dflt_opt (Fin 1) (rs_phiSegments opts))
                (js_mul (dflt_opt (Fin 0) (rs_thetaStart opts)) Math_PI)
                (js_mul (dflt_opt (Fin 2) (rs_thetaLength opts)) Math_PI))"
    by (simp add: geometry_of_renderShape shape_geometry_ring)
next
  fix width height
  assume "typeof (rs_radius opts) \<noteq> ''number''"
    and "rs_width opts = JSNumber width \<and> rs_height opts = JSNumber height"
  then show "geometry_of (renderShape positions opts w) =
             Some (PlaneGeometry width height (dflt_opt (Fin 1) (rs_widthSegments opts))
                     (dflt_opt (Fin 1) (rs_heightSegments opts)))"
    by (simp add: geometry_of_renderShape shape_geometry_plane)
next
  fix shape
  assume "typeof (rs_radius opts) \<noteq> ''number'' \<and>
      \<not> (typeof (rs_width opts) = ''number'' \<and> typeof (rs_height opts) = ''number'')"
    and "rs_shape opts = JSFunction shape"
  then have "shape_geometry positions opts = drawn_geometry positions shape"
    by (intro shape_geometry_drawn) simp_all
  then show "geometry_of (renderShape positions opts w) =
             Some (let position = positions (shape []);
                       lox = Min (set (map fst position));
                       hix = Max (set (map fst position));
                       loy = Min (set (map (fst \<circ> snd) position));
                       hiy = Max (set (map (fst \<circ> snd) position))
                   in ShapeGeometry (shape []) position
                        (concat (map (\<lambda>(x, y, z).
                           [js_div (Fin (x - lox)) (Fin (hix - lox)),
                            js_div (Fin (y - loy)) (Fin (hiy - loy))]) position)))"
    unfolding geometry_of_renderShape drawn_geometry_uv [symmetric] by simp
next
  assume "typeof (rs_radius opts) \<noteq> ''number'' \<and>
      \<not> (typeof (rs_width opts) = ''number'' \<and> typeof (rs_height opts) = ''number'') \<and>
      typeof_arg (rs_shape opts) \<noteq> ''function''"
  then have "shape_geometry positions opts =
     CircleGeometry (Fin 10) (dflt_opt (Fin 128) (rs_segments opts))
       (js_mul (dflt_opt (Fin 0) (rs_thetaStart opts)) Math_PI)
       (js_mul (dflt_opt (Fin 2) (rs_thetaLength opts)) Math_PI)"
    by (intro shape_geometry_circle) simp_all
  then show "geometry_of (renderShape positions opts w) =
          Some (CircleGeometry (Fin 10) (dflt_opt (Fin 128) (rs_segments opts))
                  (js_mul (dflt_opt (Fin 0) (rs_thetaStart opts)) Math_PI)
                  (js_mul (dflt_opt (Fin 2) (rs_thetaLength opts)) Math_PI))"
    by (simp add: geometry_of_renderShape)
qed

theorem renderShape_geometry_witness:
  "rs_radius shape_triangle = JSNumber (Fin 5)
   \<and> geometry_of (renderShape no_positions shape_triangle init_world) =
       Some (RingGeometry (Fin 0) (Fin 5) (Fin 3) (Fin 1) (Fin 0) (Fin (2 * pi)))
   \<and> typeof (rs_radius shape_plane) \<noteq> ''number''
   \<and> geometry_of (renderShape no_positions shape_plane init_world) =
       Some (PlaneGeometry (Fin 10) (Fin 4) (Fin 1) (Fin 1))
   \<and> rs_shape shape_drawn = JSFunction draw_triangle
   \<and> geometry_of (renderShape outline_positions shape_drawn init_world) =
       Some (ShapeGeometry [MoveTo 80 20, LineTo 40 80, LineTo 120 80, LineTo 80 20]
               [(80, 20, 0), (40, 80, 0), (120, 80, 0), (80, 20, 0)]
               [Fin (1 / 2), Fin 0, Fin 0, Fin 1, Fin 1, Fin 1, Fin (1 / 2), Fin 0])
   \<and> typeof_arg (rs_shape no_shape_options) \<noteq> ''function''
   \<and> geometry_of (renderShape no_positions no_shape_options init_world) =
       Some (CircleGeometry (Fin 10) (Fin 128) (Fin 0) (Fin (2 * pi)))"
proof -
  note t = renderShape_geometry
  have r: "rs_radius shape_triangle = JSNumber (Fin 5)"
    by (simp add: shape_triangle_def no_shape_options_def)
  have g1: "geometry_of (renderShape no_positions shape_triangle init_world) =
       Some (RingGeometry (Fin 0) (Fin 5) (Fin 3) (Fin 1) (Fin 0) (Fin (2 * pi)))"
    using t [of shape_triangle no_positions init_world, THEN conjunct1, THEN spec, THEN mp,
        OF r]
    by (simp add: shape_triangle_def no_shape_options_def dflt_opt_def Math_PI_def)
  have p: "typeof (rs_radius shape_plane) \<noteq> ''number''"
    and p': "rs_width shape_plane = JSNumber (Fin 10) \<and> rs_height shape_plane = JSNumber (Fin 4)"
    by (simp_all add: shape_plane_def no_shape_options_def)
  have g2: "geometry_of (renderShape no_positions shape_plane init_world) =
       Some (PlaneGeometry (Fin 10) (Fin 4) (Fin 1) (Fin 1))"
    using t [of shape_plane no_positions init_world, THEN conjunct2, THEN conjunct1,
        THEN mp, OF p, THEN spec, THEN spec, THEN mp, OF p']
    by (simp add: shape_plane_def no_shape_options_def dflt_opt_def)
  have d: "typeof (rs_radius shape_drawn) \<noteq> ''number'' \<and>
      \<not> (typeof (rs_width shape_drawn) = ''number'' \<and> typeof (rs_height shape_drawn) = ''number'')"
    and d': "rs_shape shape_drawn = JSFunction draw_triangle"
    by (simp_all add: shape_drawn_def no_shape_options_def)
  have g3: "geometry_of (renderShape outline_positions shape_drawn init_world) =
       Some (ShapeGeometry [MoveTo 80 20, LineTo 40 80, LineTo 120 80, LineTo 80 20]
               [(80, 20, 0), (40, 80, 0), (120, 80, 0), (80, 20, 0)]
               [Fin (1 / 2), Fin 0, Fin 0, Fin 1, Fin 1, Fin 1, Fin (1 / 2), Fin 0])"
    using t [of shape_drawn outline_positions init_world, THEN conjunct2, THEN conjunct2,
        THEN conjunct1, THEN mp, OF d, THEN spec, THEN mp, OF d']
    by (simp add: draw_triangle_def outline_positions_def Let_def)
  have c: "typeof (rs_radius no_shape_options) \<noteq> ''number'' \<and>
      \<not> (typeof (rs_width no_shape_options) = ''number'' \<and>
         typeof (rs_height no_shape_options) = ''number'') \<and>
      typeof_arg (rs_shape no_shape_options) \<noteq> ''function''"
    by (simp add: no_shape_options_def)
  have g4: "geometry_of (renderShape no_positions no_shape_options init_world) =
       Some (CircleGeometry (Fin 10) (Fin 128) (Fin 0) (Fin (2 * pi)))"
    using t [of no_shape_options no_positions init_world, THEN conjunct2, THEN conjunct2,
        THEN conjunct2, THEN mp, OF c]
    by (simp add: no_shape_options_def dflt_opt_def Math_PI_def)
  show ?thesis
    using c by (intro conjI r g1 p g2 d' g3 g4) simp
qed

subsection \<open>setResponsive\<close>

lemma client_size_backing [simp]:
  "clientWidth (c\<lparr>cv_width := x\<rparr>) = clientWidth c"
  "clientHeight (c\<lparr>cv_width := x\<rparr>) = clientHeight c"
  "clientWidth (c\<lparr>cv_height := y\<rparr>) = clientWidth c"
  "clientHeight (c\<lparr>cv_height := y\<rparr>) = clientHeight c"
  by (simp_all add: clientWidth_def clientHeight_def)

lemma setBackground_invalid:
  "\<forall>s. sb_scene opts \<noteq> SceneObject s \<Longrightarrow>
   setBackground opts w =
     w\<lparr>console := console w @ [''Invalid options for 'setBackground' function.'']\<rparr>"
  by (cases "sb_scene opts") (simp_all add: setBackground_def Let_def console_error_def)

lemma responsive_or_default_cases:
  "responsive_or_default r = JSFunction f \<longleftrightarrow>
     r = JSFunction f \<or> (r = NotFunction JSUndefined \<and> f = default_responsive)"
  "responsive_or_default r = NotFunction v \<longleftrightarrow> r = NotFunction v \<and> v \<noteq> JSUndefined"
  by (auto simp add: responsive_or_default_def split: jsarg.splits jsval.splits)

lemma setResponsive_invalid:
  assumes "(\<forall>c. sr_canvas opts \<noteq> HTMLElementObject c) \<or>
     (\<forall>r. sr_renderer opts \<noteq> WebGLRendererObject r) \<or>
     is_camera (sr_camera opts) = None \<or>
     (\<exists>v. v \<noteq> JSUndefined \<and> sr_responsive opts = NotFunction v)"
  shows "setResponsive opts w =
     w\<lparr>console := console w @ [''Invalid options for 'setResponsive' function.'']\<rparr>"
  using assms
  by (auto simp add: setResponsive_def console_error_def responsive_or_default_def
      split: hostarg.splits option.splits jsarg.splits jsval.splits)

lemma setResponsive_valid:
  assumes "sr_canvas opts = HTMLElementObject canvas"
    and "sr_renderer opts = WebGLRendererObject renderer"
    and "is_camera (sr_camera opts) = Some camera"
    and "responsive_or_default (sr_responsive opts) = JSFunction responsive"
  shows "setResponsive opts w =
     w\<lparr>resizeListeners :=
          resizeListeners w @ [ResizeChange canvas renderer camera responsive],
       orientationListeners :=
          orientationListeners w @ [ResizeChange canvas renderer camera responsive]\<rparr>"
  using assms by (simp add: setResponsive_def)

lemma resizeChange_calls:
  "calls (resizeChange canvas renderer camera responsive w) =
     calls w @
       (let c1 = responsive (win w) (canvases w canvas);
            c4 = snd (setPixelRatio (devicePixelRatio (win w)) (renderers w renderer)
                       (c1\<lparr>cv_width := clientWidth c1, cv_height := clientHeight c1\<rparr>));
            c5 = canvases (resizeChange canvas renderer camera responsive w) canvas
        in [CallResponsive canvas,
            SetCanvasWidth canvas (clientWidth c1),
            SetCanvasHeight canvas (clientHeight c1),
            SetPixelRatio renderer (devicePixelRatio (win w)),
            SetSize renderer (clientWidth c4) (clientHeight c4),
            SetAspect camera (js_div (Fin (real (clientWidth c5))) (Fin (real (clientHeight c5)))),
            UpdateProjectionMatrix camera])"
  by (simp add: resizeChange_def Let_def split: prod.splits)

lemma resizeChange_camera:
  "cam_aspect (cameras (resizeChange canvas renderer camera responsive w) camera) =
     Some (js_div
       (Fin (real (clientWidth (canvases (resizeChange canvas renderer camera responsive w) canvas))))
       (Fin (real (clientHeight (canvases (resizeChange canvas renderer camera responsive w) canvas)))))"
  by (simp add: resizeChange_def Let_def split: prod.splits)

lemma resizeChange_renderer:
  "r_pixelRatio (renderers (resizeChange canvas renderer camera responsive w) renderer) =
     devicePixelRatio (win w)"
  by (simp add: resizeChange_def Let_def setPixelRatio_def setSize_def split: prod.splits)

lemma resizeChange_detached:
  assumes "\<forall>ratio width height c. r_onPixelRatio (renderers w renderer) ratio width height c = c"
    and "\<forall>ratio width height c. r_onSize (renderers w renderer) ratio width height c = c"
  shows "canvases (resizeChange canvas renderer camera responsive w) canvas =
     (let c1 = responsive (win w) (canvases w canvas)
      in c1\<lparr>cv_width := clientWidth c1, cv_height := clientHeight c1\<rparr>)"
  using assms
  by (simp add: resizeChange_def Let_def setPixelRatio_def setSize_def split: prod.splits)


text \<open>
  C8, as the source has it. With valid inputs \<open>setResponsive\<close> registers one handler for
  the resize event and the same one for the orientation change. The handler makes these
  calls, in this order: the policy on the canvas; the canvas's backing width and height
  set to its client width and height; the renderer's \<open>setPixelRatio\<close> with the device
  pixel ratio and then its \<open>setSize\<close> with the client size; the camera's aspect set to
  client width over client height, and \<open>updateProjectionMatrix\<close>. Afterwards the
  camera's aspect is the client width over the client height of the canvas. The backing
  size equals the displayed size when the two renderer methods leave the canvas as it
  is.
\<close>

theorem resizeChange_sequence:
  "(sr_canvas opts = HTMLElementObject canvas \<and> sr_renderer opts = WebGLRendererObject renderer \<and>
    is_camera (sr_camera opts) = Some camera \<and>
    responsive_or_default (sr_responsive opts) = JSFunction responsive \<longrightarrow>
      setResponsive opts w0 =
        w0\<lparr>resizeListeners :=
             resizeListeners w0 @ [ResizeChange canvas renderer camera responsive],
           orientationListeners :=
             orientationListeners w0 @ [ResizeChange canvas renderer camera responsive]\<rparr>)
   \<and> run_listeners [ResizeChange canvas renderer camera responsive] w =
       resizeChange canvas renderer camera responsive w
   \<and> (let c1 = responsive (win w) (canvases w canvas);
           c3 = c1\<lparr>cv_width := clientWidth c1, cv_height := clientHeight c1\<rparr>;
           c4 = snd (setPixelRatio (devicePixelRatio (win w)) (renderers w renderer) c3);
           w' = resizeChange canvas renderer camera responsive w;
           c5 = canvases w' canvas;
           aspect = js_div (Fin (real (clientWidth c5))) (Fin (real (clientHeight c5)))
       in calls w' = calls w @
            [CallResponsive canvas,
             SetCanvasWidth canvas (clientWidth c1),
             SetCanvasHeight canvas (clientHeight c1),
             SetPixelRatio renderer (devicePixelRatio (win w)),
             SetSize renderer (clientWidth c4) (clientHeight c4),
             SetAspect camera aspect,
             UpdateProjectionMatrix camera]
          \<and> cam_aspect (cameras w' camera) = Some aspect
          \<and> r_pixelRatio (renderers w' renderer) = devicePixelRatio (win w)
          \<and> ((\<forall>ratio width height c.
                 r_onPixelRatio (renderers w renderer) ratio width height c = c) \<and>
              (\<forall>ratio width height c.
                 r_onSize (renderers w renderer) ratio width height c = c) \<longrightarrow>
                c5 = c3 \<and> cv_width c5 = clientWidth c5 \<and> cv_height c5 = clientHeight c5))"
proof (intro conjI)
  show "sr_canvas opts = HTMLElementObject canvas \<and> sr_renderer opts = WebGLRendererObject renderer \<and>
    is_camera (sr_camera opts) = Some camera \<and>
    responsive_or_default (sr_responsive opts) = JSFunction responsive \<longrightarrow>
      setResponsive opts w0 =
        w0\<lparr>resizeListeners :=
             resizeListeners w0 @ [ResizeChange canvas renderer camera responsive],
           orientationListeners :=
             orientationListeners w0 @ [ResizeChange canvas renderer camera responsive]\<rparr>"
    using setResponsive_valid by blast
  show "run_listeners [ResizeChange canvas renderer camera responsive] w =
       resizeChange canvas renderer camera responsive w"
    by simp
  show "let c1 = responsive (win w) (canvases w canvas);
           c3 = c1\<lparr>cv_width := clientWidth c1, cv_height := clientHeight c1\<rparr>;
           c4 = snd (setPixelRatio (devicePixelRatio (win w)) (renderers w renderer) c3);
           w' = resizeChange canvas renderer camera responsive w;
           c5 = canvases w' canvas;
           aspect = js_div (Fin (real (clientWidth c5))) (Fin (real (clientHeight c5)))
       in calls w' = calls w @
            [CallResponsive canvas,
             SetCanvasWidth canvas (clientWidth c1),
             SetCanvasHeight canvas (clientHeight c1),
             SetPixelRatio renderer (devicePixelRatio (win w)),
             SetSize renderer (clientWidth c4) (clientHeight c4),
             SetAspect camera aspect,
             UpdateProjectionMatrix camera]
          \<and> cam_aspect (cameras w' camera) = Some aspect
          \<and> r_pixelRatio (renderers w' renderer) = devicePixelRatio (win w)
          \<and> ((\<forall>ratio width height c.
                 r_onPixelRatio (renderers w renderer) ratio width height c = c) \<and>
              (\<forall>ratio width height c.
                 r_onSize (renderers w renderer) ratio width height c = c) \<longrightarrow>
                c5 = c3 \<and> cv_width c5 = clientWidth c5 \<and> cv_height c5 = clientHeight c5)"
    unfolding Let_def
  proof (intro conjI impI)
    show "calls (resizeChange canvas renderer camera responsive w) = calls w @
       [CallResponsive canvas,
        SetCanvasWidth canvas (clientWidth (responsive (win w) (canvases w canvas))),
        SetCanvasHeight canvas (clientHeight (responsive (win w) (canvases w canvas))),
        SetPixelRatio renderer (devicePixelRatio (win w)),
        SetSize renderer
          (clientWidth (snd (setPixelRatio (devicePixelRatio (win w)) (renderers w renderer)
             ((responsive (win w) (canvases w canvas))
                \<lparr>cv_width := clientWidth (responsive (win w) (canvases w canvas)),
                 cv_height := clientHeight (responsive (win w) (canvases w canvas))\<rparr>))))
          (clientHeight (snd (setPixelRatio (devicePixelRatio (win w)) (renderers w renderer)
             ((responsive (win w) (canvases w canvas))
                \<lparr>cv_width := clientWidth (responsive (win w) (canvases w canvas)),
                 cv_height := clientHeight (responsive (win w) (canvases w canvas))\<rparr>)))),
        SetAspect camera
          (js_div
            (Fin (real (clientWidth
               (canvases (resizeChange canvas renderer camera responsive w) canvas))))
            (Fin (real (clientHeight
               (canvases (resizeChange canvas renderer camera responsive w) canvas))))),
        UpdateProjectionMatrix camera]"
      using resizeChange_calls [of canvas renderer camera responsive w]
      by (simp add: Let_def)
    show "cam_aspect (cameras (resizeChange canvas renderer camera responsive w) camera) =
       Some (js_div
            (Fin (real (clientWidth
               (canvases (resizeChange canvas renderer camera responsive w) canvas))))
            (Fin (real (clientHeight
               (canvases (resizeChange canvas renderer camera responsive w) canvas)))))"
      by (rule resizeChange_camera)
    show "r_pixelRatio (renderers (resizeChange canvas renderer camera responsive w) renderer) =
       devicePixelRatio (win w)"
      by (rule resizeChange_renderer)
  next
    assume a: "(\<forall>ratio width height c.
                 r_onPixelRatio (renderers w renderer) ratio width height c = c) \<and>
              (\<forall>ratio width height c.
                 r_onSize (renderers w renderer) ratio width height c = c)"
    then have e: "canvases (resizeChange canvas renderer camera responsive w) canvas =
       (responsive (win w) (canvases w canvas))
          \<lparr>cv_width := clientWidth (responsive (win w) (canvases w canvas)),
           cv_height := clientHeight (responsive (win w) (canvases w canvas))\<rparr>"
      using resizeChange_detached [of w renderer canvas camera responsive]
      by (simp add: Let_def)
    show "canvases (resizeChange canvas renderer camera responsive w) canvas =
       (responsive (win w) (canvases w canvas))
          \<lparr>cv_width := clientWidth (responsive (win w) (canvases w canvas)),
           cv_height := clientHeight (responsive (win w) (canvases w canvas))\<rparr>"
      by (rule e)
    show "cv_width (canvases (resizeChange canvas renderer camera responsive w) canvas) =
       clientWidth (canvases (resizeChange canvas renderer camera responsive w) canvas)"
      unfolding e by simp
    show "cv_height (canvases (resizeChange canvas renderer camera responsive w) canvas) =
       clientHeight (canvases (resizeChange canvas renderer camera responsive w) canvas)"
      unfolding e by simp
  qed
qed

lemma resized_canvas:
  "clientWidth (default_responsive (win init_world) page_canvas) = 800"
  "clientHeight (default_responsive (win init_world) page_canvas) = 600"
  by (simp_all add: clientWidth_def clientHeight_def default_responsive_def init_world_def
      page_canvas_def)

text \<open>
  The library's renderer, when the canvas is its output, sets the backing size of the
  canvas itself: \<open>setSize(width, height)\<close> makes it \<open>floor(width * pixelRatio)\<close> by
  \<open>floor(height * pixelRatio)\<close>. With a device pixel ratio of 2 the handler leaves a
  backing width of 1600 on a canvas displayed 800 wide: C8 as stated fails.
\<close>

theorem resizeChange_backing_counterexample:
  "cv_width (canvases (step no_positions (WindowResize 800 600)
      (setResponsive resp_valid hidpi_world)) 0) = 1600
   \<and> clientWidth (canvases (step no_positions (WindowResize 800 600)
      (setResponsive resp_valid hidpi_world)) 0) = 800
   \<and> cv_height (canvases (step no_positions (WindowResize 800 600)
      (setResponsive resp_valid hidpi_world)) 0) = 1200
   \<and> clientHeight (canvases (step no_positions (WindowResize 800 600)
      (setResponsive resp_valid hidpi_world)) 0) = 600"
proof -
  have r: "setResponsive resp_valid hidpi_world =
      hidpi_world\<lparr>resizeListeners := [ResizeChange 0 0 0 default_responsive],
                  orientationListeners := [ResizeChange 0 0 0 default_responsive]\<rparr>"
    by (simp add: setResponsive_def resp_valid_def responsive_or_default_def hidpi_world_def
        init_world_def)
  have c: "canvases (step no_positions (WindowResize 800 600)
      (setResponsive resp_valid hidpi_world)) 0 =
      page_canvas\<lparr>cv_style_width := ''800px'', cv_style_height := ''600px'',
                  cv_width := 1600, cv_height := 1200\<rparr>"
    unfolding r
    by (simp add: hidpi_world_def init_world_def resizeChange_def Let_def setPixelRatio_def
        setSize_def attached_renderer_def output_resize_def default_responsive_def
        clientWidth_def clientHeight_def page_canvas_def)
  show ?thesis
    unfolding c by (simp add: clientWidth_def clientHeight_def page_canvas_def)
qed


theorem resizeChange_sequence_witness:
  "sr_canvas resp_valid = HTMLElementObject 0
   \<and> sr_renderer resp_valid = WebGLRendererObject 0
   \<and> is_camera (sr_camera resp_valid) = Some 0
   \<and> responsive_or_default (sr_responsive resp_valid) = JSFunction default_responsive
   \<and> resizeListeners (setResponsive resp_valid init_world) =
       [ResizeChange 0 0 0 default_responsive]
   \<and> cv_width (canvases (resizeChange 0 0 0 default_responsive init_world) 0) = 800
   \<and> clientWidth (canvases (resizeChange 0 0 0 default_responsive init_world) 0) = 800
   \<and> cv_height (canvases (resizeChange 0 0 0 default_responsive init_world) 0) = 600
   \<and> clientHeight (canvases (resizeChange 0 0 0 default_responsive init_world) 0) = 600
   \<and> cam_aspect (cameras (resizeChange 0 0 0 default_responsive init_world) 0) =
       Some (Fin (4 / 3))"
proof -
  note t = resizeChange_sequence [of resp_valid 0 0 0 default_responsive init_world init_world,
      unfolded Let_def]
  have v: "sr_canvas resp_valid = HTMLElementObject 0 \<and>
      sr_renderer resp_valid = WebGLRendererObject 0 \<and>
      is_camera (sr_camera resp_valid) = Some 0 \<and>
      responsive_or_default (sr_responsive resp_valid) = JSFunction default_responsive"
    by (simp add: resp_valid_def responsive_or_default_def)
  have g1: "resizeListeners (setResponsive resp_valid init_world) =
       [ResizeChange 0 0 0 default_responsive]"
    unfolding t [THEN conjunct1, THEN mp, OF v] by (simp add: init_world_def)
  have h: "(\<forall>ratio width height c.
        r_onPixelRatio (renderers init_world 0) ratio width height c = c) \<and>
      (\<forall>ratio width height c. r_onSize (renderers init_world 0) ratio width height c = c)"
    by (simp add: init_world_def detached_renderer_def)
  note d = t [THEN conjunct2, THEN conjunct2, THEN conjunct2, THEN conjunct2, THEN conjunct2,
      THEN mp, OF h]
  have c: "canvases init_world 0 = page_canvas"
    by (simp add: init_world_def)
  have g2: "cv_width (canvases (resizeChange 0 0 0 default_responsive init_world) 0) = 800"
    and g4: "cv_height (canvases (resizeChange 0 0 0 default_responsive init_world) 0) = 600"
    unfolding d [THEN conjunct1] by (simp_all add: c resized_canvas)
  have g3: "clientWidth (canvases (resizeChange 0 0 0 default_responsive init_world) 0) = 800"
    using d [THEN conjunct2, THEN conjunct1] g2 by simp
  have g5: "clientHeight (canvases (resizeChange 0 0 0 default_responsive init_world) 0) = 600"
    using d [THEN conjunct2, THEN conjunct2] g4 by simp
  have g6: "cam_aspect (cameras (resizeChange 0 0 0 default_responsive init_world) 0) =
       Some (Fin (4 / 3))"
    unfolding t [THEN conjunct2, THEN conjunct2, THEN conjunct2, THEN conjunct1] g3 g5
    by simp
  show ?thesis
    using v by (intro conjI g1 g2 g3 g4 g5 g6) simp_all
qed

subsection \<open>Invalid options\<close>

lemma renderShape_console:
  "console (snd (renderShape positions opts w)) = console w"
  "length (heap (snd (renderShape positions opts w))) = Suc (length (heap w))"
  by (simp_all add: renderShape_def alloc_def Let_def push_if_function_def add_if_scene_def
      scene_add_def split: jsarg.splits hostarg.splits)

lemma renderBox_console:
  "console (snd (renderBox opts w)) = console w"
  "length (heap (snd (renderBox opts w))) = Suc (length (heap w))"
  by (simp_all add: renderBox_def alloc_def Let_def push_if_function_def add_if_scene_def
      scene_add_def split: jsarg.splits hostarg.splits)

text \<open>
  C3, as the source has it. \<open>setBackground\<close> given a \<open>scene\<close> that is not a Scene, and
  \<open>setResponsive\<close> given a canvas, renderer, camera or policy of the wrong type, write
  one diagnostic message and change nothing else in the world. The renderers validate
  nothing: \<open>renderShape\<close> and \<open>renderBox\<close> write no message and create their object for
  every options object.
\<close>

theorem invalid_configuration:
  "((\<forall>s. sb_scene bg \<noteq> SceneObject s) \<longrightarrow>
      setBackground bg w =
        w\<lparr>console := console w @ [''Invalid options for 'setBackground' function.'']\<rparr>)
   \<and> ((\<forall>c. sr_canvas rsp \<noteq> HTMLElementObject c) \<or>
      (\<forall>r. sr_renderer rsp \<noteq> WebGLRendererObject r) \<or>
      is_camera (sr_camera rsp) = None \<or>
      (\<exists>v. v \<noteq> JSUndefined \<and> sr_responsive rsp = NotFunction v) \<longrightarrow>
      setResponsive rsp w =
        w\<lparr>console := console w @ [''Invalid options for 'setResponsive' function.'']\<rparr>)
   \<and> console (snd (renderShape positions shp w)) = console w
   \<and> length (heap (snd (renderShape positions shp w))) = Suc (length (heap w))
   \<and> console (snd (renderBox box w)) = console w
   \<and> length (heap (snd (renderBox box w))) = Suc (length (heap w))"
  using setBackground_invalid [of bg w] setResponsive_invalid [of rsp w]
  by (simp only: renderShape_console renderBox_console) blast

theorem invalid_configuration_witness:
  "(\<forall>s. sb_scene no_bg_options \<noteq> SceneObject s)
   \<and> console (setBackground no_bg_options init_world) =
       [''Invalid options for 'setBackground' function.'']
   \<and> scenes (setBackground no_bg_options init_world) = scenes init_world
   \<and> (\<forall>c. sr_canvas no_resp_options \<noteq> HTMLElementObject c)
   \<and> console (setResponsive no_resp_options init_world) =
       [''Invalid options for 'setResponsive' function.'']
   \<and> resizeListeners (setResponsive no_resp_options init_world) = []"
proof -
  note t = invalid_configuration [of no_bg_options init_world no_resp_options no_positions
      no_shape_options no_box_options]
  have b: "\<forall>s. sb_scene no_bg_options \<noteq> SceneObject s"
    by (simp add: no_bg_options_def)
  have r: "\<forall>c. sr_canvas no_resp_options \<noteq> HTMLElementObject c"
    by (simp add: no_resp_options_def)
  have g1: "console (setBackground no_bg_options init_world) =
       [''Invalid options for 'setBackground' function.'']"
    and g2: "scenes (setBackground no_bg_options init_world) = scenes init_world"
    unfolding t [THEN conjunct1, THEN mp, OF b] by (simp_all add: init_world_def)
  have r': "(\<forall>c. sr_canvas no_resp_options \<noteq> HTMLElementObject c) \<or>
      (\<forall>r. sr_renderer no_resp_options \<noteq> WebGLRendererObject r) \<or>
      is_camera (sr_camera no_resp_options) = None \<or>
      (\<exists>v. v \<noteq> JSUndefined \<and> sr_responsive no_resp_options = NotFunction v)"
    using r by blast
  have g3: "console (setResponsive no_resp_options init_world) =
       [''Invalid options for 'setResponsive' function.'']"
    and g4: "resizeListeners (setResponsive no_resp_options init_world) = []"
    unfolding t [THEN conjunct2, THEN conjunct1, THEN mp, OF r']
    by (simp_all add: init_world_def)
  show ?thesis
    by (intro conjI b g1 g2 r g3 g4)
qed

text \<open>
  \<open>renderShape({ radius: "5", scene })\<close>: the radius has the wrong type, no message is
  written, and the default circle is created and added to the scene. C3 as stated
  fails.
\<close>

theorem renderShape_invalid_counterexample:
  "typeof (rs_radius shape_bad_radius) = ''string''
   \<and> console (snd (renderShape no_positions shape_bad_radius init_world)) = []
   \<and> sc_children (scenes init_world 0) = []
   \<and> sc_children (scenes (snd (renderShape no_positions shape_bad_radius init_world)) 0) = [0]
   \<and> length (heap (snd (renderShape no_positions shape_bad_radius init_world))) = 1"
  by (simp add: shape_bad_radius_def no_shape_options_def renderShape_def alloc_def Let_def
      push_if_function_def add_if_scene_def scene_add_def init_world_def empty_scene_def)

subsection \<open>Load callbacks of renderText and renderGltfModel\<close>

lemma play_each_all: "play_each clips m = m\<lparr>mx_playing := mx_playing m @ clips\<rparr>"
  by (induction clips arbitrary: m) simp_all


lemma push_if_function_fields:
  "heap (push_if_function cb a w) = heap w"
  "promises (push_if_function cb a w) = promises w"
  "loads (push_if_function cb a w) = loads w"
  "console (push_if_function cb a w) = console w"
  "scenes (push_if_function cb a w) = scenes w"
  "animationList (push_if_function cb a w) =
     (case cb of
        JSFunction f \<Rightarrow> animationList w @ [\<lparr>element = a, animate = f\<rparr>]
      | NotFunction _ \<Rightarrow> animationList w)"
  by (simp_all add: push_if_function_def split: jsarg.splits)

lemma add_if_scene_fields:
  "heap (add_if_scene sc a w) = heap w"
  "promises (add_if_scene sc a w) = promises w"
  "loads (add_if_scene sc a w) = loads w"
  "console (add_if_scene sc a w) = console w"
  "animationList (add_if_scene sc a w) = animationList w"
  by (simp_all add: add_if_scene_def scene_add_def split: hostarg.splits)

lemma resolve_fields:
  "heap (resolve p v w) = heap w"
  "loads (resolve p v w) = loads w"
  "console (resolve p v w) = console w"
  "animationList (resolve p v w) = animationList w"
  "scenes (resolve p v w) = scenes w"
  "promises (resolve p v w) =
     (if p < length (promises w) \<and> promises w ! p = Pending
      then (promises w)[p := Resolved v] else promises w)"
  by (simp_all add: resolve_def)

lemma set_mixer_fields:
  "promises (set_mixer a m w) = promises w"
  "loads (set_mixer a m w) = loads w"
  "console (set_mixer a m w) = console w"
  "animationList (set_mixer a m w) = animationList w"
  "length (heap (set_mixer a m w)) = length (heap w)"
  by (simp_all add: set_mixer_def split: heapobj.splits)

lemma set_transform_fields:
  "promises (set_transform a s p w) = promises w"
  "loads (set_transform a s p w) = loads w"
  "console (set_transform a s p w) = console w"
  "animationList (set_transform a s p w) = animationList w"
  "length (heap (set_transform a s p w)) = length (heap w)"
  by (simp_all add: set_transform_def split: heapobj.splits)

lemmas prim_fields = push_if_function_fields add_if_scene_fields resolve_fields
  set_mixer_fields set_transform_fields

lemma renderText_effect:
  "renderText opts w =
     (length (promises w),
      w\<lparr>promises := promises w @ [Pending],
        loads := loads w @
          [Some \<lparr>ld_loader = FontLoader,
                 ld_url = JSString (dflt_opt default_font (rt_font opts)),
                 ld_onLoad = OnFont opts (length (promises w))\<rparr>]\<rparr>)"
  by (simp add: renderText_def start_load_def Let_def)

lemma renderGltfModel_effect:
  "renderGltfModel opts w =
     (length (promises w),
      w\<lparr>promises := promises w @ [Pending],
        loads := loads w @
          [Some \<lparr>ld_loader = GLTFLoader,
                 ld_url = JSString (dflt_opt [] (rg_model opts)),
                 ld_onLoad = OnGltf opts (length (promises w))\<rparr>]\<rparr>)"
  by (simp add: renderGltfModel_def start_load_def Let_def)

lemma text_loaded_heap:
  "heap (text_loaded opts p loadedFont w) = heap w @ [Object3D (text_mesh opts loadedFont)]"
  by (auto simp add: text_loaded_def alloc_def Let_def prim_fields split: jsarg.splits)

lemma text_loaded_promises:
  "promises (text_loaded opts p loadedFont w) =
     (if p < length (promises w) \<and> promises w ! p = Pending
      then (promises w)[p := Resolved (length (heap w))] else promises w)"
  by (auto simp add: text_loaded_def alloc_def Let_def prim_fields split: jsarg.splits)

lemma text_loaded_animationList:
  "animationList (text_loaded opts p loadedFont w) =
     (case rt_animate opts of
        JSFunction f \<Rightarrow> animationList w @ [\<lparr>element = length (heap w), animate = f\<rparr>]
      | NotFunction _ \<Rightarrow> animationList w)"
  by (auto simp add: text_loaded_def alloc_def Let_def prim_fields split: jsarg.splits)

lemma text_loaded_frame:
  "loads (text_loaded opts p loadedFont w) = loads w"
  "console (text_loaded opts p loadedFont w) = console w"
  by (auto simp add: text_loaded_def alloc_def Let_def prim_fields split: jsarg.splits)

lemma font_done_step:
  "step positions (FontLoadDone (length (loads w)) loadedFont) (snd (renderText opts w)) =
     text_loaded opts (length (promises w)) loadedFont
       (finish_load (length (loads w)) (snd (renderText opts w)))"
  by (simp add: renderText_effect pending_load_def)

lemma gltf_done_step:
  "step positions (GltfLoadDone (length (loads w)) lg) (snd (renderGltfModel opts w)) =
     gltf_loaded opts (length (promises w)) lg
       (finish_load (length (loads w)) (snd (renderGltfModel opts w)))"
  by (simp add: renderGltfModel_effect pending_load_def)

lemma gltf_loaded_heap:
  "heap (gltf_loaded opts p lg w) =
     heap w @
       [Object3D ((lg_root lg)
          \<lparr>o_scale := (dflt_opt (Fin 1) (rg_scaleX opts), dflt_opt (Fin 1) (rg_scaleY opts),
                       dflt_opt (Fin 1) (rg_scaleZ opts)),
           o_position := (dflt_opt (Fin 0) (rg_posX opts), dflt_opt (Fin 0) (rg_posY opts),
                          dflt_opt (Fin 0) (rg_posZ opts))\<rparr>),
        Gltf \<lparr>g_scene = length (heap w), g_animations = lg_animations lg,
              g_mixer =
                (case rg_animate opts of
                   JSFunction f \<Rightarrow>
                     map_option (\<lambda>clips. \<lparr>mx_root = length (heap w), mx_playing = clips\<rparr>)
                       (lg_animations lg)
                 | NotFunction _ \<Rightarrow> None)\<rparr>]"
  by (auto simp add: gltf_loaded_def alloc_def Let_def push_if_function_def add_if_scene_def
      scene_add_def resolve_def set_mixer_def set_transform_def nth_append play_each_all
      list_update_append split: jsarg.splits hostarg.splits option.splits)

lemma gltf_loaded_promises:
  "promises (gltf_loaded opts p lg w) =
     (if p < length (promises w) \<and> promises w ! p = Pending
      then (promises w)[p := Resolved (Suc (length (heap w)))] else promises w)"
  by (auto simp add: gltf_loaded_def alloc_def Let_def prim_fields
      split: jsarg.splits option.splits)

lemma gltf_loaded_animationList:
  "animationList (gltf_loaded opts p lg w) =
     (case rg_animate opts of
        JSFunction f \<Rightarrow> animationList w @ [\<lparr>element = Suc (length (heap w)), animate = f\<rparr>]
      | NotFunction _ \<Rightarrow> animationList w)"
  by (auto simp add: gltf_loaded_def alloc_def Let_def prim_fields
      split: jsarg.splits option.splits)

lemma gltf_loaded_frame:
  "loads (gltf_loaded opts p lg w) = loads w"
  "console (gltf_loaded opts p lg w) = console w"
  by (auto simp add: gltf_loaded_def alloc_def Let_def prim_fields
      split: jsarg.splits option.splits)


lemma text_mesh_fields:
  "o_geometry (text_mesh opts loadedFont) = Some (text_geometry opts loadedFont)"
  "o_material (text_mesh opts loadedFont) = Some (text_material opts)"
  "fst (o_position (text_mesh opts loadedFont)) =
     text_posX opts (f_boundsX loadedFont (text_geometry opts loadedFont))"
  by (simp_all add: text_mesh_def Let_def new_Mesh_def)

lemma font_done_fields:
  "heap (step positions (FontLoadDone (length (loads w)) loadedFont)
           (snd (renderText opts w))) =
     heap w @ [Object3D (text_mesh opts loadedFont)]"
  "promises (step positions (FontLoadDone (length (loads w)) loadedFont)
           (snd (renderText opts w))) =
     promises w @ [Resolved (length (heap w))]"
  "animationList (step positions (FontLoadDone (length (loads w)) loadedFont)
           (snd (renderText opts w))) =
     (case rt_animate opts of
        JSFunction f \<Rightarrow> animationList w @ [\<lparr>element = length (heap w), animate = f\<rparr>]
      | NotFunction _ \<Rightarrow> animationList w)"
  unfolding font_done_step
  by (simp_all add: text_loaded_heap text_loaded_promises text_loaded_animationList
      renderText_effect finish_load_def nth_append split: jsarg.splits)

lemma gltf_done_fields:
  "heap (step positions (GltfLoadDone (length (loads w)) lg)
           (snd (renderGltfModel opts w))) =
     heap w @
       [Object3D ((lg_root lg)
          \<lparr>o_scale := (dflt_opt (Fin 1) (rg_scaleX opts), dflt_opt (Fin 1) (rg_scaleY opts),
                       dflt_opt (Fin 1) (rg_scaleZ opts)),
           o_position := (dflt_opt (Fin 0) (rg_posX opts), dflt_opt (Fin 0) (rg_posY opts),
                          dflt_opt (Fin 0) (rg_posZ opts))\<rparr>),
        Gltf \<lparr>g_scene = length (heap w), g_animations = lg_animations lg,
              g_mixer =
                (case rg_animate opts of
                   JSFunction f \<Rightarrow>
                     map_option (\<lambda>clips. \<lparr>mx_root = length (heap w), mx_playing = clips\<rparr>)
                       (lg_animations lg)
                 | NotFunction _ \<Rightarrow> None)\<rparr>]"
  "promises (step positions (GltfLoadDone (length (loads w)) lg)
           (snd (renderGltfModel opts w))) =
     promises w @ [Resolved (Suc (length (heap w)))]"
  "animationList (step positions (GltfLoadDone (length (loads w)) lg)
           (snd (renderGltfModel opts w))) =
     (case rg_animate opts of
        JSFunction f \<Rightarrow> animationList w @ [\<lparr>element = Suc (length (heap w)), animate = f\<rparr>]
      | NotFunction _ \<Rightarrow> animationList w)"
  unfolding gltf_done_step
  by (simp_all add: gltf_loaded_heap gltf_loaded_promises gltf_loaded_animationList
      renderGltfModel_effect finish_load_def nth_append split: jsarg.splits)

lemma text_mesh_scale:
  "fst (o_scale (text_mesh opts loadedFont)) = dflt_opt (Fin 1) (rt_scaleX opts)"
  by (simp add: text_mesh_def Let_def new_Mesh_def)

lemma span_x_finite:
  assumes "fst (o_position mesh) = Fin p" and "fst (o_scale mesh) = Fin sx"
  shows "span_x mesh (Fin lo, Fin hi) = (Fin (p + sx * lo), Fin (p + sx * hi))"
  using assms by (simp add: span_x_def)

text \<open>
  C5, as the source has it. When the font of a \<open>renderText\<close> call has loaded, the
  promise of the call is resolved with the new mesh. If the call gave no \<open>posX\<close>, the x
  position of the mesh is \<open>-0.5 * (max.x - min.x)\<close> of the bounding box computed for
  its geometry: for a finite box from \<open>lo\<close> to \<open>hi\<close>, minus half the width. The text
  then lies from \<open>scaleX * lo - (hi - lo) / 2\<close> to \<open>scaleX * hi - (hi - lo) / 2\<close>, which
  is centred at the origin exactly when \<open>scaleX * (lo + hi) = hi - lo\<close>: so it is
  when \<open>scaleX\<close> is 1 and the box starts at 0. A \<open>posX\<close> that was given is the x
  position, unchanged.
\<close>

theorem renderText_centering:
  "(let r = renderText opts w;
        w' = step positions (FontLoadDone (length (loads w)) loadedFont) (snd r);
        boundsX = f_boundsX loadedFont (text_geometry opts loadedFont)
    in promises w' ! fst r = Resolved (length (heap w))
       \<and> (\<exists>mesh. object_at w' (length (heap w)) = Some mesh \<and>
             o_geometry mesh = Some (text_geometry opts loadedFont) \<and>
             (rt_posX opts = None \<longrightarrow>
                fst (o_position mesh) = js_mul (Fin (- 0.5)) (js_sub (snd boundsX) (fst boundsX))) \<and>
             (\<forall>lo hi. rt_posX opts = None \<and> boundsX = (Fin lo, Fin hi) \<longrightarrow>
                fst (o_position mesh) = Fin (- ((hi - lo) / 2))) \<and>
             (\<forall>lo hi sx. rt_posX opts = None \<and> boundsX = (Fin lo, Fin hi) \<and>
                         dflt_opt (Fin 1) (rt_scaleX opts) = Fin sx \<longrightarrow>
                span_x mesh boundsX =
                  (Fin (sx * lo - (hi - lo) / 2), Fin (sx * hi - (hi - lo) / 2)) \<and>
                (centred_x (span_x mesh boundsX) \<longleftrightarrow> sx * (lo + hi) = hi - lo)) \<and>
             (\<forall>lo hi. rt_posX opts = None \<and> boundsX = (Fin lo, Fin hi) \<and>
                      dflt_opt (Fin 1) (rt_scaleX opts) = Fin 1 \<and> lo = 0 \<longrightarrow>
                centred_x (span_x mesh boundsX)) \<and>
             (\<forall>posX. rt_posX opts = Some posX \<longrightarrow> fst (o_position mesh) = posX)))"
proof -
  let ?w = "step positions (FontLoadDone (length (loads w)) loadedFont) (snd (renderText opts w))"
  let ?b = "f_boundsX loadedFont (text_geometry opts loadedFont)"
  let ?m = "text_mesh opts loadedFont"
  have p: "promises ?w ! fst (renderText opts w) = Resolved (length (heap w))"
    unfolding font_done_fields(2) by (simp add: renderText_effect)
  have o: "object_at ?w (length (heap w)) = Some ?m"
    by (simp add: object_at_def font_done_fields(1) del: step.simps)
  have x1: "rt_posX opts = None \<longrightarrow>
      fst (o_position ?m) = js_mul (Fin (- 0.5)) (js_sub (snd ?b) (fst ?b))"
    by (simp add: text_mesh_fields text_posX_def)
  have x2: "\<forall>lo hi. rt_posX opts = None \<and> ?b = (Fin lo, Fin hi) \<longrightarrow>
      fst (o_position ?m) = Fin (- ((hi - lo) / 2))"
    by (simp add: text_mesh_fields text_posX_def js_sub_def)
  have sp: "span_x ?m ?b = (Fin (sx * lo - (hi - lo) / 2), Fin (sx * hi - (hi - lo) / 2))"
    if "rt_posX opts = None" and "?b = (Fin lo, Fin hi)"
      and "dflt_opt (Fin 1) (rt_scaleX opts) = Fin sx" for lo hi sx
  proof -
    have "fst (o_position ?m) = Fin (- ((hi - lo) / 2))"
      using x2 that(1,2) by blast
    moreover have "fst (o_scale ?m) = Fin sx"
      by (simp add: text_mesh_scale that(3))
    ultimately have "span_x ?m (Fin lo, Fin hi) =
        (Fin (- ((hi - lo) / 2) + sx * lo), Fin (- ((hi - lo) / 2) + sx * hi))"
      by (rule span_x_finite)
    then show ?thesis
      by (simp add: that(2) add.commute)
  qed
  have ce: "centred_x (span_x ?m ?b) \<longleftrightarrow> sx * (lo + hi) = hi - lo"
    if "rt_posX opts = None" and "?b = (Fin lo, Fin hi)"
      and "dflt_opt (Fin 1) (rt_scaleX opts) = Fin sx" for lo hi sx
  proof -
    have "centred_x (span_x ?m ?b) \<longleftrightarrow>
        (sx * lo - (hi - lo) / 2) + (sx * hi - (hi - lo) / 2) = 0"
      unfolding sp [OF that] by simp
    also have "\<dots> \<longleftrightarrow> sx * (lo + hi) = hi - lo"
      by (simp add: algebra_simps)
    finally show ?thesis .
  qed
  have x4: "\<forall>lo hi sx. rt_posX opts = None \<and> ?b = (Fin lo, Fin hi) \<and>
                         dflt_opt (Fin 1) (rt_scaleX opts) = Fin sx \<longrightarrow>
                span_x ?m ?b =
                  (Fin (sx * lo - (hi - lo) / 2), Fin (sx * hi - (hi - lo) / 2)) \<and>
                (centred_x (span_x ?m ?b) \<longleftrightarrow> sx * (lo + hi) = hi - lo)"
    using sp ce by blast
  have x5: "\<forall>lo hi. rt_posX opts = None \<and> ?b = (Fin lo, Fin hi) \<and>
                      dflt_opt (Fin 1) (rt_scaleX opts) = Fin 1 \<and> lo = 0 \<longrightarrow>
                centred_x (span_x ?m ?b)"
  proof (intro allI impI)
    fix lo hi :: real
    assume a: "rt_posX opts = None \<and> ?b = (Fin lo, Fin hi) \<and>
                      dflt_opt (Fin 1) (rt_scaleX opts) = Fin 1 \<and> lo = 0"
    then have "centred_x (span_x ?m ?b) \<longleftrightarrow> 1 * (lo + hi) = hi - lo"
      by (intro ce) simp_all
    then show "centred_x (span_x ?m ?b)"
      using a by simp
  qed
  have x3: "\<forall>posX. rt_posX opts = Some posX \<longrightarrow> fst (o_position ?m) = posX"
    by (simp add: text_mesh_fields text_posX_def)
  show ?thesis
    unfolding Let_def
    by (intro conjI exI [of _ "text_mesh opts loadedFont"] p o x1 x2 x4 x5 x3
        text_mesh_fields(1))
qed

theorem renderText_centering_witness:
  "rt_posX no_text_options = None
   \<and> f_boundsX plain_font (text_geometry no_text_options plain_font) = (Fin 0, Fin 10)
   \<and> dflt_opt (Fin 1) (rt_scaleX no_text_options) = Fin 1
   \<and> map_option (fst \<circ> o_position)
       (object_at (step no_positions (FontLoadDone 0 plain_font)
          (snd (renderText no_text_options init_world))) 0) = Some (Fin (- 5))
   \<and> span_of (Fin 0, Fin 10)
       (object_at (step no_positions (FontLoadDone 0 plain_font)
          (snd (renderText no_text_options init_world))) 0) = Some (Fin (- 5), Fin 5)
   \<and> rt_posX text_placed = Some (Fin 1)
   \<and> map_option (fst \<circ> o_position)
       (object_at (step no_positions (FontLoadDone 0 plain_font)
          (snd (renderText text_placed init_world))) 0) = Some (Fin 1)"
proof -
  have l: "length (loads init_world) = 0" "length (heap init_world) = 0"
    by (simp_all add: init_world_def)
  note a = renderText_centering [of no_text_options init_world no_positions plain_font,
      unfolded Let_def l, THEN conjunct2]
  note b = renderText_centering [of text_placed init_world no_positions plain_font,
      unfolded Let_def l, THEN conjunct2]
  have h1: "rt_posX no_text_options = None"
    and h2: "f_boundsX plain_font (text_geometry no_text_options plain_font) = (Fin 0, Fin 10)"
    and h3: "rt_posX text_placed = Some (Fin 1)"
    and h4: "dflt_opt (Fin 1) (rt_scaleX no_text_options) = Fin 1"
    by (simp_all add: no_text_options_def plain_font_def text_placed_def dflt_opt_def)
  from a obtain mesh where
    m: "object_at (step no_positions (FontLoadDone 0 plain_font)
          (snd (renderText no_text_options init_world))) 0 = Some mesh"
    and m1: "\<forall>lo hi. rt_posX no_text_options = None \<and>
          f_boundsX plain_font (text_geometry no_text_options plain_font) = (Fin lo, Fin hi) \<longrightarrow>
          fst (o_position mesh) = Fin (- ((hi - lo) / 2))"
    and m2: "\<forall>lo hi sx. rt_posX no_text_options = None \<and>
          f_boundsX plain_font (text_geometry no_text_options plain_font) = (Fin lo, Fin hi) \<and>
          dflt_opt (Fin 1) (rt_scaleX no_text_options) = Fin sx \<longrightarrow>
          span_x mesh (f_boundsX plain_font (text_geometry no_text_options plain_font)) =
            (Fin (sx * lo - (hi - lo) / 2), Fin (sx * hi - (hi - lo) / 2)) \<and>
          (centred_x (span_x mesh
              (f_boundsX plain_font (text_geometry no_text_options plain_font))) \<longleftrightarrow>
           sx * (lo + hi) = hi - lo)"
    by blast
  have "fst (o_position mesh) = Fin (- ((10 - 0) / 2))"
    using m1 h1 h2 by blast
  then have g1: "map_option (fst \<circ> o_position)
       (object_at (step no_positions (FontLoadDone 0 plain_font)
          (snd (renderText no_text_options init_world))) 0) = Some (Fin (- 5))"
    unfolding m by simp
  have "span_x mesh (f_boundsX plain_font (text_geometry no_text_options plain_font)) =
      (Fin (1 * 0 - (10 - 0) / 2), Fin (1 * 10 - (10 - 0) / 2))"
    using m2 h1 h2 h4 by blast
  then have g2: "span_of (Fin 0, Fin 10)
       (object_at (step no_positions (FontLoadDone 0 plain_font)
          (snd (renderText no_text_options init_world))) 0) = Some (Fin (- 5), Fin 5)"
    unfolding m h2 by simp
  from b obtain mesh' where
    "object_at (step no_positions (FontLoadDone 0 plain_font)
          (snd (renderText text_placed init_world))) 0 = Some mesh'"
    and "\<forall>posX. rt_posX text_placed = Some posX \<longrightarrow> fst (o_position mesh') = posX"
    by blast
  with h3 have g3: "map_option (fst \<circ> o_position)
       (object_at (step no_positions (FontLoadDone 0 plain_font)
          (snd (renderText text_placed init_world))) 0) = Some (Fin 1)"
    by simp
  show ?thesis
    by (intro conjI h1 h2 h4 g1 g2 h3 g3)
qed

text \<open>
  A box from 2 to 10 gives the x position -4, and the text lies from -2 to 6; a box
  from 0 to 10 drawn at \<open>scaleX\<close> 2 gives -5, and the text lies from -5 to 15. Neither
  is centred at the origin: C5 as stated fails.
\<close>

theorem renderText_not_centred_counterexample:
  "rt_posX no_text_options = None
   \<and> span_of (Fin 2, Fin 10)
       (object_at (step no_positions (FontLoadDone 0 wide_font)
          (snd (renderText no_text_options init_world))) 0) = Some (Fin (- 2), Fin 6)
   \<and> \<not> centred_x (Fin (- 2), Fin 6)
   \<and> rt_posX text_scaled = None
   \<and> span_of (Fin 0, Fin 10)
       (object_at (step no_positions (FontLoadDone 0 plain_font)
          (snd (renderText text_scaled init_world))) 0) = Some (Fin (- 5), Fin 15)
   \<and> \<not> centred_x (Fin (- 5), Fin 15)"
proof -
  have l: "length (loads init_world) = 0" "length (heap init_world) = 0"
    "heap init_world = []"
    by (simp_all add: init_world_def)
  have o1: "object_at (step no_positions (FontLoadDone 0 wide_font)
          (snd (renderText no_text_options init_world))) 0 =
      Some (text_mesh no_text_options wide_font)"
    using font_done_fields(1) [of no_positions init_world wide_font no_text_options]
    by (simp add: object_at_def l del: step.simps)
  have o2: "object_at (step no_positions (FontLoadDone 0 plain_font)
          (snd (renderText text_scaled init_world))) 0 =
      Some (text_mesh text_scaled plain_font)"
    using font_done_fields(1) [of no_positions init_world plain_font text_scaled]
    by (simp add: object_at_def l del: step.simps)
  have "span_x (text_mesh no_text_options wide_font) (Fin 2, Fin 10) =
      (Fin (- 4 + 1 * 2), Fin (- 4 + 1 * 10))"
    by (rule span_x_finite)
       (simp_all add: text_mesh_fields(3) text_mesh_scale text_posX_def js_sub_def
        no_text_options_def wide_font_def dflt_opt_def)
  then have s1: "span_x (text_mesh no_text_options wide_font) (Fin 2, Fin 10) =
      (Fin (- 2), Fin 6)"
    by simp
  have "span_x (text_mesh text_scaled plain_font) (Fin 0, Fin 10) =
      (Fin (- 5 + 2 * 0), Fin (- 5 + 2 * 10))"
    by (rule span_x_finite)
       (simp_all add: text_mesh_fields(3) text_mesh_scale text_posX_def js_sub_def
        text_scaled_def no_text_options_def plain_font_def dflt_opt_def)
  then have s2: "span_x (text_mesh text_scaled plain_font) (Fin 0, Fin 10) =
      (Fin (- 5), Fin 15)"
    by simp
  have h: "rt_posX no_text_options = None" "rt_posX text_scaled = None"
    by (simp_all add: no_text_options_def text_scaled_def)
  have c: "\<not> centred_x (Fin (- 2), Fin 6)" "\<not> centred_x (Fin (- 5), Fin 15)"
    by simp_all
  have g1: "span_of (Fin 2, Fin 10)
       (object_at (step no_positions (FontLoadDone 0 wide_font)
          (snd (renderText no_text_options init_world))) 0) = Some (Fin (- 2), Fin 6)"
    unfolding o1 by (simp add: s1)
  have g2: "span_of (Fin 0, Fin 10)
       (object_at (step no_positions (FontLoadDone 0 plain_font)
          (snd (renderText text_scaled init_world))) 0) = Some (Fin (- 5), Fin 15)"
    unfolding o2 by (simp add: s2)
  show ?thesis
    by (intro conjI h g1 g2 c)
qed

text \<open>
  C4. When the model of a \<open>renderGltfModel\<close> call has loaded: if the call gave an
  animation callback and the asset has clips, one mixer is created on the asset's root
  object, the action of every clip is playing, the mixer is attached to the asset, and
  the asset itself (not its root object) is appended to \<open>animationList\<close> with the
  callback. If the call gave no callback, the asset has no mixer and \<open>animationList\<close>
  is unchanged. In both cases the promise is resolved with the asset.
\<close>

theorem renderGltfModel_animation:
  "(let r = renderGltfModel opts w;
        w' = step positions (GltfLoadDone (length (loads w)) lg) (snd r);
        root = length (heap w);
        loadedModel = Suc (length (heap w))
    in (\<forall>f animations.
          rg_animate opts = JSFunction f \<and> lg_animations lg = Some animations \<longrightarrow>
            asset_at w' loadedModel =
              Some \<lparr>g_scene = root, g_animations = Some animations,
                    g_mixer = Some \<lparr>mx_root = root, mx_playing = animations\<rparr>\<rparr>
            \<and> animationList w' =
                animationList w @ [\<lparr>element = loadedModel, animate = f\<rparr>]
            \<and> promises w' ! fst r = Resolved loadedModel)
       \<and> (typeof_arg (rg_animate opts) \<noteq> ''function'' \<longrightarrow>
            asset_at w' loadedModel =
              Some \<lparr>g_scene = root, g_animations = lg_animations lg, g_mixer = None\<rparr>
            \<and> animationList w' = animationList w
            \<and> promises w' ! fst r = Resolved loadedModel))"
proof -
  let ?w = "step positions (GltfLoadDone (length (loads w)) lg) (snd (renderGltfModel opts w))"
  have p: "promises ?w ! fst (renderGltfModel opts w) = Resolved (Suc (length (heap w)))"
    unfolding gltf_done_fields(2) by (simp add: renderGltfModel_effect)
  have a: "rg_animate opts = JSFunction f \<Longrightarrow> lg_animations lg = Some animations \<Longrightarrow>
      asset_at ?w (Suc (length (heap w))) =
        Some \<lparr>g_scene = length (heap w), g_animations = Some animations,
              g_mixer = Some \<lparr>mx_root = length (heap w), mx_playing = animations\<rparr>\<rparr>
      \<and> animationList ?w =
          animationList w @ [\<lparr>element = Suc (length (heap w)), animate = f\<rparr>]"
    for f animations
    by (simp add: asset_at_def gltf_done_fields nth_append del: step.simps)
  have b: "typeof_arg (rg_animate opts) \<noteq> ''function'' \<Longrightarrow>
      asset_at ?w (Suc (length (heap w))) =
        Some \<lparr>g_scene = length (heap w), g_animations = lg_animations lg, g_mixer = None\<rparr>
      \<and> animationList ?w = animationList w"
    by (cases "rg_animate opts")
       (simp_all add: asset_at_def gltf_done_fields nth_append del: step.simps)
  show ?thesis
    unfolding Let_def using p a b by blast
qed

theorem renderGltfModel_animation_witness:
  "rg_animate gltf_animated = JSFunction 7
   \<and> lg_animations robot = Some [''Walk'', ''Wave'']
   \<and> asset_at (step no_positions (GltfLoadDone 0 robot)
        (snd (renderGltfModel gltf_animated init_world))) 1 =
       Some \<lparr>g_scene = 0, g_animations = Some [''Walk'', ''Wave''],
             g_mixer = Some \<lparr>mx_root = 0, mx_playing = [''Walk'', ''Wave'']\<rparr>\<rparr>
   \<and> animationList (step no_positions (GltfLoadDone 0 robot)
        (snd (renderGltfModel gltf_animated init_world))) = [\<lparr>element = 1, animate = 7\<rparr>]
   \<and> typeof_arg (rg_animate gltf_still) \<noteq> ''function''
   \<and> animationList (step no_positions (GltfLoadDone 0 robot)
        (snd (renderGltfModel gltf_still init_world))) = []
   \<and> map_option g_mixer (asset_at (step no_positions (GltfLoadDone 0 robot)
        (snd (renderGltfModel gltf_still init_world))) 1) = Some None"
proof -
  have l: "length (loads init_world) = 0" "length (heap init_world) = 0"
    "animationList init_world = []"
    by (simp_all add: init_world_def)
  have h1: "rg_animate gltf_animated = JSFunction 7 \<and>
      lg_animations robot = Some [''Walk'', ''Wave'']"
    by (simp add: gltf_animated_def no_gltf_options_def robot_def)
  have h2: "typeof_arg (rg_animate gltf_still) \<noteq> ''function''"
    by (simp add: gltf_still_def no_gltf_options_def)
  note a = renderGltfModel_animation [of gltf_animated init_world no_positions robot,
      unfolded Let_def l, THEN conjunct1, THEN spec, THEN spec, THEN mp, OF h1]
  note b = renderGltfModel_animation [of gltf_still init_world no_positions robot,
      unfolded Let_def l, THEN conjunct2, THEN mp, OF h2]
  show ?thesis
    using h1 h2 a b by (simp del: step.simps)
qed

subsection \<open>The registry and the promises along a run\<close>

lemma resizeChange_frame:
  "animationList (resizeChange c r cam f w) = animationList w"
  "promises (resizeChange c r cam f w) = promises w"
  "loads (resizeChange c r cam f w) = loads w"
  "console (resizeChange c r cam f w) = console w"
  "heap (resizeChange c r cam f w) = heap w"
  by (simp_all add: resizeChange_def Let_def split: prod.splits)

lemma run_listeners_frame:
  "animationList (run_listeners ls w) = animationList w
   \<and> promises (run_listeners ls w) = promises w
   \<and> loads (run_listeners ls w) = loads w
   \<and> console (run_listeners ls w) = console w
   \<and> heap (run_listeners ls w) = heap w"
proof (induction ls arbitrary: w)
  case Nil
  show ?case by simp
next
  case (Cons l ls)
  obtain c r cam f where l: "l = ResizeChange c r cam f" by (cases l) auto
  show ?case
    using Cons.IH [of "resizeChange c r cam f w"] by (simp add: l resizeChange_frame)
qed

lemma scheme_background_frame:
  "animationList (scheme_background m s d l w) = animationList w"
  "promises (scheme_background m s d l w) = promises w"
  "loads (scheme_background m s d l w) = loads w"
  "console (scheme_background m s d l w) = console w"
  "heap (scheme_background m s d l w) = heap w"
  by (simp_all add: scheme_background_def set_background_def)

lemma scheme_changed_frame:
  "animationList (scheme_changed m ls w) = animationList w
   \<and> promises (scheme_changed m ls w) = promises w
   \<and> loads (scheme_changed m ls w) = loads w
   \<and> console (scheme_changed m ls w) = console w
   \<and> heap (scheme_changed m ls w) = heap w"
proof (induction ls arbitrary: w)
  case Nil
  show ?case by simp
next
  case (Cons l ls)
  obtain s d lt where l: "l = SchemeListener s d lt" by (cases l) auto
  show ?case
    using Cons.IH [of "scheme_background m s d lt w"] by (simp add: l scheme_background_frame)
qed

lemma setBackground_frame:
  "animationList (setBackground opts w) = animationList w"
  "promises (setBackground opts w) = promises w"
  "heap (setBackground opts w) = heap w"
  "\<exists>ls. loads (setBackground opts w) = loads w @ ls \<and>
        (\<forall>l \<in> set ls. \<exists>ld. l = Some ld \<and> promise_of (ld_onLoad ld) = None)"
  by (simp_all add: setBackground_def Let_def scheme_background_def set_background_def
      start_load_def console_error_def split: hostarg.splits)

lemma setResponsive_frame:
  "animationList (setResponsive opts w) = animationList w"
  "promises (setResponsive opts w) = promises w"
  "loads (setResponsive opts w) = loads w"
  "heap (setResponsive opts w) = heap w"
  by (simp_all add: setResponsive_def console_error_def
      split: hostarg.splits option.splits jsarg.splits prod.splits)

lemma isSupported_frame:
  "animationList (snd (isSupported w)) = animationList w"
  "promises (snd (isSupported w)) = promises w"
  "loads (snd (isSupported w)) = loads w"
  "console (snd (isSupported w)) = console w"
  "heap (snd (isSupported w)) = heap w"
  by (simp_all add: isSupported_def)

lemma renderShape_frame:
  "promises (snd (renderShape positions opts w)) = promises w"
  "loads (snd (renderShape positions opts w)) = loads w"
  "animationList (snd (renderShape positions opts w)) =
     (case rs_animate opts of
        JSFunction f \<Rightarrow> animationList w @ [\<lparr>element = length (heap w), animate = f\<rparr>]
      | NotFunction _ \<Rightarrow> animationList w)"
  by (auto simp add: renderShape_def alloc_def Let_def push_if_function_def add_if_scene_def
      scene_add_def split: jsarg.splits hostarg.splits)

lemma renderBox_frame:
  "promises (snd (renderBox opts w)) = promises w"
  "loads (snd (renderBox opts w)) = loads w"
  "animationList (snd (renderBox opts w)) =
     (case rb_animate opts of
        JSFunction f \<Rightarrow> animationList w @ [\<lparr>element = length (heap w), animate = f\<rparr>]
      | NotFunction _ \<Rightarrow> animationList w)"
  by (auto simp add: renderBox_def alloc_def Let_def push_if_function_def add_if_scene_def
      scene_add_def split: jsarg.splits hostarg.splits)

lemma background_loaded_frame:
  "animationList (background_image_loaded s t w) = animationList w"
  "promises (background_image_loaded s t w) = promises w"
  "loads (background_image_loaded s t w) = loads w"
  "animationList (background_env_loaded s t w) = animationList w"
  "promises (background_env_loaded s t w) = promises w"
  "loads (background_env_loaded s t w) = loads w"
  by (simp_all add: background_image_loaded_def background_env_loaded_def set_background_def
      set_environment_def Let_def)

lemma finish_load_frame:
  "animationList (finish_load k w) = animationList w"
  "promises (finish_load k w) = promises w"
  "loads (finish_load k w) = (loads w)[k := None]"
  "heap (finish_load k w) = heap w"
  by (simp_all add: finish_load_def)

lemma pending_load_Some:
  "pending_load k w = Some c \<longleftrightarrow>
     k < length (loads w) \<and> (\<exists>ld. loads w ! k = Some ld \<and> ld_onLoad ld = c)"
  by (auto simp add: pending_load_def)


lemma step_appends:
  "\<exists>es. animationList (step positions op w) = animationList w @ es \<and> length es \<le> 1"
proof (cases op)
  case IsSupported
  then show ?thesis by (simp add: isSupported_frame)
next
  case (SetBackground opts)
  then show ?thesis by (simp add: setBackground_frame)
next
  case (SetResponsive opts)
  then show ?thesis by (simp add: setResponsive_frame)
next
  case (RenderText opts)
  then show ?thesis by (simp add: renderText_effect)
next
  case (RenderShape opts)
  then show ?thesis by (simp add: renderShape_frame split: jsarg.splits)
next
  case (RenderBox opts)
  then show ?thesis by (simp add: renderBox_frame split: jsarg.splits)
next
  case (RenderGltfModel opts)
  then show ?thesis by (simp add: renderGltfModel_effect)
next
  case (SchemeChange m)
  then show ?thesis by (simp add: scheme_changed_frame Let_def)
next
  case (WindowResize iw ih)
  then show ?thesis by (simp add: run_listeners_frame Let_def)
next
  case OrientationChange
  then show ?thesis by (simp add: run_listeners_frame)
next
  case (TextureLoadDone k t)
  then show ?thesis
    by (simp add: background_loaded_frame finish_load_frame
        split: option.splits continuation.splits)
next
  case (FontLoadDone k f)
  then show ?thesis
    by (simp add: text_loaded_animationList finish_load_frame
        split: option.splits continuation.splits jsarg.splits)
next
  case (GltfLoadDone k g)
  then show ?thesis
    by (simp add: gltf_loaded_animationList finish_load_frame
        split: option.splits continuation.splits jsarg.splits)
next
  case (LoadError k)
  then show ?thesis by (simp add: finish_load_frame split: option.splits)
qed

lemma run_appends: "\<exists>es. animationList (run positions ops w) = animationList w @ es"
proof (induction ops arbitrary: w)
  case Nil
  show ?case by simp
next
  case (Cons op ops)
  obtain es where a: "animationList (step positions op w) = animationList w @ es"
    using step_appends [of positions op w] by blast
  obtain es' where
    "animationList (run positions ops (step positions op w)) =
       animationList (step positions op w) @ es'"
    using Cons.IH [of "step positions op w"] by blast
  then show ?case
    by (simp add: a del: step.simps)
qed

lemma load_done_shape:
  assumes "k < length (loads w)" and "loads w ! k = Some ld"
    and "loads w' = (loads w)[k := None]"
    and "promises w' =
      (case promise_of (ld_onLoad ld) of
         Some q \<Rightarrow> (if q < length (promises w) \<and> promises w ! q = Pending
                    then (promises w)[q := Resolved a] else promises w)
       | None \<Rightarrow> promises w)"
  shows "\<exists>k ld. k < length (loads w) \<and> loads w ! k = Some ld \<and>
         loads w' = (loads w)[k := None] \<and>
         (promises w' = promises w \<or>
          (\<exists>q a. promise_of (ld_onLoad ld) = Some q \<and> q < length (promises w) \<and>
             promises w ! q = Pending \<and> promises w' = (promises w)[q := Resolved a]))"
proof (intro exI [of _ k] exI [of _ ld] conjI assms(1,2,3))
  show "promises w' = promises w \<or>
          (\<exists>q a. promise_of (ld_onLoad ld) = Some q \<and> q < length (promises w) \<and>
             promises w ! q = Pending \<and> promises w' = (promises w)[q := Resolved a])"
    using assms(4) by (cases "promise_of (ld_onLoad ld)") (auto split: if_splits)
qed

lemma step_shape:
  "(promises (step positions op w) = promises w \<and>
    (\<exists>ls. loads (step positions op w) = loads w @ ls \<and>
       (\<forall>l \<in> set ls. \<exists>ld. l = Some ld \<and> promise_of (ld_onLoad ld) = None)))
   \<or> (\<exists>ld. promises (step positions op w) = promises w @ [Pending] \<and>
         loads (step positions op w) = loads w @ [Some ld] \<and>
         promise_of (ld_onLoad ld) = Some (length (promises w)))
   \<or> (\<exists>k ld. k < length (loads w) \<and> loads w ! k = Some ld \<and>
         loads (step positions op w) = (loads w)[k := None] \<and>
         (promises (step positions op w) = promises w \<or>
          (\<exists>q a. promise_of (ld_onLoad ld) = Some q \<and> q < length (promises w) \<and>
             promises w ! q = Pending \<and>
             promises (step positions op w) = (promises w)[q := Resolved a])))"
  (is "?A \<or> ?B \<or> ?C")
proof (cases op)
  case IsSupported
  then show ?thesis by (simp add: isSupported_frame)
next
  case (SetBackground opts)
  then show ?thesis
    using setBackground_frame(4) [of opts w] by (simp add: setBackground_frame(2))
next
  case (SetResponsive opts)
  then show ?thesis by (simp add: setResponsive_frame)
next
  case (RenderText opts)
  then show ?thesis by (simp add: renderText_effect)
next
  case (RenderShape opts)
  then show ?thesis by (simp add: renderShape_frame)
next
  case (RenderBox opts)
  then show ?thesis by (simp add: renderBox_frame)
next
  case (RenderGltfModel opts)
  then show ?thesis by (simp add: renderGltfModel_effect)
next
  case (SchemeChange m)
  then show ?thesis by (simp add: scheme_changed_frame Let_def)
next
  case (WindowResize iw ih)
  then show ?thesis by (simp add: run_listeners_frame Let_def)
next
  case OrientationChange
  then show ?thesis by (simp add: run_listeners_frame)
next
  case (TextureLoadDone k t)
  show ?thesis
  proof (cases "pending_load k w")
    case None
    then show ?thesis by (simp add: TextureLoadDone)
  next
    case (Some c)
    then obtain ld where k: "k < length (loads w)" "loads w ! k = Some ld" "ld_onLoad ld = c"
      by (auto simp add: pending_load_Some)
    show ?thesis
    proof (cases c)
      case (OnBackgroundImage s)
      have ?C
        by (rule load_done_shape [OF k(1,2), where a = 0])
           (simp_all add: TextureLoadDone Some OnBackgroundImage k(3) background_loaded_frame
            finish_load_frame)
      then show ?thesis by blast
    next
      case (OnBackgroundHdr s)
      have ?C
        by (rule load_done_shape [OF k(1,2), where a = 0])
           (simp_all add: TextureLoadDone Some OnBackgroundHdr k(3) background_loaded_frame
            finish_load_frame)
      then show ?thesis by blast
    next
      case (OnBackgroundExr s)
      have ?C
        by (rule load_done_shape [OF k(1,2), where a = 0])
           (simp_all add: TextureLoadDone Some OnBackgroundExr k(3) background_loaded_frame
            finish_load_frame)
      then show ?thesis by blast
    next
      case (OnFont opts p)
      then show ?thesis by (simp add: TextureLoadDone Some)
    next
      case (OnGltf opts p)
      then show ?thesis by (simp add: TextureLoadDone Some)
    qed
  qed
next
  case (FontLoadDone k f)
  show ?thesis
  proof (cases "pending_load k w")
    case None
    then show ?thesis by (simp add: FontLoadDone)
  next
    case (Some c)
    then obtain ld where k: "k < length (loads w)" "loads w ! k = Some ld" "ld_onLoad ld = c"
      by (auto simp add: pending_load_Some)
    show ?thesis
    proof (cases c)
      case (OnFont opts p)
      have ?C
        by (rule load_done_shape [OF k(1,2), where a = "length (heap w)"])
           (simp_all add: FontLoadDone Some OnFont k(3) text_loaded_promises text_loaded_frame
            finish_load_frame)
      then show ?thesis by blast
    qed (simp_all add: FontLoadDone Some)
  qed
next
  case (GltfLoadDone k g)
  show ?thesis
  proof (cases "pending_load k w")
    case None
    then show ?thesis by (simp add: GltfLoadDone)
  next
    case (Some c)
    then obtain ld where k: "k < length (loads w)" "loads w ! k = Some ld" "ld_onLoad ld = c"
      by (auto simp add: pending_load_Some)
    show ?thesis
    proof (cases c)
      case (OnGltf opts p)
      have ?C
        by (rule load_done_shape [OF k(1,2), where a = "Suc (length (heap w))"])
           (simp_all add: GltfLoadDone Some OnGltf k(3) gltf_loaded_promises gltf_loaded_frame
            finish_load_frame)
      then show ?thesis by blast
    qed (simp_all add: GltfLoadDone Some)
  qed
next
  case (LoadError k)
  show ?thesis
  proof (cases "pending_load k w")
    case None
    then show ?thesis by (simp add: LoadError)
  next
    case (Some c)
    then obtain ld where k: "k < length (loads w)" "loads w ! k = Some ld" "ld_onLoad ld = c"
      by (auto simp add: pending_load_Some)
    have ?C
      using k by (intro exI [of _ k] exI [of _ ld]) (simp add: LoadError Some finish_load_frame)
    then show ?thesis by blast
  qed
qed


lemma step_shape_cases [case_names keep start finish]:
  obtains
    (keep) ls where "promises (step positions op w) = promises w"
      and "loads (step positions op w) = loads w @ ls"
      and "\<forall>l \<in> set ls. \<exists>ld. l = Some ld \<and> promise_of (ld_onLoad ld) = None"
  | (start) ld where "promises (step positions op w) = promises w @ [Pending]"
      and "loads (step positions op w) = loads w @ [Some ld]"
      and "promise_of (ld_onLoad ld) = Some (length (promises w))"
  | (finish) k ld where "k < length (loads w)" and "loads w ! k = Some ld"
      and "loads (step positions op w) = (loads w)[k := None]"
      and "promises (step positions op w) = promises w \<or>
          (\<exists>q a. promise_of (ld_onLoad ld) = Some q \<and> q < length (promises w) \<and>
             promises w ! q = Pending \<and>
             promises (step positions op w) = (promises w)[q := Resolved a])"
  using step_shape [of positions op w] by blast

lemma step_promise:
  assumes "q < length (promises w)"
  shows "q < length (promises (step positions op w)) \<and>
    (promises (step positions op w) ! q = promises w ! q \<or>
     promises w ! q = Pending \<and> (\<exists>a. promises (step positions op w) ! q = Resolved a))"
proof (cases positions op w rule: step_shape_cases)
  case (keep ls)
  then show ?thesis using assms by simp
next
  case (start ld)
  then show ?thesis using assms by (simp add: nth_append)
next
  case (finish k ld)
  from finish(4) show ?thesis
  proof
    assume "promises (step positions op w) = promises w"
    then show ?thesis using assms by simp
  next
    assume "\<exists>q a. promise_of (ld_onLoad ld) = Some q \<and> q < length (promises w) \<and>
             promises w ! q = Pending \<and>
             promises (step positions op w) = (promises w)[q := Resolved a]"
    then obtain q' a where q': "promises w ! q' = Pending"
      and e: "promises (step positions op w) = (promises w)[q' := Resolved a]"
      by blast
    show ?thesis
    proof (cases "q' = q")
      case True
      then show ?thesis using assms q' by (simp add: e)
    next
      case False
      then show ?thesis using assms by (simp add: e)
    qed
  qed
qed

lemma run_promise:
  assumes "q < length (promises w)"
  shows "q < length (promises (run positions es w)) \<and>
    (promises (run positions es w) ! q = promises w ! q \<or>
     promises w ! q = Pending \<and> (\<exists>a. promises (run positions es w) ! q = Resolved a))"
  using assms
proof (induction es arbitrary: w)
  case Nil
  then show ?case by simp
next
  case (Cons e es)
  note s = step_promise [OF Cons.prems, of positions e]
  note r = Cons.IH [of "step positions e w", OF s [THEN conjunct1]]
  have "run positions (e # es) w = run positions es (step positions e w)"
    by simp
  then show ?case
    using s r by metis
qed

lemma step_promise_change:
  assumes "\<forall>k f. op \<noteq> FontLoadDone k f" and "\<forall>k g. op \<noteq> GltfLoadDone k g"
  shows "take (length (promises w)) (promises (step positions op w)) = promises w"
proof (cases op)
  case (TextureLoadDone k t)
  then show ?thesis
    by (simp add: background_loaded_frame finish_load_frame
        split: option.splits continuation.splits)
next
  case (LoadError k)
  then show ?thesis by (simp add: finish_load_frame split: option.splits)
next
  case (FontLoadDone k f)
  then show ?thesis using assms by simp
next
  case (GltfLoadDone k g)
  then show ?thesis using assms by simp
qed (simp_all add: isSupported_frame setBackground_frame setResponsive_frame renderText_effect
    renderShape_frame renderBox_frame renderGltfModel_effect scheme_changed_frame
    run_listeners_frame Let_def)

lemma loads_wf_step:
  assumes "loads_wf w"
  shows "loads_wf (step positions op w)"
proof (cases positions op w rule: step_shape_cases)
  case (keep ls)
  show ?thesis
    unfolding loads_wf_def keep(1,2)
  proof (intro allI impI)
    fix k ld p
    assume k: "k < length (loads w @ ls)"
      and l: "(loads w @ ls) ! k = Some ld \<and> promise_of (ld_onLoad ld) = Some p"
    show "p < length (promises w)"
    proof (cases "k < length (loads w)")
      case True
      then show ?thesis
        using assms l by (auto simp add: loads_wf_def nth_append)
    next
      case False
      then have "ls ! (k - length (loads w)) \<in> set ls"
        using k by simp
      then show ?thesis
        using keep(3) l False by (auto simp add: nth_append)
    qed
  qed
next
  case (start ld')
  show ?thesis
    unfolding loads_wf_def start(1,2)
  proof (intro allI impI)
    fix k ld p
    assume k: "k < length (loads w @ [Some ld'])"
      and l: "(loads w @ [Some ld']) ! k = Some ld \<and> promise_of (ld_onLoad ld) = Some p"
    show "p < length (promises w @ [Pending])"
    proof (cases "k < length (loads w)")
      case True
      then have "p < length (promises w)"
        using assms l by (auto simp add: loads_wf_def nth_append)
      then show ?thesis by simp
    next
      case False
      then have "k = length (loads w)"
        using k by simp
      then show ?thesis
        using l start(3) by simp
    qed
  qed
next
  case (finish j ld')
  have len: "length (promises (step positions op w)) = length (promises w)"
    using finish(4) by auto
  show ?thesis
    unfolding loads_wf_def finish(3) len
  proof (intro allI impI)
    fix k ld p
    assume k: "k < length ((loads w)[j := None])"
      and l: "(loads w)[j := None] ! k = Some ld \<and> promise_of (ld_onLoad ld) = Some p"
    then have "k \<noteq> j"
      by (auto simp add: nth_list_update)
    then have "loads w ! k = Some ld"
      using l by simp
    then show "p < length (promises w)"
      using assms k l by (auto simp add: loads_wf_def)
  qed
qed


lemma abandoned_step:
  assumes "abandoned p w"
  shows "abandoned p (step positions op w)"
proof -
  have p: "p < length (promises w)" and pe: "promises w ! p = Pending"
    and o: "orphaned p w" and wf: "loads_wf w"
    using assms by (simp_all add: abandoned_def)
  have wf': "loads_wf (step positions op w)"
    by (rule loads_wf_step [OF wf])
  have "p < length (promises (step positions op w)) \<and>
      promises (step positions op w) ! p = Pending \<and> orphaned p (step positions op w)"
  proof (cases positions op w rule: step_shape_cases)
    case (keep ls)
    have "orphaned p (step positions op w)"
      unfolding orphaned_def keep(2)
    proof (intro allI impI)
      fix k ld
      assume k: "k < length (loads w @ ls)" and l: "(loads w @ ls) ! k = Some ld"
      show "promise_of (ld_onLoad ld) \<noteq> Some p"
      proof (cases "k < length (loads w)")
        case True
        then show ?thesis
          using o l by (auto simp add: orphaned_def nth_append)
      next
        case False
        then have "ls ! (k - length (loads w)) \<in> set ls"
          using k by simp
        then show ?thesis
          using keep(3) l False by (auto simp add: nth_append)
      qed
    qed
    then show ?thesis
      using p pe by (simp add: keep(1))
  next
    case (start ld')
    have "orphaned p (step positions op w)"
      unfolding orphaned_def start(2)
    proof (intro allI impI)
      fix k ld
      assume k: "k < length (loads w @ [Some ld'])"
        and l: "(loads w @ [Some ld']) ! k = Some ld"
      show "promise_of (ld_onLoad ld) \<noteq> Some p"
      proof (cases "k < length (loads w)")
        case True
        then show ?thesis
          using o l by (auto simp add: orphaned_def nth_append)
      next
        case False
        then have "k = length (loads w)"
          using k by simp
        then show ?thesis
          using l start(3) p by simp
      qed
    qed
    then show ?thesis
      using p pe by (simp add: start(1) nth_append)
  next
    case (finish j ld')
    have "orphaned p (step positions op w)"
      unfolding orphaned_def finish(3)
    proof (intro allI impI)
      fix k ld
      assume k: "k < length ((loads w)[j := None])"
        and l: "(loads w)[j := None] ! k = Some ld"
      then have "k \<noteq> j"
        by (auto simp add: nth_list_update)
      then have "loads w ! k = Some ld"
        using l by simp
      then show "promise_of (ld_onLoad ld) \<noteq> Some p"
        using o k by (auto simp add: orphaned_def)
    qed
    moreover have "p < length (promises (step positions op w)) \<and>
        promises (step positions op w) ! p = Pending"
      using finish(4)
    proof
      assume "promises (step positions op w) = promises w"
      then show ?thesis using p pe by simp
    next
      assume "\<exists>q a. promise_of (ld_onLoad ld') = Some q \<and> q < length (promises w) \<and>
             promises w ! q = Pending \<and>
             promises (step positions op w) = (promises w)[q := Resolved a]"
      then obtain q a where q: "promise_of (ld_onLoad ld') = Some q"
        and e: "promises (step positions op w) = (promises w)[q := Resolved a]"
        by blast
      have "q \<noteq> p"
        using o finish(1,2) q by (auto simp add: orphaned_def)
      then show ?thesis
        using p pe by (simp add: e)
    qed
    ultimately show ?thesis by simp
  qed
  then show ?thesis
    using wf' by (simp add: abandoned_def del: step.simps)
qed

lemma abandoned_run:
  assumes "abandoned p w"
  shows "abandoned p (run positions es w)"
  using assms
proof (induction es arbitrary: w)
  case Nil
  then show ?case by simp
next
  case (Cons e es)
  show ?case
    using Cons.IH [OF abandoned_step [OF Cons.prems, of positions e]]
    by (simp del: step.simps)
qed

lemma loads_wf_run:
  assumes "loads_wf w"
  shows "loads_wf (run positions es w)"
  using assms
proof (induction es arbitrary: w)
  case Nil
  then show ?case by simp
next
  case (Cons e es)
  show ?case
    using Cons.IH [OF loads_wf_step [OF Cons.prems, of positions e]]
    by (simp del: step.simps)
qed

lemma loads_wf_init: "loads_wf init_world"
  by (simp add: loads_wf_def init_world_def)

lemma abandoned_after_error:
  assumes "loads_wf w"
    and "promises w1 = promises w @ [Pending]"
    and "loads w1 = loads w @ [Some ld]"
    and "promise_of (ld_onLoad ld) = Some (length (promises w))"
  shows "abandoned (length (promises w)) (step positions (LoadError (length (loads w))) w1)"
proof -
  have pl: "pending_load (length (loads w)) w1 = Some (ld_onLoad ld)"
    by (simp add: pending_load_def assms(3))
  have l: "loads (step positions (LoadError (length (loads w))) w1) = loads w @ [None]"
    and p: "promises (step positions (LoadError (length (loads w))) w1) =
      promises w @ [Pending]"
    by (simp_all add: pl finish_load_frame assms(2,3))
  have old: "promise_of (ld_onLoad ld') \<noteq> Some (length (promises w))"
    if "k < length (loads w)" and "loads w ! k = Some ld'" for k ld'
  proof (cases "promise_of (ld_onLoad ld')")
    case None
    then show ?thesis by simp
  next
    case (Some q)
    then have "q < length (promises w)"
      using assms(1) that by (auto simp add: loads_wf_def)
    then show ?thesis using Some by simp
  qed
  have o: "orphaned (length (promises w)) (step positions (LoadError (length (loads w))) w1)"
    unfolding orphaned_def l
  proof (intro allI impI)
    fix k ld'
    assume k: "k < length (loads w @ [None])" and e: "(loads w @ [None]) ! k = Some ld'"
    then have "k < length (loads w)"
      by (cases "k = length (loads w)") (auto simp add: nth_append)
    then show "promise_of (ld_onLoad ld') \<noteq> Some (length (promises w))"
      using old e by (simp add: nth_append)
  qed
  have wf: "loads_wf (step positions (LoadError (length (loads w))) w1)"
    unfolding loads_wf_def l p
  proof (intro allI impI)
    fix k ld' q
    assume k: "k < length (loads w @ [None])"
      and e: "(loads w @ [None]) ! k = Some ld' \<and> promise_of (ld_onLoad ld') = Some q"
    then have "k < length (loads w)"
      by (cases "k = length (loads w)") (auto simp add: nth_append)
    then have "q < length (promises w)"
      using assms(1) e by (auto simp add: loads_wf_def nth_append)
    then show "q < length (promises w @ [Pending])" by simp
  qed
  show ?thesis
    unfolding abandoned_def using o wf by (simp add: p del: step.simps)
qed


lemma renderText_never_settles:
  assumes "loads_wf w"
  shows "promises (run positions (LoadError (length (loads w)) # es) (snd (renderText opts w))) !
      fst (renderText opts w) = Pending"
proof -
  have "abandoned (length (promises w))
      (step positions (LoadError (length (loads w))) (snd (renderText opts w)))"
    by (rule abandoned_after_error [OF assms, where ld = "\<lparr>ld_loader = FontLoader,
        ld_url = JSString (dflt_opt default_font (rt_font opts)),
        ld_onLoad = OnFont opts (length (promises w))\<rparr>"])
       (simp_all add: renderText_effect)
  then have "abandoned (length (promises w))
      (run positions es (step positions (LoadError (length (loads w)))
         (snd (renderText opts w))))"
    by (rule abandoned_run)
  then show ?thesis
    by (simp add: abandoned_def renderText_effect del: step.simps)
qed

lemma renderGltfModel_never_settles:
  assumes "loads_wf w"
  shows "promises (run positions (LoadError (length (loads w)) # es)
      (snd (renderGltfModel opts w))) ! fst (renderGltfModel opts w) = Pending"
proof -
  have "abandoned (length (promises w))
      (step positions (LoadError (length (loads w))) (snd (renderGltfModel opts w)))"
    by (rule abandoned_after_error [OF assms, where ld = "\<lparr>ld_loader = GLTFLoader,
        ld_url = JSString (dflt_opt [] (rg_model opts)),
        ld_onLoad = OnGltf opts (length (promises w))\<rparr>"])
       (simp_all add: renderGltfModel_effect)
  then have "abandoned (length (promises w))
      (run positions es (step positions (LoadError (length (loads w)))
         (snd (renderGltfModel opts w))))"
    by (rule abandoned_run)
  then show ?thesis
    by (simp add: abandoned_def renderGltfModel_effect del: step.simps)
qed

lemma pending_never_rejected:
  assumes "q < length (promises w)" and "promises w ! q = Pending"
  shows "promises (run positions es w) ! q \<noteq> Rejected"
  using run_promise [OF assms(1), of positions es] assms(2) by auto

lemma promise_changes_only_in_success:
  assumes "q < length (promises w)"
    and "promises (step positions op w) ! q \<noteq> promises w ! q"
  shows "promises w ! q = Pending \<and> (\<exists>a. promises (step positions op w) ! q = Resolved a) \<and>
    ((\<exists>k f. op = FontLoadDone k f) \<or> (\<exists>k g. op = GltfLoadDone k g))"
proof -
  have a: "promises w ! q = Pending \<and> (\<exists>a. promises (step positions op w) ! q = Resolved a)"
    using step_promise [OF assms(1), of positions op] assms(2) by blast
  have "(\<exists>k f. op = FontLoadDone k f) \<or> (\<exists>k g. op = GltfLoadDone k g)"
  proof (rule ccontr)
    assume "\<not> ((\<exists>k f. op = FontLoadDone k f) \<or> (\<exists>k g. op = GltfLoadDone k g))"
    then have "take (length (promises w)) (promises (step positions op w)) = promises w"
      by (intro step_promise_change) blast+
    then have "promises (step positions op w) ! q = promises w ! q"
      using assms(1) by (metis nth_take)
    then show False using assms(2) by simp
  qed
  then show ?thesis using a by blast
qed

text \<open>
  C9. The promise that \<open>renderText\<close> or \<open>renderGltfModel\<close> returns is pending when
  the call returns, and in a world where every load in flight belongs to a promise
  handed out (every world the module reaches is one): it is never rejected, whatever
  happens next; it is resolved when the loader reports success, by the load callback;
  and if the loader reports failure instead, it stays pending through every later call
  and event. No step other than the success of a font or model load changes the state
  of any promise, and such a step only resolves a pending one.
\<close>

theorem load_promise_only_resolves:
  assumes "loads_wf w"
  shows "(let r = renderText topts w; loaded = fst r; k = length (loads w)
          in promises (snd r) ! loaded = Pending
             \<and> (\<forall>es. promises (run positions es (snd r)) ! loaded \<noteq> Rejected)
             \<and> (\<forall>font. promises (step positions (FontLoadDone k font) (snd r)) ! loaded =
                         Resolved (length (heap w)))
             \<and> (\<forall>es. promises (run positions (LoadError k # es) (snd r)) ! loaded = Pending))
       \<and> (let r = renderGltfModel gopts w; loaded = fst r; k = length (loads w)
          in promises (snd r) ! loaded = Pending
             \<and> (\<forall>es. promises (run positions es (snd r)) ! loaded \<noteq> Rejected)
             \<and> (\<forall>model. promises (step positions (GltfLoadDone k model) (snd r)) ! loaded =
                          Resolved (Suc (length (heap w))))
             \<and> (\<forall>es. promises (run positions (LoadError k # es) (snd r)) ! loaded = Pending))
       \<and> (\<forall>op q. q < length (promises w) \<and>
                  promises (step positions op w) ! q \<noteq> promises w ! q \<longrightarrow>
             promises w ! q = Pending \<and>
             (\<exists>a. promises (step positions op w) ! q = Resolved a) \<and>
             ((\<exists>k f. op = FontLoadDone k f) \<or> (\<exists>k g. op = GltfLoadDone k g)))"
proof (intro conjI)
  have t: "fst (renderText topts w) < length (promises (snd (renderText topts w)))"
    "promises (snd (renderText topts w)) ! fst (renderText topts w) = Pending"
    by (simp_all add: renderText_effect)
  have t3: "promises (step positions (FontLoadDone (length (loads w)) font)
      (snd (renderText topts w))) ! fst (renderText topts w) = Resolved (length (heap w))"
    for font
    unfolding font_done_fields(2) by (simp add: renderText_effect)
  show "let r = renderText topts w; loaded = fst r; k = length (loads w)
          in promises (snd r) ! loaded = Pending
             \<and> (\<forall>es. promises (run positions es (snd r)) ! loaded \<noteq> Rejected)
             \<and> (\<forall>font. promises (step positions (FontLoadDone k font) (snd r)) ! loaded =
                         Resolved (length (heap w)))
             \<and> (\<forall>es. promises (run positions (LoadError k # es) (snd r)) ! loaded = Pending)"
    unfolding Let_def
    using t(2) pending_never_rejected [OF t] t3 renderText_never_settles [OF assms]
    by blast
  have g: "fst (renderGltfModel gopts w) < length (promises (snd (renderGltfModel gopts w)))"
    "promises (snd (renderGltfModel gopts w)) ! fst (renderGltfModel gopts w) = Pending"
    by (simp_all add: renderGltfModel_effect)
  have g3: "promises (step positions (GltfLoadDone (length (loads w)) model)
      (snd (renderGltfModel gopts w))) ! fst (renderGltfModel gopts w) =
      Resolved (Suc (length (heap w)))"
    for model
    unfolding gltf_done_fields(2) by (simp add: renderGltfModel_effect)
  show "let r = renderGltfModel gopts w; loaded = fst r; k = length (loads w)
          in promises (snd r) ! loaded = Pending
             \<and> (\<forall>es. promises (run positions es (snd r)) ! loaded \<noteq> Rejected)
             \<and> (\<forall>model. promises (step positions (GltfLoadDone k model) (snd r)) ! loaded =
                          Resolved (Suc (length (heap w))))
             \<and> (\<forall>es. promises (run positions (LoadError k # es) (snd r)) ! loaded = Pending)"
    unfolding Let_def
    using g(2) pending_never_rejected [OF g] g3 renderGltfModel_never_settles [OF assms]
    by blast
  show "\<forall>op q. q < length (promises w) \<and>
                  promises (step positions op w) ! q \<noteq> promises w ! q \<longrightarrow>
             promises w ! q = Pending \<and>
             (\<exists>a. promises (step positions op w) ! q = Resolved a) \<and>
             ((\<exists>k f. op = FontLoadDone k f) \<or> (\<exists>k g. op = GltfLoadDone k g))"
    using promise_changes_only_in_success by blast
qed

theorem load_promise_only_resolves_witness:
  "loads_wf init_world
   \<and> promises (step no_positions (FontLoadDone 0 wide_font)
        (snd (renderText text_animated init_world))) ! 0 = Resolved 0
   \<and> promises (run no_positions [LoadError 0, FontLoadDone 0 wide_font, WindowResize 640 480]
        (snd (renderText text_animated init_world))) ! 0 = Pending
   \<and> promises (run no_positions [LoadError 0, GltfLoadDone 0 robot]
        (snd (renderGltfModel gltf_animated init_world))) ! 0 = Pending"
proof -
  have l: "length (loads init_world) = 0" "length (heap init_world) = 0"
    "length (promises init_world) = 0"
    by (simp_all add: init_world_def)
  have f: "fst (renderText text_animated init_world) = 0"
    "fst (renderGltfModel gltf_animated init_world) = 0"
    by (simp_all add: renderText_effect renderGltfModel_effect l)
  note t = load_promise_only_resolves [OF loads_wf_init, of text_animated no_positions
      gltf_animated, unfolded Let_def l f]
  show ?thesis
    using t loads_wf_init by blast
qed


lemma object_at_fresh: "object_at w (length (heap w)) = None"
  by (simp add: object_at_def)

lemma error_step_animationList:
  "animationList (step positions (LoadError k) w) = animationList w"
  by (simp add: finish_load_frame split: option.splits)

text \<open>
  C7, as the source has it. No call or event removes or changes an entry of
  \<open>animationList\<close>, and each appends at most one. \<open>renderShape\<close> and \<open>renderBox\<close>
  called with an animation callback append exactly one entry, whose element is the
  object the call has just created and returns; without a callback they append none.
  \<open>renderText\<close> and \<open>renderGltfModel\<close> append nothing when they are called: the entry
  is appended by the load callback, when the load succeeds, for the new mesh or for the
  loaded asset, if the call gave a callback, and none otherwise. When the load fails no
  entry is appended.
\<close>

theorem animationList_append_only:
  "(\<exists>es. animationList (run positions ops w) = animationList w @ es)
   \<and> (\<exists>es. animationList (step positions op w) = animationList w @ es \<and> length es \<le> 1)
   \<and> (\<forall>f. rs_animate shp = JSFunction f \<longrightarrow>
          animationList (snd (renderShape positions shp w)) =
            animationList w @ [\<lparr>element = fst (renderShape positions shp w), animate = f\<rparr>])
   \<and> (typeof_arg (rs_animate shp) \<noteq> ''function'' \<longrightarrow>
          animationList (snd (renderShape positions shp w)) = animationList w)
   \<and> object_at w (fst (renderShape positions shp w)) = None
   \<and> result_object (renderShape positions shp w) \<noteq> None
   \<and> (\<forall>f. rb_animate box = JSFunction f \<longrightarrow>
          animationList (snd (renderBox box w)) =
            animationList w @ [\<lparr>element = fst (renderBox box w), animate = f\<rparr>])
   \<and> (typeof_arg (rb_animate box) \<noteq> ''function'' \<longrightarrow>
          animationList (snd (renderBox box w)) = animationList w)
   \<and> object_at w (fst (renderBox box w)) = None
   \<and> result_object (renderBox box w) \<noteq> None
   \<and> animationList (snd (renderText txt w)) = animationList w
   \<and> (\<forall>font f. rt_animate txt = JSFunction f \<longrightarrow>
          animationList (step positions (FontLoadDone (length (loads w)) font)
                           (snd (renderText txt w))) =
            animationList w @ [\<lparr>element = length (heap w), animate = f\<rparr>]
          \<and> object_at w (length (heap w)) = None
          \<and> object_at (step positions (FontLoadDone (length (loads w)) font)
                          (snd (renderText txt w))) (length (heap w)) =
              Some (text_mesh txt font))
   \<and> (\<forall>font. typeof_arg (rt_animate txt) \<noteq> ''function'' \<longrightarrow>
          animationList (step positions (FontLoadDone (length (loads w)) font)
                           (snd (renderText txt w))) = animationList w)
   \<and> animationList (step positions (LoadError (length (loads w))) (snd (renderText txt w))) =
       animationList w
   \<and> animationList (snd (renderGltfModel mdl w)) = animationList w
   \<and> (\<forall>model f. rg_animate mdl = JSFunction f \<longrightarrow>
          animationList (step positions (GltfLoadDone (length (loads w)) model)
                           (snd (renderGltfModel mdl w))) =
            animationList w @ [\<lparr>element = Suc (length (heap w)), animate = f\<rparr>]
          \<and> asset_at w (Suc (length (heap w))) = None
          \<and> asset_at (step positions (GltfLoadDone (length (loads w)) model)
                         (snd (renderGltfModel mdl w))) (Suc (length (heap w))) \<noteq> None)
   \<and> (\<forall>model. typeof_arg (rg_animate mdl) \<noteq> ''function'' \<longrightarrow>
          animationList (step positions (GltfLoadDone (length (loads w)) model)
                           (snd (renderGltfModel mdl w))) = animationList w)
   \<and> animationList (step positions (LoadError (length (loads w)))
                       (snd (renderGltfModel mdl w))) = animationList w"
proof (intro conjI allI impI)
  show "\<exists>es. animationList (run positions ops w) = animationList w @ es"
    by (rule run_appends)
  show "\<exists>es. animationList (step positions op w) = animationList w @ es \<and> length es \<le> 1"
    by (rule step_appends)
next
  fix f
  assume "rs_animate shp = JSFunction f"
  then show "animationList (snd (renderShape positions shp w)) =
      animationList w @ [\<lparr>element = fst (renderShape positions shp w), animate = f\<rparr>]"
    by (simp add: renderShape_frame renderShape_result(1))
next
  assume "typeof_arg (rs_animate shp) \<noteq> ''function''"
  then show "animationList (snd (renderShape positions shp w)) = animationList w"
    by (cases "rs_animate shp") (simp_all add: renderShape_frame)
next
  show "object_at w (fst (renderShape positions shp w)) = None"
    by (simp add: renderShape_result(1) object_at_fresh)
  show "result_object (renderShape positions shp w) \<noteq> None"
    by (simp add: renderShape_result(2))
next
  fix f
  assume "rb_animate box = JSFunction f"
  then show "animationList (snd (renderBox box w)) =
      animationList w @ [\<lparr>element = fst (renderBox box w), animate = f\<rparr>]"
    by (simp add: renderBox_frame renderBox_result(1))
next
  assume "typeof_arg (rb_animate box) \<noteq> ''function''"
  then show "animationList (snd (renderBox box w)) = animationList w"
    by (cases "rb_animate box") (simp_all add: renderBox_frame)
next
  show "object_at w (fst (renderBox box w)) = None"
    by (simp add: renderBox_result(1) object_at_fresh)
  show "result_object (renderBox box w) \<noteq> None"
    by (simp add: renderBox_result(2))
  show "animationList (snd (renderText txt w)) = animationList w"
    by (simp add: renderText_effect)
next
  fix font f
  assume "rt_animate txt = JSFunction f"
  then show "animationList (step positions (FontLoadDone (length (loads w)) font)
                           (snd (renderText txt w))) =
            animationList w @ [\<lparr>element = length (heap w), animate = f\<rparr>]"
    by (simp add: font_done_fields(3) del: step.simps)
  show "object_at w (length (heap w)) = None"
    by (rule object_at_fresh)
  show "object_at (step positions (FontLoadDone (length (loads w)) font)
                          (snd (renderText txt w))) (length (heap w)) =
              Some (text_mesh txt font)"
    by (simp add: object_at_def font_done_fields(1) del: step.simps)
next
  fix font
  assume "typeof_arg (rt_animate txt) \<noteq> ''function''"
  then show "animationList (step positions (FontLoadDone (length (loads w)) font)
                           (snd (renderText txt w))) = animationList w"
    by (cases "rt_animate txt") (simp_all add: font_done_fields(3) del: step.simps)
next
  show "animationList (step positions (LoadError (length (loads w))) (snd (renderText txt w))) =
       animationList w"
    unfolding error_step_animationList by (simp add: renderText_effect)
  show "animationList (snd (renderGltfModel mdl w)) = animationList w"
    by (simp add: renderGltfModel_effect)
next
  fix model f
  assume "rg_animate mdl = JSFunction f"
  then show "animationList (step positions (GltfLoadDone (length (loads w)) model)
                           (snd (renderGltfModel mdl w))) =
            animationList w @ [\<lparr>element = Suc (length (heap w)), animate = f\<rparr>]"
    by (simp add: gltf_done_fields(3) del: step.simps)
  show "asset_at w (Suc (length (heap w))) = None"
    by (simp add: asset_at_def)
  show "asset_at (step positions (GltfLoadDone (length (loads w)) model)
                         (snd (renderGltfModel mdl w))) (Suc (length (heap w))) \<noteq> None"
    by (simp add: asset_at_def gltf_done_fields(1) nth_append del: step.simps)
next
  fix model
  assume "typeof_arg (rg_animate mdl) \<noteq> ''function''"
  then show "animationList (step positions (GltfLoadDone (length (loads w)) model)
                           (snd (renderGltfModel mdl w))) = animationList w"
    by (cases "rg_animate mdl") (simp_all add: gltf_done_fields(3) del: step.simps)
next
  show "animationList (step positions (LoadError (length (loads w)))
                       (snd (renderGltfModel mdl w))) = animationList w"
    unfolding error_step_animationList by (simp add: renderGltfModel_effect)
qed

theorem animationList_append_only_witness:
  "rs_animate shape_animated = JSFunction 7
   \<and> animationList (snd (renderShape no_positions shape_animated init_world)) =
       [\<lparr>element = 0, animate = 7\<rparr>]
   \<and> typeof_arg (rs_animate no_shape_options) \<noteq> ''function''
   \<and> animationList (snd (renderShape no_positions no_shape_options init_world)) = []
   \<and> rt_animate text_animated = JSFunction 7
   \<and> animationList (snd (renderText text_animated init_world)) = []
   \<and> animationList (step no_positions (FontLoadDone 0 wide_font)
        (snd (renderText text_animated init_world))) = [\<lparr>element = 0, animate = 7\<rparr>]"
proof -
  have l: "length (loads init_world) = 0" "length (heap init_world) = 0"
    "animationList init_world = []"
    by (simp_all add: init_world_def)
  have h1: "rs_animate shape_animated = JSFunction 7"
    and h2: "typeof_arg (rs_animate no_shape_options) \<noteq> ''function''"
    and h3: "rt_animate text_animated = JSFunction 7"
    by (simp_all add: shape_animated_def no_shape_options_def text_animated_def
        no_text_options_def)
  have f: "fst (renderShape no_positions shape_animated init_world) = 0"
    by (simp add: renderShape_result(1) l)
  note a = animationList_append_only [of no_positions "[]" init_world IsSupported
      shape_animated no_box_options text_animated no_gltf_options, unfolded l f]
  note b = animationList_append_only [of no_positions "[]" init_world IsSupported
      no_shape_options no_box_options text_animated no_gltf_options, unfolded l]
  have g1: "animationList (snd (renderShape no_positions shape_animated init_world)) =
       [\<lparr>element = 0, animate = 7\<rparr>]"
    using a h1 by (simp del: step.simps)
  have g2: "animationList (snd (renderShape no_positions no_shape_options init_world)) = []"
    using b h2 by (simp del: step.simps)
  have g3: "animationList (snd (renderText text_animated init_world)) = []"
    using a by (simp del: step.simps)
  have g4: "animationList (step no_positions (FontLoadDone 0 wide_font)
        (snd (renderText text_animated init_world))) = [\<lparr>element = 0, animate = 7\<rparr>]"
    using a h3 by (simp del: step.simps)
  show ?thesis
    by (intro conjI h1 g1 h2 g2 h3 g3 g4)
qed

text \<open>
  \<open>renderGltfModel({ model, animate })\<close> whose load fails: the call was made with a
  callback and \<open>animationList\<close> stays empty. C7 as stated fails.
\<close>

theorem failed_load_registers_nothing_counterexample:
  "rg_animate gltf_animated = JSFunction 7
   \<and> animationList (snd (renderGltfModel gltf_animated init_world)) = []
   \<and> animationList (run no_positions [RenderGltfModel gltf_animated, LoadError 0] init_world) = []"
  by (simp add: gltf_animated_def no_gltf_options_def renderGltfModel_effect init_world_def
      pending_load_def finish_load_def)

end
